theory Spec2Isabelle
  imports Complex_Main "HOL-Library.AList"
begin

section \<open>Symbolic graphs of the tensor engine\<close>

text \<open>
  The module \<^verbatim>\<open>emotiw/dauphiya/ml.py\<close> never computes on numbers itself: every
  model method builds an expression graph of the tensor engine (\<^verbatim>\<open>T.dot\<close>,
  \<^verbatim>\<open>T.nnet.sigmoid\<close>, \<^verbatim>\<open>self.rng.binomial\<close>, \<^verbatim>\<open>T.grad\<close>, ...) and hands it to
  \<^verbatim>\<open>theano.function\<close>. The graphs are therefore the data of the program, and they
  are modelled as a datatype: one constructor per kind of node the module creates.
\<close>

datatype error =
    IndexError | NameError | TypeError | ValueError | ZeroDivisionError | KeyError | IOError
  | EngineError

text \<open>
  Arrays built by \<^verbatim>\<open>numpy\<close> while a model is constructed. A random array carries the
  number of the draw of \<^verbatim>\<open>numpy.random\<close> it came from.
\<close>

datatype nparray =
    NpEmpty2                  \<comment> \<open>\<^verbatim>\<open>numpy.array([[]])\<close>, shape (1, 0)\<close>
  | NpEmpty1                  \<comment> \<open>\<^verbatim>\<open>numpy.array([])\<close>, shape (0,)\<close>
  | NpZeros "nat list"        \<comment> \<open>\<^verbatim>\<open>numpy.zeros(shape)\<close>\<close>
  | NpNormal nat "nat list"   \<comment> \<open>\<^verbatim>\<open>numpy.random.normal(0, 0.01, shape)\<close>\<close>
  | NpGlorot nat nat nat
      \<comment> \<open>\<^verbatim>\<open>numpy.random.uniform(-sqrt(6./(n_in+n_out)), sqrt(6./(n_in+n_out)), (n_in, n_out))\<close>\<close>
  | NpSignMask nat nat
      \<comment> \<open>\<^verbatim>\<open>numpy.sign(numpy.random.uniform(low=-1, high=1, size=(n_out,)))\<close>\<close>

datatype cval = PyFloat real | PyInt int | NpArr nparray

datatype op =
    Dot | Add | Sub | Mul | TrueDiv | Neg | Pow | Mod
  | Sigmoid | Tanh | Softmax | Softplus | Log | Exp
  | Maximum | Minimum
  | Transpose
  | SumOver "nat option" | MeanOver "nat option" | MaxOver "nat option"
  | ArgMaxOver "nat option"
  | ShapeAt nat          \<comment> \<open>\<^verbatim>\<open>x.shape[k]\<close>\<close>
  | ARange               \<comment> \<open>\<^verbatim>\<open>T.arange(n)\<close>\<close>
  | Column               \<comment> \<open>\<^verbatim>\<open>x[:, i]\<close>\<close>
  | SetColumn            \<comment> \<open>\<^verbatim>\<open>T.set_subtensor(x[:, i], y)\<close>\<close>
  | AdvIndex             \<comment> \<open>\<^verbatim>\<open>x[rows, cols]\<close>\<close>
  | Cast

datatype rdist = Binomial | Normal

datatype texpr =
    Input string                       \<comment> \<open>\<^verbatim>\<open>T.matrix('v')\<close>: an input of the function\<close>
  | Shared nat                         \<comment> \<open>a shared variable, by the order of its creation\<close>
  | Const cval
  | Apply op "texpr list"
  | Random rdist "texpr list"          \<comment> \<open>a draw from the model's \<^verbatim>\<open>RandomStreams\<close>\<close>
  | Grad texpr texpr "texpr list"      \<comment> \<open>\<^verbatim>\<open>T.grad(cost, wrt, consider_constant)\<close>\<close>
  | Scan "texpr list" "texpr list" "texpr list" "texpr list" nat
      \<comment> \<open>output number k of \<^verbatim>\<open>theano.scan(step, sequences, outputs_info, non_sequences)\<close>;
          the first list holds the graphs the step function returns\<close>

text \<open>Does a graph draw from the random streams when it is run?\<close>

fun uses_rng :: "texpr \<Rightarrow> bool" where
  "uses_rng (Input n) = False"
| "uses_rng (Shared i) = False"
| "uses_rng (Const c) = False"
| "uses_rng (Apply f xs) = list_ex uses_rng xs"
| "uses_rng (Random d xs) = True"
| "uses_rng (Grad c w cc) = (uses_rng c \<or> uses_rng w \<or> list_ex uses_rng cc)"
| "uses_rng (Scan st sq oi ns k) =
     (list_ex uses_rng st \<or> list_ex uses_rng sq \<or> list_ex uses_rng oi \<or> list_ex uses_rng ns)"

text \<open>
  A graph is \<open>plain\<close> when it is made of inputs, shared variables, constants and
  deterministic operations only.
\<close>

fun plain :: "texpr \<Rightarrow> bool" where
  "plain (Input n) = True"
| "plain (Shared i) = True"
| "plain (Const c) = True"
| "plain (Apply f xs) = list_all plain xs"
| "plain (Random d xs) = False"
| "plain (Grad c w cc) = False"
| "plain (Scan st sq oi ns k) = False"

text \<open>Does a graph overwrite a column of a matrix (\<^verbatim>\<open>T.set_subtensor\<close>)?\<close>

fun perturbs :: "texpr \<Rightarrow> bool" where
  "perturbs (Input n) = False"
| "perturbs (Shared i) = False"
| "perturbs (Const c) = False"
| "perturbs (Apply f xs) = (f = SetColumn \<or> list_ex perturbs xs)"
| "perturbs (Random d xs) = list_ex perturbs xs"
| "perturbs (Grad c w cc) = (perturbs c \<or> perturbs w \<or> list_ex perturbs cc)"
| "perturbs (Scan st sq oi ns k) =
     (list_ex perturbs st \<or> list_ex perturbs sq \<or> list_ex perturbs oi \<or> list_ex perturbs ns)"

section \<open>The engine: values, compiled functions, shared state\<close>

text \<open>
  The tensor engine is not part of the repository. Its numerics are a parameter of the
  model: a value type \<open>'v\<close>, a state \<open>'r\<close> of the random streams, and the meaning of
  every kind of node. \<open>None\<close> is a run-time error of the engine (a shape mismatch, an
  index out of range).
\<close>

record ('v, 'r) world =
  store :: "nat \<rightharpoonup> 'v"        \<comment> \<open>the values of the shared variables\<close>
  next_id :: nat              \<comment> \<open>how many shared variables were created\<close>
  rng :: 'r                   \<comment> \<open>the state of the model's \<^verbatim>\<open>RandomStreams\<close>\<close>
  np_draws :: nat             \<comment> \<open>how many draws \<^verbatim>\<open>numpy.random\<close> has served\<close>

record ('v, 'r) engine =
  e_const :: "cval \<Rightarrow> 'v"
  e_op :: "op \<Rightarrow> 'v list \<Rightarrow> 'v option"
  e_draw :: "rdist \<Rightarrow> 'r \<Rightarrow> texpr \<Rightarrow> 'v list \<Rightarrow> 'v option"
  e_next :: "'r \<Rightarrow> 'r"
  e_seed :: "nat \<Rightarrow> 'r"
  e_grad :: "texpr \<Rightarrow> (string \<rightharpoonup> 'v) \<Rightarrow> ('v, 'r) world \<Rightarrow> 'v option \<Rightarrow> 'v option \<Rightarrow> 'v option"
  e_scan :: "texpr \<Rightarrow> (string \<rightharpoonup> 'v) \<Rightarrow> ('v, 'r) world \<Rightarrow> 'v option"
  e_shape :: "'v \<Rightarrow> nat list"
  e_rows :: "'v \<Rightarrow> nat list \<Rightarrow> 'v"
  e_shuffle :: "nat \<Rightarrow> nat list \<Rightarrow> nat list"

text \<open>\<^verbatim>\<open>theano.shared(value)\<close>: a new shared variable.\<close>

definition shared :: "'v \<Rightarrow> ('v, 'r) world \<Rightarrow> nat \<times> ('v, 'r) world" where
  "shared v w = (next_id w, w\<lparr>store := (store w)(next_id w \<mapsto> v), next_id := Suc (next_id w)\<rparr>)"

text \<open>All of a list of optional values, or \<open>None\<close>.\<close>

fun those_vals :: "'a option list \<Rightarrow> 'a list option" where
  "those_vals [] = Some []"
| "those_vals (None # xs) = None"
| "those_vals (Some x # xs) = (case those_vals xs of None \<Rightarrow> None | Some ys \<Rightarrow> Some (x # ys))"

text \<open>
  The value of a graph, given the function's inputs and the shared state. A random node
  draws from the current state of the streams. The engine differentiates a cost for a
  variable from the graph and the values of both, and unrolls a scan by itself.
\<close>

fun eval :: "('v, 'r) engine \<Rightarrow> (string \<rightharpoonup> 'v) \<Rightarrow> ('v, 'r) world \<Rightarrow> texpr \<Rightarrow> 'v option" where
  "eval E ins w (Input n) = ins n"
| "eval E ins w (Shared i) = store w i"
| "eval E ins w (Const c) = Some (e_const E c)"
| "eval E ins w (Apply f xs) =
     (case those_vals (map (eval E ins w) xs) of None \<Rightarrow> None | Some vs \<Rightarrow> e_op E f vs)"
| "eval E ins w (Random d xs) =
     (case those_vals (map (eval E ins w) xs) of
        None \<Rightarrow> None
      | Some vs \<Rightarrow> e_draw E d (rng w) (Random d xs) vs)"
| "eval E ins w (Grad c wrt cc) =
     e_grad E (Grad c wrt cc) ins w (eval E ins w c) (eval E ins w wrt)"
| "eval E ins w (Scan st sq oi ns k) = e_scan E (Scan st sq oi ns k) ins w"

text \<open>
  \<^verbatim>\<open>theano.function(inputs, output, updates=updates)\<close>: the compiled function keeps the
  graphs. Calling it evaluates the output and every update in the state before the call,
  then assigns all updates at once and advances the random streams the graphs use.
\<close>

record tfunction =
  f_inputs :: "string list"
  f_output :: texpr
  f_updates :: "(nat \<times> texpr) list"

definition theano_function :: "string list \<Rightarrow> texpr \<Rightarrow> (nat \<times> texpr) list option \<Rightarrow> tfunction" where
  "theano_function inputs output updates =
     \<lparr>f_inputs = inputs, f_output = output,
      f_updates = (case updates of None \<Rightarrow> [] | Some us \<Rightarrow> us)\<rparr>"

fun eval_updates ::
  "('v, 'r) engine \<Rightarrow> (string \<rightharpoonup> 'v) \<Rightarrow> ('v, 'r) world \<Rightarrow> (nat \<times> texpr) list \<Rightarrow> (nat \<times> 'v) list option"
where
  "eval_updates E ins w [] = Some []"
| "eval_updates E ins w ((i, e) # us) =
     (case eval E ins w e of
        None \<Rightarrow> None
      | Some v \<Rightarrow> (case eval_updates E ins w us of None \<Rightarrow> None | Some vs \<Rightarrow> Some ((i, v) # vs)))"

fun assign :: "(nat \<times> 'v) list \<Rightarrow> (nat \<rightharpoonup> 'v) \<Rightarrow> (nat \<rightharpoonup> 'v)" where
  "assign [] s = s"
| "assign ((i, v) # vs) s = assign vs (s(i \<mapsto> v))"

definition call_function ::
  "('v, 'r) engine \<Rightarrow> tfunction \<Rightarrow> 'v list \<Rightarrow> ('v, 'r) world \<Rightarrow> (error + 'v) \<times> ('v, 'r) world"
where
  "call_function E f args w =
     (if length args \<noteq> length (f_inputs f) then (Inl TypeError, w)
      else
        let ins = map_of (zip (f_inputs f) args) in
        case eval E ins w (f_output f) of
          None \<Rightarrow> (Inl EngineError, w)
        | Some out \<Rightarrow>
            (case eval_updates E ins w (f_updates f) of
               None \<Rightarrow> (Inl EngineError, w)
             | Some vs \<Rightarrow>
                 (Inr out,
                  w\<lparr>store := assign vs (store w),
                    rng := (if uses_rng (f_output f) \<or> list_ex (\<lambda>u. uses_rng (snd u)) (f_updates f)
                            then e_next E (rng w) else rng w)\<rparr>)))"

section \<open>An abstract engine: shapes and integer scalars\<close>

text \<open>
  One instance of the engine is used to run the models on shapes: an array of floats is
  known by its shape only, an integer scalar by its value. The rules are those of the
  array library: matrix product, element-wise operations that broadcast a shorter shape
  over the leading dimensions of a longer one, reductions that drop an axis.
\<close>

datatype aval = AInt int | ATensor "nat list"

fun shape_of :: "aval \<Rightarrow> nat list" where
  "shape_of (AInt n) = []"
| "shape_of (ATensor s) = s"

fun np_shape :: "nparray \<Rightarrow> nat list" where
  "np_shape NpEmpty2 = [1, 0]"
| "np_shape NpEmpty1 = [0]"
| "np_shape (NpZeros s) = s"
| "np_shape (NpNormal k s) = s"
| "np_shape (NpGlorot k n_in n_out) = [n_in, n_out]"
| "np_shape (NpSignMask k n_out) = [n_out]"

fun abs_const :: "cval \<Rightarrow> aval" where
  "abs_const (PyFloat x) = ATensor []"
| "abs_const (PyInt n) = AInt n"
| "abs_const (NpArr a) = ATensor (np_shape a)"

definition bcast :: "nat list \<Rightarrow> nat list \<Rightarrow> nat list option" where
  "bcast s t =
     (if length s \<le> length t
      then (if drop (length t - length s) t = s then Some t else None)
      else (if drop (length s - length t) s = t then Some s else None))"

fun dot_shape :: "nat list \<Rightarrow> nat list \<Rightarrow> nat list option" where
  "dot_shape [m, k] [k', n] = (if k = k' then Some [m, n] else None)"
| "dot_shape [k] [k', n] = (if k = k' then Some [n] else None)"
| "dot_shape [m, k] [k'] = (if k = k' then Some [m] else None)"
| "dot_shape [k] [k'] = (if k = k' then Some [] else None)"
| "dot_shape s t = None"

definition drop_axis :: "nat option \<Rightarrow> nat list \<Rightarrow> nat list option" where
  "drop_axis ax s =
     (case ax of
        None \<Rightarrow> Some []
      | Some k \<Rightarrow> (if k < length s then Some (take k s @ drop (Suc k) s) else None))"

definition elementwise2 :: "op \<Rightarrow> bool" where
  "elementwise2 f = (f \<in> set [Add, Sub, Mul, TrueDiv, Pow, Maximum, Minimum, Mod])"

definition elementwise1 :: "op \<Rightarrow> bool" where
  "elementwise1 f = (f \<in> set [Neg, Sigmoid, Tanh, Softplus, Log, Exp, Cast])"

fun abs_op :: "op \<Rightarrow> aval list \<Rightarrow> aval option" where
  "abs_op f [AInt a, AInt b] =
     (if f = Add then Some (AInt (a + b))
      else if f = Sub then Some (AInt (a - b))
      else if f = Mul then Some (AInt (a * b))
      else if f = Mod then (if b = 0 then None else Some (AInt (a mod b)))
      else if elementwise2 f then Some (ATensor [])
      else None)"
| "abs_op f [x, AInt i] =
     (if f = Column then
        (case shape_of x of
           [m, n] \<Rightarrow> (if 0 \<le> i \<and> i < int n then Some (ATensor [m]) else None)
         | _ \<Rightarrow> None)
      else if elementwise2 f then Some (ATensor (shape_of x))
      else None)"
| "abs_op f [x, y] =
     (if f = Dot then map_option ATensor (dot_shape (shape_of x) (shape_of y))
      else if elementwise2 f then map_option ATensor (bcast (shape_of x) (shape_of y))
      else None)"
| "abs_op f [x] =
     (if f = Neg then (case x of AInt a \<Rightarrow> Some (AInt (- a)) | ATensor s \<Rightarrow> Some (ATensor s))
      else if elementwise1 f then Some (ATensor (shape_of x))
      else if f = Transpose then Some (ATensor (rev (shape_of x)))
      else if f = Softmax then
        (case shape_of x of [n] \<Rightarrow> Some (ATensor [1, n]) | [m, n] \<Rightarrow> Some (ATensor [m, n])
         | _ \<Rightarrow> None)
      else
        (case f of
           SumOver ax \<Rightarrow> map_option ATensor (drop_axis ax (shape_of x))
         | MeanOver ax \<Rightarrow> map_option ATensor (drop_axis ax (shape_of x))
         | MaxOver ax \<Rightarrow> map_option ATensor (drop_axis ax (shape_of x))
         | ArgMaxOver ax \<Rightarrow> map_option ATensor (drop_axis ax (shape_of x))
         | ShapeAt k \<Rightarrow>
             (if k < length (shape_of x) then Some (AInt (int (shape_of x ! k))) else None)
         | ARange \<Rightarrow> (case x of AInt n \<Rightarrow> Some (ATensor [nat n]) | _ \<Rightarrow> None)
         | _ \<Rightarrow> None))"
| "abs_op f [x, i, y] =
     (if f = SetColumn then
        (case (shape_of x, i) of
           ([m, n], AInt j) \<Rightarrow>
             (if 0 \<le> j \<and> j < int n \<and> bcast (shape_of y) [m] = Some [m]
              then Some (ATensor [m, n]) else None)
         | _ \<Rightarrow> None)
      else if f = AdvIndex then
        (case (shape_of x, shape_of i, shape_of y) of
           ([m, n], [k], [k']) \<Rightarrow> (if k = k' then Some (ATensor [k]) else None)
         | _ \<Rightarrow> None)
      else None)"
| "abs_op f vs = None"

text \<open>A draw has the shape of its second argument (\<^verbatim>\<open>p\<close> or \<^verbatim>\<open>avg\<close>).\<close>

fun abs_draw :: "rdist \<Rightarrow> unit \<Rightarrow> texpr \<Rightarrow> aval list \<Rightarrow> aval option" where
  "abs_draw d r node [n, p] = Some (ATensor (shape_of p))"
| "abs_draw d r node vs = None"

text \<open>The gradient of a scalar cost has the shape of the variable it is taken for.\<close>

fun abs_grad :: "aval option \<Rightarrow> aval option \<Rightarrow> aval option" where
  "abs_grad (Some (ATensor [])) (Some (ATensor s)) = Some (ATensor s)"
| "abs_grad c v = None"

fun abs_rows :: "aval \<Rightarrow> nat list \<Rightarrow> aval" where
  "abs_rows (ATensor (n # s)) idx = ATensor (length idx # s)"
| "abs_rows v idx = v"

definition abs_engine :: "(aval, unit) engine" where
  "abs_engine =
     \<lparr>e_const = abs_const, e_op = abs_op, e_draw = abs_draw,
      e_next = (\<lambda>r. r), e_seed = (\<lambda>k. ()),
      e_grad = (\<lambda>node ins w. abs_grad),
      e_scan = (\<lambda>node ins w. None),
      e_shape = shape_of, e_rows = abs_rows,
      e_shuffle = (\<lambda>k idx. idx)\<rparr>"

text \<open>The state of a fresh interpreter: no shared variable, no draw made.\<close>

definition world0 :: "(aval, unit) world" where
  "world0 = \<lparr>store = Map.empty, next_id = 0, rng = (), np_draws = 0\<rparr>"

section \<open>The recurrent network\<close>

text \<open>
  \<^verbatim>\<open>RNN.__init__\<close> creates the shared variables \<^verbatim>\<open>h0, W, U, V, b, c\<close>, unrolls the
  recurrence with \<^verbatim>\<open>theano.scan\<close>, takes the gradient of the cross-entropy cost and
  compiles \<^verbatim>\<open>train\<close>, \<^verbatim>\<open>output\<close> and \<^verbatim>\<open>transform\<close>.
\<close>

record rnn =
  rnn_x :: texpr
  rnn_y :: texpr
  rnn_h0 :: nat
  rnn_W :: nat
  rnn_U :: nat
  rnn_V :: nat
  rnn_b :: nat
  rnn_c :: nat
  rnn_params :: "nat list"
  rnn_learning_rate :: nat
  rnn_train :: tfunction
  rnn_output :: tfunction
  rnn_transform :: tfunction

text \<open>The step function of the scan: the new hidden state and the output at one time.\<close>

definition rnn_step :: "texpr \<Rightarrow> texpr \<Rightarrow> texpr \<Rightarrow> texpr \<Rightarrow> texpr \<Rightarrow> texpr \<Rightarrow> texpr \<Rightarrow> texpr list" where
  "rnn_step x_t h_tm1 W U V b c =
     (let h_t = Apply Tanh [Apply Add [Apply Add [Apply Dot [x_t, W], Apply Dot [h_tm1, U]], b]];
          y_t = Apply Sigmoid [Apply Add [Apply Dot [h_t, V], c]]
      in [h_t, y_t])"

definition rnn_cost :: "texpr \<Rightarrow> texpr \<Rightarrow> texpr" where
  "rnn_cost y output =
     Apply Neg [Apply (MeanOver None) [Apply (SumOver (Some 1))
       [Apply Add [Apply Mul [y, Apply Log [output]],
                   Apply Mul [Apply Sub [Const (PyFloat 1), y],
                              Apply Log [Apply Sub [Const (PyFloat 1), output]]]]]]]"

text \<open>
  The loop \<^verbatim>\<open>for param, gparam in zip(self.params, gparams): updates.append(...)\<close>.
\<close>

fun rnn_updates :: "texpr \<Rightarrow> (nat \<times> texpr) list \<Rightarrow> (nat \<times> texpr) list" where
  "rnn_updates lr [] = []"
| "rnn_updates lr ((param, gparam) # rest) =
     (param, Apply Sub [Shared param,
        Apply Mul [lr, Apply Maximum [Const (PyInt (- 15)),
                                      Apply Minimum [gparam, Const (PyFloat 15)]]]])
     # rnn_updates lr rest"

definition RNN_init ::
  "('v, 'r) engine \<Rightarrow> nat \<Rightarrow> nat \<Rightarrow> nat \<Rightarrow> real \<Rightarrow> ('v, 'r) world \<Rightarrow> rnn \<times> ('v, 'r) world"
where
  "RNN_init E n_in n_hiddens n_out learning_rate w0 =
     (let x = Input ''x'';
          y = Input ''y'';
          (h0, w1) = shared (e_const E (NpArr (NpZeros [n_hiddens]))) w0;
          (W, w2) = shared (e_const E (NpArr (NpGlorot (np_draws w1) n_in n_hiddens)))
                      (w1\<lparr>np_draws := Suc (np_draws w1)\<rparr>);
          (U, w3) = shared (e_const E (NpArr (NpGlorot (np_draws w2) n_hiddens n_hiddens)))
                      (w2\<lparr>np_draws := Suc (np_draws w2)\<rparr>);
          (V, w4) = shared (e_const E (NpArr (NpGlorot (np_draws w3) n_hiddens n_out)))
                      (w3\<lparr>np_draws := Suc (np_draws w3)\<rparr>);
          (b, w5) = shared (e_const E (NpArr (NpZeros [n_hiddens]))) w4;
          (c, w6) = shared (e_const E (NpArr (NpZeros [n_out]))) w5;
          params = [W, U, V, b, c];
          step = rnn_step (Input ''x_t'') (Input ''h_tm1'')
                   (Shared W) (Shared U) (Shared V) (Shared b) (Shared c);
          nonseq = [Shared W, Shared U, Shared V, Shared b, Shared c];
          h = Scan step [x] [Shared h0] nonseq 0;
          output = Scan step [x] [Shared h0] nonseq 1;
          cost = rnn_cost y output;
          gparams = map (\<lambda>p. Grad cost (Shared p) []) params;
          (lr, w7) = shared (e_const E (PyFloat learning_rate)) w6;
          updates = rnn_updates (Shared lr) (zip params gparams)
      in (\<lparr>rnn_x = x, rnn_y = y, rnn_h0 = h0, rnn_W = W, rnn_U = U, rnn_V = V,
            rnn_b = b, rnn_c = c, rnn_params = params, rnn_learning_rate = lr,
            rnn_train = theano_function [''x'', ''y''] cost (Some updates),
            rnn_output = theano_function [''x'']
                           (Apply (ArgMaxOver None) [Apply (MeanOver (Some 0)) [output]]) None,
            rnn_transform = theano_function [''x''] (Apply (MeanOver (Some 0)) [h]) None\<rparr>,
          w7))"

text \<open>
  The value of an element-wise expression at one position of the arrays, in exact
  arithmetic: \<open>leaf\<close> gives the element of every shared variable and of every gradient
  there. (Rounding and NaN of machine floats are outside this model.)
\<close>

fun elem :: "(texpr \<Rightarrow> real) \<Rightarrow> texpr \<Rightarrow> real option" where
  "elem leaf (Shared i) = Some (leaf (Shared i))"
| "elem leaf (Grad c wrt cc) = Some (leaf (Grad c wrt cc))"
| "elem leaf (Const (PyFloat x)) = Some x"
| "elem leaf (Const (PyInt n)) = Some (of_int n)"
| "elem leaf (Apply f [a, b]) =
     (case (elem leaf a, elem leaf b) of
        (Some x, Some y) \<Rightarrow>
          (if f = Add then Some (x + y)
           else if f = Sub then Some (x - y)
           else if f = Mul then Some (x * y)
           else if f = Maximum then Some (max x y)
           else if f = Minimum then Some (min x y)
           else None)
      | _ \<Rightarrow> None)"
| "elem leaf e = None"

section \<open>The decorator \<^verbatim>\<open>symbolic\<close>\<close>

text \<open>
  A decorated method is called either with graph nodes (inside another method, while a
  graph is built) or with concrete arrays (from outside). The instance keeps the
  compiled functions as attributes, set by \<^verbatim>\<open>setattr(self, name, ...)\<close>;
  \<open>compilations\<close> counts the calls of \<^verbatim>\<open>theano.function\<close> the decorator has made
  for the instance.
\<close>

datatype 'v arg = Symbolic texpr | Concrete 'v

datatype graph_result =
    Output texpr                                 \<comment> \<open>the method returned one graph\<close>
  | OutputUpdates texpr "(nat \<times> texpr) list"     \<comment> \<open>the method returned a tuple\<close>

datatype 'v result = Graph graph_result | Value 'v

record cache =
  compiled :: "string \<rightharpoonup> tfunction"
  compilations :: nat

fun concrete_args :: "'v arg list \<Rightarrow> 'v list option" where
  "concrete_args [] = Some []"
| "concrete_args (Concrete v # rest) = map_option ((#) v) (concrete_args rest)"
| "concrete_args (Symbolic t # rest) = None"

text \<open>\<^verbatim>\<open>getattr(self, name)(*args)\<close>: the call of a compiled function of the instance.\<close>

definition call_compiled ::
  "('v, 'r) engine \<Rightarrow> tfunction \<Rightarrow> 'v arg list \<Rightarrow> ('v, 'r) world
     \<Rightarrow> (error + 'v result) \<times> ('v, 'r) world"
where
  "call_compiled E f args w =
     (case concrete_args args of
        None \<Rightarrow> (Inl TypeError, w)
      | Some vs \<Rightarrow>
          (case call_function E f vs w of
             (Inl e, w') \<Rightarrow> (Inl e, w')
           | (Inr v, w') \<Rightarrow> (Inr (Value v), w')))"

text \<open>
  \<^verbatim>\<open>if type(res) is tuple: output, updates = res\<close>, \<^verbatim>\<open>else: output, updates = res, None\<close>.
\<close>

fun unpack :: "graph_result \<Rightarrow> texpr \<times> (nat \<times> texpr) list option" where
  "unpack (OutputUpdates out us) = (out, Some us)"
| "unpack (Output out) = (out, None)"

text \<open>
  \<^verbatim>\<open>wrapper(self, *args)\<close> of the decorator, for the method \<open>meth\<close> named \<open>mname\<close>
  and the decorator's list \<open>inputs\<close>.
\<close>

definition wrapper ::
  "('v, 'r) engine \<Rightarrow> string \<Rightarrow> string list
     \<Rightarrow> ('s cache_scheme \<Rightarrow> 'v arg list \<Rightarrow> ('v, 'r) world \<Rightarrow> (error + graph_result) \<times> ('v, 'r) world)
     \<Rightarrow> 's cache_scheme \<Rightarrow> 'v arg list \<Rightarrow> ('v, 'r) world
     \<Rightarrow> (error + 'v result) \<times> 's cache_scheme \<times> ('v, 'r) world"
where
  "wrapper E mname inputs meth self args w =
     (let name = ''__'' @ mname in
      case args of
        [] \<Rightarrow> (Inl IndexError, self, w)
      | Symbolic t # rest \<Rightarrow>
          (case meth self args w of
             (Inl e, w') \<Rightarrow> (Inl e, self, w')
           | (Inr g, w') \<Rightarrow> (Inr (Graph g), self, w'))
      | Concrete v # rest \<Rightarrow>
          (case compiled self name of
             Some f \<Rightarrow> (let (res, w') = call_compiled E f args w in (res, self, w'))
           | None \<Rightarrow>
               (case meth self (map (\<lambda>n. Symbolic (Input n)) inputs) w of
                  (Inl e, w') \<Rightarrow> (Inl e, self, w')
                | (Inr res, w') \<Rightarrow>
                    (let (output, updates) = unpack res;
                         f = theano_function inputs output updates;
                         self' = self\<lparr>compiled := (compiled self)(name \<mapsto> f),
                                      compilations := Suc (compilations self)\<rparr>;
                         (res', w'') = call_compiled E f args w'
                     in (res', self', w'')))))"

text \<open>
  Successive calls of one decorated method on one instance, as a caller's loop makes
  them; and, to compare with, successive calls of one compiled function.
\<close>

fun wrapper_calls ::
  "('v, 'r) engine \<Rightarrow> string \<Rightarrow> string list
     \<Rightarrow> ('s cache_scheme \<Rightarrow> 'v arg list \<Rightarrow> ('v, 'r) world \<Rightarrow> (error + graph_result) \<times> ('v, 'r) world)
     \<Rightarrow> 's cache_scheme \<Rightarrow> 'v arg list list \<Rightarrow> ('v, 'r) world
     \<Rightarrow> (error + 'v result) list \<times> 's cache_scheme \<times> ('v, 'r) world"
where
  "wrapper_calls E mname inputs meth self [] w = ([], self, w)"
| "wrapper_calls E mname inputs meth self (args # later) w =
     (let (res, self', w') = wrapper E mname inputs meth self args w;
          (rs, self'', w'') = wrapper_calls E mname inputs meth self' later w'
      in (res # rs, self'', w''))"

fun compiled_calls ::
  "('v, 'r) engine \<Rightarrow> tfunction \<Rightarrow> 'v arg list list \<Rightarrow> ('v, 'r) world
     \<Rightarrow> (error + 'v result) list \<times> ('v, 'r) world"
where
  "compiled_calls E f [] w = ([], w)"
| "compiled_calls E f (args # later) w =
     (let (res, w') = call_compiled E f args w;
          (rs, w'') = compiled_calls E f later w'
      in (res # rs, w''))"

fun concrete_first :: "'v arg list \<Rightarrow> bool" where
  "concrete_first (Concrete v # rest) = True"
| "concrete_first args = False"

text \<open>A method of one argument whose body only builds a graph.\<close>

definition graph_method ::
  "('s \<Rightarrow> texpr \<Rightarrow> texpr) \<Rightarrow> 's \<Rightarrow> 'v arg list \<Rightarrow> ('v, 'r) world
     \<Rightarrow> (error + graph_result) \<times> ('v, 'r) world"
where
  "graph_method body self args w =
     (case args of
        [Symbolic t] \<Rightarrow> (Inr (Output (body self t)), w)
      | _ \<Rightarrow> (Inl TypeError, w))"

text \<open>A method of one argument whose body returns a graph and updates.\<close>

definition update_method ::
  "('s \<Rightarrow> texpr \<Rightarrow> ('v, 'r) world \<Rightarrow> (error + graph_result) \<times> ('v, 'r) world)
     \<Rightarrow> 's \<Rightarrow> 'v arg list \<Rightarrow> ('v, 'r) world \<Rightarrow> (error + graph_result) \<times> ('v, 'r) world"
where
  "update_method body self args w =
     (case args of
        [Symbolic t] \<Rightarrow> body self t w
      | _ \<Rightarrow> (Inl TypeError, w))"

section \<open>The restricted Boltzmann machines\<close>

text \<open>
  \<^verbatim>\<open>BinaryRBM\<close> and \<^verbatim>\<open>GaussianRBM\<close> have the same attributes and the same
  \<^verbatim>\<open>__init__\<close>: the shared variables \<^verbatim>\<open>_W\<close>, \<^verbatim>\<open>_c\<close>, \<^verbatim>\<open>_b\<close> (here \<open>s_W\<close>,
  \<open>s_c\<close>, \<open>s_b\<close>) and \<^verbatim>\<open>h_samples\<close>, and the settings.
\<close>

record rbm = cache +
  n_hiddens :: nat
  s_W :: nat
  s_c :: nat
  s_b :: nat
  K :: nat
  epsilon :: real
  n_samples :: nat
  epochs :: nat
  h_samples :: nat

definition RBM_init ::
  "('v, 'r) engine \<Rightarrow> nat \<Rightarrow> 'v option \<Rightarrow> 'v option \<Rightarrow> 'v option \<Rightarrow> nat \<Rightarrow> real \<Rightarrow> nat \<Rightarrow> nat
     \<Rightarrow> ('v, 'r) world \<Rightarrow> rbm \<times> ('v, 'r) world"
where
  "RBM_init E n_hid W c b k eps n_samp n_epochs w0 =
     (let (iW, w1) = shared (case W of None \<Rightarrow> e_const E (NpArr NpEmpty2) | Some a \<Rightarrow> a) w0;
          (ic, w2) = shared (case c of None \<Rightarrow> e_const E (NpArr NpEmpty1) | Some a \<Rightarrow> a) w1;
          (ib, w3) = shared (case b of None \<Rightarrow> e_const E (NpArr NpEmpty1) | Some a \<Rightarrow> a) w2;
          (ih, w4) = shared (e_const E (NpArr NpEmpty2)) w3;
          w5 = w4\<lparr>rng := e_seed E (np_draws w4), np_draws := Suc (np_draws w4)\<rparr>
      in (\<lparr>compiled = Map.empty, compilations = 0,
            n_hiddens = n_hid, s_W = iW, s_c = ic, s_b = ib, K = k, epsilon = eps,
            n_samples = n_samp, epochs = n_epochs, h_samples = ih\<rparr>, w5))"

subsection \<open>\<^verbatim>\<open>BinaryRBM\<close>: the bodies of the decorated methods\<close>

definition BinaryRBM_mean_h :: "rbm \<Rightarrow> texpr \<Rightarrow> texpr" where
  "BinaryRBM_mean_h self v =
     Apply Sigmoid [Apply Add [Apply Dot [v, Shared (s_W self)], Shared (s_c self)]]"

definition BinaryRBM_sample_h :: "rbm \<Rightarrow> texpr \<Rightarrow> texpr" where
  "BinaryRBM_sample_h self v = Random Binomial [Const (PyInt 1), BinaryRBM_mean_h self v]"

definition BinaryRBM_mean_v :: "rbm \<Rightarrow> texpr \<Rightarrow> texpr" where
  "BinaryRBM_mean_v self h =
     Apply Sigmoid [Apply Add [Apply Dot [h, Apply Transpose [Shared (s_W self)]],
                               Shared (s_b self)]]"

definition BinaryRBM_sample_v :: "rbm \<Rightarrow> texpr \<Rightarrow> texpr" where
  "BinaryRBM_sample_v self h = Random Binomial [Const (PyInt 1), BinaryRBM_mean_v self h]"

definition BinaryRBM_free_energy :: "rbm \<Rightarrow> texpr \<Rightarrow> texpr" where
  "BinaryRBM_free_energy self v =
     Apply Sub [Apply Neg [Apply Dot [v, Shared (s_b self)]],
                Apply (SumOver (Some 1))
                  [Apply Log [Apply Add [Const (PyFloat 1),
                     Apply Exp [Apply Add [Apply Dot [v, Shared (s_W self)],
                                           Shared (s_c self)]]]]]]"

definition BinaryRBM_gibbs :: "rbm \<Rightarrow> texpr \<Rightarrow> texpr" where
  "BinaryRBM_gibbs self v =
     (let h' = BinaryRBM_sample_h self v;
          v' = BinaryRBM_sample_v self h'
      in v')"

text \<open>
  The loop \<^verbatim>\<open>for _ in range(self.K)\<close> of \<^verbatim>\<open>_fit\<close>, on the pair of the local
  variables \<^verbatim>\<open>v_neg\<close> (not bound before the first round) and \<^verbatim>\<open>h_neg\<close>.
\<close>

fun BinaryRBM_chain :: "rbm \<Rightarrow> nat \<Rightarrow> texpr option \<times> texpr \<Rightarrow> texpr option \<times> texpr" where
  "BinaryRBM_chain self 0 s = s"
| "BinaryRBM_chain self (Suc n) (v_neg, h_neg) =
     BinaryRBM_chain self n
       (let v_neg' = BinaryRBM_sample_v self h_neg;
            h_neg' = BinaryRBM_sample_h self v_neg'
        in (Some v_neg', h_neg'))"

text \<open>
  The loop \<^verbatim>\<open>for p, gp in zip(params, gparams): updates[p] = p - self.epsilon * gp\<close>
  on the dictionary \<^verbatim>\<open>updates\<close>.
\<close>

fun sgd_updates :: "real \<Rightarrow> (nat \<times> texpr) list \<Rightarrow> (nat \<times> texpr) list \<Rightarrow> (nat \<times> texpr) list" where
  "sgd_updates eps [] updates = updates"
| "sgd_updates eps ((p, gp) # rest) updates =
     sgd_updates eps rest
       (AList.update p (Apply Sub [Shared p, Apply Mul [Const (PyFloat eps), gp]]) updates)"

definition BinaryRBM_pseudo_likelihood ::
  "('v, 'r) engine \<Rightarrow> rbm \<Rightarrow> texpr \<Rightarrow> (nat \<times> texpr) list \<Rightarrow> ('v, 'r) world
     \<Rightarrow> (texpr \<times> (nat \<times> texpr) list) \<times> ('v, 'r) world"
where
  "BinaryRBM_pseudo_likelihood E self v_pos updates w =
     (let (bit_i, w') = shared (e_const E (PyInt 0)) w;
          fe_xi = BinaryRBM_free_energy self v_pos;
          fe_xi' = BinaryRBM_free_energy self
                     (Apply SetColumn [v_pos, Shared bit_i,
                        Apply Sub [Const (PyInt 1), Apply Column [v_pos, Shared bit_i]]]);
          updates' = AList.update bit_i
                       (Apply Mod [Apply Add [Shared bit_i, Const (PyInt 1)],
                                   Apply (ShapeAt 1) [v_pos]]) updates
      in ((Apply (MeanOver None)
             [Apply Mul [Apply (ShapeAt 1) [v_pos],
                         Apply Log [Apply Sigmoid [Apply Sub [fe_xi', fe_xi]]]]],
           updates'), w'))"

text \<open>The body of \<^verbatim>\<open>BinaryRBM._fit\<close>.\<close>

definition BinaryRBM_fit_step ::
  "('v, 'r) engine \<Rightarrow> rbm \<Rightarrow> texpr \<Rightarrow> ('v, 'r) world \<Rightarrow> (error + graph_result) \<times> ('v, 'r) world"
where
  "BinaryRBM_fit_step E self v_pos w =
     (case BinaryRBM_chain self (K self) (None, Shared (h_samples self)) of
        (None, h_neg) \<Rightarrow> (Inl NameError, w)
      | (Some v_neg, h_neg) \<Rightarrow>
          (let cost = Apply Sub [Apply (MeanOver None) [BinaryRBM_free_energy self v_pos],
                                 Apply (MeanOver None) [BinaryRBM_free_energy self v_neg]];
               params = [s_W self, s_b self, s_c self];
               gparams = map (\<lambda>p. Grad cost (Shared p) [v_neg]) params;
               updates = sgd_updates (epsilon self) (zip params gparams) [];
               updates = AList.update (h_samples self) h_neg updates;
               ((loss, updates), w') = BinaryRBM_pseudo_likelihood E self v_pos updates w
           in (Inr (OutputUpdates loss updates), w')))"

subsection \<open>\<^verbatim>\<open>GaussianRBM\<close>: the bodies of the decorated methods\<close>

definition GaussianRBM_mean_h :: "rbm \<Rightarrow> texpr \<Rightarrow> texpr" where
  "GaussianRBM_mean_h self v =
     Apply Sigmoid [Apply Add [Apply Dot [v, Shared (s_W self)], Shared (s_c self)]]"

definition GaussianRBM_sample_h :: "rbm \<Rightarrow> texpr \<Rightarrow> texpr" where
  "GaussianRBM_sample_h self v = Random Binomial [Const (PyInt 1), GaussianRBM_mean_h self v]"

definition GaussianRBM_mean_v :: "rbm \<Rightarrow> texpr \<Rightarrow> texpr" where
  "GaussianRBM_mean_v self h =
     Apply Add [Apply Dot [h, Apply Transpose [Shared (s_W self)]], Shared (s_b self)]"

definition GaussianRBM_sample_v :: "rbm \<Rightarrow> texpr \<Rightarrow> texpr" where
  "GaussianRBM_sample_v self h = Random Normal [Const (PyInt 1), GaussianRBM_mean_v self h]"

definition GaussianRBM_free_energy :: "rbm \<Rightarrow> texpr \<Rightarrow> texpr" where
  "GaussianRBM_free_energy self v =
     Apply Sub [Apply Neg [Apply (SumOver (Some 1))
                  [Apply Pow [Apply Sub [v, Shared (s_b self)], Const (PyInt 2)]]],
                Apply (SumOver (Some 1))
                  [Apply Log [Apply Add [Const (PyFloat 1),
                     Apply Exp [Apply Add [Apply Dot [v, Shared (s_W self)],
                                           Shared (s_c self)]]]]]]"

definition GaussianRBM_gibbs :: "rbm \<Rightarrow> texpr \<Rightarrow> texpr" where
  "GaussianRBM_gibbs self v =
     (let h' = GaussianRBM_sample_h self v;
          v' = GaussianRBM_sample_v self h'
      in v')"

fun GaussianRBM_chain :: "rbm \<Rightarrow> nat \<Rightarrow> texpr option \<times> texpr \<Rightarrow> texpr option \<times> texpr" where
  "GaussianRBM_chain self 0 s = s"
| "GaussianRBM_chain self (Suc n) (v_neg, h_neg) =
     GaussianRBM_chain self n
       (let v_neg' = GaussianRBM_mean_v self h_neg;
            h_neg' = GaussianRBM_sample_h self v_neg'
        in (Some v_neg', h_neg'))"

definition GaussianRBM_reconstruction_error :: "rbm \<Rightarrow> texpr \<Rightarrow> texpr" where
  "GaussianRBM_reconstruction_error self v_pos =
     (let h = GaussianRBM_mean_h self v_pos;
          z = GaussianRBM_mean_v self h
      in Apply (MeanOver None)
           [Apply (SumOver (Some 1)) [Apply Pow [Apply Sub [v_pos, z], Const (PyInt 2)]]])"

text \<open>The body of \<^verbatim>\<open>GaussianRBM._fit\<close>.\<close>

definition GaussianRBM_fit_step ::
  "rbm \<Rightarrow> texpr \<Rightarrow> ('v, 'r) world \<Rightarrow> (error + graph_result) \<times> ('v, 'r) world"
where
  "GaussianRBM_fit_step self v_pos w =
     (case GaussianRBM_chain self (K self) (None, Shared (h_samples self)) of
        (None, h_neg) \<Rightarrow> (Inl NameError, w)
      | (Some v_neg, h_neg) \<Rightarrow>
          (let cost = Apply Sub [Apply (MeanOver None) [GaussianRBM_free_energy self v_pos],
                                 Apply (MeanOver None) [GaussianRBM_free_energy self v_neg]];
               params = [s_W self, s_b self, s_c self];
               gparams = map (\<lambda>p. Grad cost (Shared p) [v_neg]) params;
               updates = sgd_updates (epsilon self) (zip params gparams) [];
               updates = AList.update (h_samples self) h_neg updates;
               loss = GaussianRBM_reconstruction_error self v_pos
           in (Inr (OutputUpdates loss updates), w)))"

subsection \<open>The decorated methods, as a caller sees them\<close>

text \<open>
  Each class decorates \<^verbatim>\<open>mean_h\<close>, \<^verbatim>\<open>sample_h\<close>, \<^verbatim>\<open>free_energy\<close> and \<^verbatim>\<open>gibbs\<close>
  with \<^verbatim>\<open>@symbolic([T.matrix('v')])\<close>, \<^verbatim>\<open>mean_v\<close> and \<^verbatim>\<open>sample_v\<close> with
  \<^verbatim>\<open>@symbolic([T.matrix('h')])\<close>, and \<^verbatim>\<open>_fit\<close> with \<^verbatim>\<open>@symbolic([T.matrix('v_pos')])\<close>.
\<close>

datatype rbm_method = Mean_h | Sample_h | Mean_v | Sample_v | Free_energy | Gibbs

fun method_name :: "rbm_method \<Rightarrow> string" where
  "method_name Mean_h = ''mean_h''"
| "method_name Sample_h = ''sample_h''"
| "method_name Mean_v = ''mean_v''"
| "method_name Sample_v = ''sample_v''"
| "method_name Free_energy = ''free_energy''"
| "method_name Gibbs = ''gibbs''"

fun method_inputs :: "rbm_method \<Rightarrow> string list" where
  "method_inputs Mean_h = [''v'']"
| "method_inputs Sample_h = [''v'']"
| "method_inputs Mean_v = [''h'']"
| "method_inputs Sample_v = [''h'']"
| "method_inputs Free_energy = [''v'']"
| "method_inputs Gibbs = [''v'']"

fun BinaryRBM_body :: "rbm_method \<Rightarrow> rbm \<Rightarrow> texpr \<Rightarrow> texpr" where
  "BinaryRBM_body Mean_h = BinaryRBM_mean_h"
| "BinaryRBM_body Sample_h = BinaryRBM_sample_h"
| "BinaryRBM_body Mean_v = BinaryRBM_mean_v"
| "BinaryRBM_body Sample_v = BinaryRBM_sample_v"
| "BinaryRBM_body Free_energy = BinaryRBM_free_energy"
| "BinaryRBM_body Gibbs = BinaryRBM_gibbs"

fun GaussianRBM_body :: "rbm_method \<Rightarrow> rbm \<Rightarrow> texpr \<Rightarrow> texpr" where
  "GaussianRBM_body Mean_h = GaussianRBM_mean_h"
| "GaussianRBM_body Sample_h = GaussianRBM_sample_h"
| "GaussianRBM_body Mean_v = GaussianRBM_mean_v"
| "GaussianRBM_body Sample_v = GaussianRBM_sample_v"
| "GaussianRBM_body Free_energy = GaussianRBM_free_energy"
| "GaussianRBM_body Gibbs = GaussianRBM_gibbs"

definition BinaryRBM_call ::
  "('v, 'r) engine \<Rightarrow> rbm_method \<Rightarrow> rbm \<Rightarrow> 'v arg list \<Rightarrow> ('v, 'r) world
     \<Rightarrow> (error + 'v result) \<times> rbm \<times> ('v, 'r) world"
where
  "BinaryRBM_call E m =
     wrapper E (method_name m) (method_inputs m) (graph_method (BinaryRBM_body m))"

definition GaussianRBM_call ::
  "('v, 'r) engine \<Rightarrow> rbm_method \<Rightarrow> rbm \<Rightarrow> 'v arg list \<Rightarrow> ('v, 'r) world
     \<Rightarrow> (error + 'v result) \<times> rbm \<times> ('v, 'r) world"
where
  "GaussianRBM_call E m =
     wrapper E (method_name m) (method_inputs m) (graph_method (GaussianRBM_body m))"

definition BinaryRBM_fit_call ::
  "('v, 'r) engine \<Rightarrow> rbm \<Rightarrow> 'v arg list \<Rightarrow> ('v, 'r) world
     \<Rightarrow> (error + 'v result) \<times> rbm \<times> ('v, 'r) world"
where
  "BinaryRBM_fit_call E =
     wrapper E ''_fit'' [''v_pos''] (update_method (BinaryRBM_fit_step E))"

definition GaussianRBM_fit_call ::
  "('v, 'r) engine \<Rightarrow> rbm \<Rightarrow> 'v arg list \<Rightarrow> ('v, 'r) world
     \<Rightarrow> (error + 'v result) \<times> rbm \<times> ('v, 'r) world"
where
  "GaussianRBM_fit_call E =
     wrapper E ''_fit'' [''v_pos''] (update_method GaussianRBM_fit_step)"

subsection \<open>\<^verbatim>\<open>fit\<close>\<close>

text \<open>
  \<^verbatim>\<open>int(numpy.ceil(len(inds) / float(self.n_samples)))\<close> for a positive divisor, and
  the slice \<^verbatim>\<open>inds[minibatch::n_batches]\<close>.
\<close>

definition ceil_div :: "nat \<Rightarrow> nat \<Rightarrow> nat" where
  "ceil_div n d = (n + d - 1) div d"

definition strided :: "nat \<Rightarrow> nat \<Rightarrow> 'a list \<Rightarrow> 'a list" where
  "strided start step xs =
     map ((!) xs) (filter (\<lambda>i. start \<le> i \<and> (i - start) mod step = 0) [0..<length xs])"

text \<open>
  The test \<^verbatim>\<open>self.W.shape[1] == 0\<close> that guards the initialisation in \<^verbatim>\<open>fit\<close>; an
  array of fewer than two dimensions raises \<^verbatim>\<open>IndexError\<close>.
\<close>

definition W_is_empty :: "('v, 'r) engine \<Rightarrow> rbm \<Rightarrow> ('v, 'r) world \<Rightarrow> error + bool" where
  "W_is_empty E self w =
     (case store w (s_W self) of
        None \<Rightarrow> Inl NameError
      | Some Wv \<Rightarrow>
          (case e_shape E Wv of
             d0 # d1 # ds \<Rightarrow> Inr (d1 = 0)
           | _ \<Rightarrow> Inl IndexError))"

text \<open>The four assignments of the initialisation.\<close>

definition fit_initialise :: "('v, 'r) engine \<Rightarrow> rbm \<Rightarrow> nat \<Rightarrow> ('v, 'r) world \<Rightarrow> ('v, 'r) world" where
  "fit_initialise E self n_in w =
     w\<lparr>store := (store w)
          (s_W self \<mapsto> e_const E (NpArr (NpNormal (np_draws w) [n_in, n_hiddens self])),
           s_c self \<mapsto> e_const E (NpArr (NpZeros [n_hiddens self])),
           s_b self \<mapsto> e_const E (NpArr (NpZeros [n_in])),
           h_samples self \<mapsto> e_const E (NpArr (NpZeros [n_samples self, n_hiddens self]))),
        np_draws := Suc (np_draws w)\<rparr>"

text \<open>
  The loop \<^verbatim>\<open>for minibatch in range(n_batches)\<close>, each round one call of the decorated
  \<^verbatim>\<open>_fit\<close> (\<open>step\<close>) on the rows of the batch, and the loop
  \<^verbatim>\<open>for epoch in range(self.epochs)\<close> around it. An exception ends both. (The losses
  are collected for printing only, with \<^verbatim>\<open>verbose\<close>, which is off by default.)
\<close>

fun fit_minibatches ::
  "(rbm \<Rightarrow> 'v arg list \<Rightarrow> ('v, 'r) world \<Rightarrow> (error + 'v result) \<times> rbm \<times> ('v, 'r) world)
     \<Rightarrow> ('v, 'r) engine \<Rightarrow> 'v \<Rightarrow> nat list \<Rightarrow> nat \<Rightarrow> nat list \<Rightarrow> rbm \<Rightarrow> ('v, 'r) world
     \<Rightarrow> (error + unit) \<times> rbm \<times> ('v, 'r) world"
where
  "fit_minibatches step E X inds n_batches [] self w = (Inr (), self, w)"
| "fit_minibatches step E X inds n_batches (minibatch # rest) self w =
     (case step self [Concrete (e_rows E X (strided minibatch n_batches inds))] w of
        (Inl e, self', w') \<Rightarrow> (Inl e, self', w')
      | (Inr loss, self', w') \<Rightarrow> fit_minibatches step E X inds n_batches rest self' w')"

fun fit_epochs ::
  "(rbm \<Rightarrow> 'v arg list \<Rightarrow> ('v, 'r) world \<Rightarrow> (error + 'v result) \<times> rbm \<times> ('v, 'r) world)
     \<Rightarrow> ('v, 'r) engine \<Rightarrow> 'v \<Rightarrow> nat list \<Rightarrow> nat \<Rightarrow> nat list \<Rightarrow> rbm \<Rightarrow> ('v, 'r) world
     \<Rightarrow> (error + unit) \<times> rbm \<times> ('v, 'r) world"
where
  "fit_epochs step E X inds n_batches [] self w = (Inr (), self, w)"
| "fit_epochs step E X inds n_batches (epoch # rest) self w =
     (case fit_minibatches step E X inds n_batches [0..<n_batches] self w of
        (Inl e, self', w') \<Rightarrow> (Inl e, self', w')
      | (Inr u, self', w') \<Rightarrow> fit_epochs step E X inds n_batches rest self' w')"

text \<open>
  \<^verbatim>\<open>fit(self, X)\<close> with the default \<^verbatim>\<open>project\<close> (the identity), for a matrix \<open>X\<close>;
  the two classes differ in the \<^verbatim>\<open>_fit\<close> they call.
\<close>

definition RBM_fit ::
  "(rbm \<Rightarrow> 'v arg list \<Rightarrow> ('v, 'r) world \<Rightarrow> (error + 'v result) \<times> rbm \<times> ('v, 'r) world)
     \<Rightarrow> ('v, 'r) engine \<Rightarrow> rbm \<Rightarrow> 'v \<Rightarrow> ('v, 'r) world
     \<Rightarrow> (error + unit) \<times> rbm \<times> ('v, 'r) world"
where
  "RBM_fit step E self X w =
     (case e_shape E X of
        [n, n_features] \<Rightarrow>
          if n = 0 then (Inl IndexError, self, w)
          else
            (let n_in = n_features in
             case W_is_empty E self w of
               Inl e \<Rightarrow> (Inl e, self, w)
             | Inr is_empty \<Rightarrow>
                 (let w1 = (if is_empty then fit_initialise E self n_in w else w);
                      inds = e_shuffle E (np_draws w1) [0..<n];
                      w2 = w1\<lparr>np_draws := Suc (np_draws w1)\<rparr>
                  in if n_samples self = 0 then (Inl ZeroDivisionError, self, w2)
                     else
                       (let n_batches = ceil_div (length inds) (n_samples self)
                        in fit_epochs step E X inds n_batches [0..<epochs self] self w2)))
      | _ \<Rightarrow> (Inl TypeError, self, w))"

definition BinaryRBM_fit ::
  "('v, 'r) engine \<Rightarrow> rbm \<Rightarrow> 'v \<Rightarrow> ('v, 'r) world \<Rightarrow> (error + unit) \<times> rbm \<times> ('v, 'r) world" where
  "BinaryRBM_fit E = RBM_fit (BinaryRBM_fit_call E) E"

definition GaussianRBM_fit ::
  "('v, 'r) engine \<Rightarrow> rbm \<Rightarrow> 'v \<Rightarrow> ('v, 'r) world \<Rightarrow> (error + unit) \<times> rbm \<times> ('v, 'r) world" where
  "GaussianRBM_fit E = RBM_fit (GaussianRBM_fit_call E) E"

text \<open>
  The compiled functions an instance may hold for its six query and sampling methods
  are those the decorator stores there: for each method none yet, or the function
  compiled from the method's own graph.
\<close>

definition rbm_methods :: "rbm_method list" where
  "rbm_methods = [Mean_h, Sample_h, Mean_v, Sample_v, Free_energy, Gibbs]"

definition compiled_query :: "(rbm_method \<Rightarrow> rbm \<Rightarrow> texpr \<Rightarrow> texpr) \<Rightarrow> rbm \<Rightarrow> rbm_method \<Rightarrow> tfunction" where
  "compiled_query body self m =
     theano_function (method_inputs m) (body m self (Input (hd (method_inputs m)))) None"

definition cache_ok :: "(rbm_method \<Rightarrow> rbm \<Rightarrow> texpr \<Rightarrow> texpr) \<Rightarrow> rbm \<Rightarrow> bool" where
  "cache_ok body self =
     list_all
       (\<lambda>m. case compiled self (''__'' @ method_name m) of
               None \<Rightarrow> True
             | Some f \<Rightarrow> f = compiled_query body self m)
       rbm_methods"

subsection \<open>The chain of the training step, as the specification words it\<close>

text \<open>
  One round of Gibbs sampling on the hidden state: the visible units are obtained from
  the hiddens by \<open>vis\<close>, then the hiddens from those visibles by \<open>hid\<close>.
\<close>

definition gibbs_round :: "(texpr \<Rightarrow> texpr) \<Rightarrow> (texpr \<Rightarrow> texpr) \<Rightarrow> texpr \<Rightarrow> texpr" where
  "gibbs_round vis hid h = hid (vis h)"

text \<open>
  An instance is well placed in a state when its four shared variables are different
  ones and exist there, as they do after \<^verbatim>\<open>__init__\<close>.
\<close>

definition rbm_vars :: "rbm \<Rightarrow> nat list" where
  "rbm_vars self = [s_W self, s_b self, s_c self, h_samples self]"

definition wf_rbm :: "rbm \<Rightarrow> ('v, 'r) world \<Rightarrow> bool" where
  "wf_rbm self w = (distinct (rbm_vars self) \<and> list_all (\<lambda>i. i < next_id w) (rbm_vars self))"

text \<open>
  A small instance for concrete runs: 3 hidden units, \<open>K = 2\<close>, learning rate 0.1,
  4 fantasy particles, one epoch, created in the fresh state of the abstract engine.
\<close>

definition rbm0 :: rbm where
  "rbm0 = fst (RBM_init abs_engine 3 None None None 2 (1 / 10) 4 1 world0)"

definition rbm0_world :: "(aval, unit) world" where
  "rbm0_world = snd (RBM_init abs_engine 3 None None None 2 (1 / 10) 4 1 world0)"

text \<open>
  The cost of a training step as the specification words it, and one step of gradient
  descent on a parameter with the learning rate \<open>eps\<close>, the graphs in \<open>held\<close> being
  held constant.
\<close>

definition cd_cost :: "(texpr \<Rightarrow> texpr) \<Rightarrow> texpr \<Rightarrow> texpr \<Rightarrow> texpr" where
  "cd_cost free_energy v_pos v_neg =
     Apply Sub [Apply (MeanOver None) [free_energy v_pos],
                Apply (MeanOver None) [free_energy v_neg]]"

definition gradient_step :: "real \<Rightarrow> texpr \<Rightarrow> texpr list \<Rightarrow> nat \<Rightarrow> texpr" where
  "gradient_step eps cost held p =
     Apply Sub [Shared p, Apply Mul [Const (PyFloat eps), Grad cost (Shared p) held]]"

text \<open>
  The updates of a training step, as the specification words them: a gradient step on
  \<open>W\<close>, \<open>b\<close> and \<open>c\<close> with \<open>v_neg\<close> held constant, and \<open>h_neg\<close> for the fantasy particles.
\<close>

definition fit_updates_spec ::
  "(texpr \<Rightarrow> texpr) \<Rightarrow> rbm \<Rightarrow> texpr \<Rightarrow> texpr \<Rightarrow> texpr \<Rightarrow> (nat \<rightharpoonup> texpr) \<Rightarrow> bool"
where
  "fit_updates_spec free_energy self v_pos v_neg h_neg updates =
     (list_all
        (\<lambda>p. updates p =
               Some (gradient_step (epsilon self) (cd_cost free_energy v_pos v_neg) [v_neg] p))
        [s_W self, s_b self, s_c self]
      \<and> updates (h_samples self) = Some h_neg)"

section \<open>Layers and the multilayer perceptron\<close>

text \<open>
  The activation a layer class passes to \<^verbatim>\<open>NeuralNetworkLayer.__init__\<close>. The masked
  rectifier is the function
  \<^verbatim>\<open>lambda x: numpy.asarray(numpy.sign(numpy.random.uniform(low=-1, high=1, size=(n_out,)))) * T.maximum(x, 0)\<close>:
  each time it is applied it draws a new sign mask from \<^verbatim>\<open>numpy.random\<close> and puts it
  into the graph as a constant.
\<close>

datatype activation =
    ASigmoid | ARectifierMasked nat | ARectifier | ATanh | ASoftmax | ASoftplus
  | ALinear | ASquared

fun activate :: "activation \<Rightarrow> texpr \<Rightarrow> ('v, 'r) world \<Rightarrow> texpr \<times> ('v, 'r) world" where
  "activate ASigmoid x w = (Apply Sigmoid [x], w)"
| "activate (ARectifierMasked n_out) x w =
     (Apply Mul [Const (NpArr (NpSignMask (np_draws w) n_out)),
                 Apply Maximum [x, Const (PyInt 0)]],
      w\<lparr>np_draws := Suc (np_draws w)\<rparr>)"
| "activate ARectifier x w = (Apply Maximum [x, Const (PyInt 0)], w)"
| "activate ATanh x w = (Apply Tanh [x], w)"
| "activate ASoftmax x w = (Apply Softmax [x], w)"
| "activate ASoftplus x w = (Apply Softplus [x], w)"
| "activate ALinear x w = (x, w)"
| "activate ASquared x w = (Apply Pow [x, Const (PyInt 2)], w)"

record layer =
  l_n_in :: nat
  l_n_out :: nat
  l_input :: texpr
  l_W :: nat
  l_b :: nat
  l_linear_output :: texpr
  l_output :: texpr

text \<open>
  \<^verbatim>\<open>NeuralNetworkLayer.__init__(self, x, n_in, n_out, activation, W=None, b=None)\<close>.
  The initial weights are drawn whether they are used or not.
\<close>

definition NeuralNetworkLayer_init ::
  "('v, 'r) engine \<Rightarrow> texpr \<Rightarrow> nat \<Rightarrow> nat \<Rightarrow> activation \<Rightarrow> nat option \<Rightarrow> nat option
     \<Rightarrow> ('v, 'r) world \<Rightarrow> layer \<times> ('v, 'r) world"
where
  "NeuralNetworkLayer_init E x n_in n_out act W b w0 =
     (let W_values = e_const E (NpArr (NpGlorot (np_draws w0) n_in n_out));
          w1 = w0\<lparr>np_draws := Suc (np_draws w0)\<rparr>;
          (iW, w2) = (case W of None \<Rightarrow> shared W_values w1 | Some i \<Rightarrow> (i, w1));
          (ib, w3) = (case b of
                        None \<Rightarrow> shared (e_const E (NpArr (NpZeros [n_out]))) w2
                      | Some i \<Rightarrow> (i, w2));
          linear_output = Apply Dot [x, Shared iW];
          (output, w4) = activate act (Apply Add [linear_output, Shared ib]) w3
      in (\<lparr>l_n_in = n_in, l_n_out = n_out, l_input = x, l_W = iW, l_b = ib,
            l_linear_output = linear_output, l_output = output\<rparr>, w4))"

text \<open>
  \<^verbatim>\<open>type_map[layer_type](layer_input, layer_n_in, layer_size, **xargs)\<close>: the layer
  classes, each passing its activation on; \<^verbatim>\<open>RectifierLayer\<close> masks unless told
  \<^verbatim>\<open>mask=False\<close>. A type that is not in \<^verbatim>\<open>type_map\<close> raises \<^verbatim>\<open>KeyError\<close>.
\<close>

definition type_map :: "string \<Rightarrow> bool option \<Rightarrow> nat \<Rightarrow> activation option" where
  "type_map layer_type masked n_out =
     (if layer_type = ''L'' then Some ASigmoid
      else if layer_type = ''R'' then
        Some (if (case masked of None \<Rightarrow> True | Some m \<Rightarrow> m) then ARectifierMasked n_out
              else ARectifier)
      else if layer_type = ''S'' then Some ASoftmax
      else if layer_type = ''Sp'' then Some ASoftplus
      else if layer_type = ''T'' then Some ATanh
      else if layer_type = ''Li'' then Some ALinear
      else if layer_type = ''Sq'' then Some ASquared
      else None)"

definition make_layer ::
  "('v, 'r) engine \<Rightarrow> string \<Rightarrow> texpr \<Rightarrow> nat \<Rightarrow> nat \<Rightarrow> bool option \<Rightarrow> nat option \<Rightarrow> nat option
     \<Rightarrow> ('v, 'r) world \<Rightarrow> (error + layer) \<times> ('v, 'r) world"
where
  "make_layer E layer_type x n_in n_out masked W b w =
     (case type_map layer_type masked n_out of
        None \<Rightarrow> (Inl KeyError, w)
      | Some act \<Rightarrow>
          (let (l, w') = NeuralNetworkLayer_init E x n_in n_out act W b w in (Inr l, w')))"

text \<open>
  The first loop of \<^verbatim>\<open>MLP.__init__\<close>, which fills \<^verbatim>\<open>self.layers\<close>: \<open>todo\<close> is what
  \<^verbatim>\<open>enumerate(layers)\<close> still has to serve, \<open>done\<close> is \<^verbatim>\<open>self.layers\<close>, whose
  length is the index \<open>i\<close>.
\<close>

fun noisy_stack ::
  "('v, 'r) engine \<Rightarrow> texpr \<Rightarrow> nat \<Rightarrow> real \<Rightarrow> (string \<times> nat) list \<Rightarrow> (string \<times> nat) list
     \<Rightarrow> layer list \<Rightarrow> ('v, 'r) world \<Rightarrow> (error + layer list) \<times> ('v, 'r) world"
where
  "noisy_stack E x n_in hidden_dropout layers [] done w = (Inr done, w)"
| "noisy_stack E x n_in hidden_dropout layers (layer # todo) done w =
     (let i = length done;
          layer_type = fst layer;
          layer_size = snd layer;
          (layer_input, layer_n_in) =
            (if i = 0 then (x, n_in) else (l_output (last done), l_n_out (last done)));
          layer_input =
            (if Suc i = length layers
             then Apply TrueDiv
                    [Apply Mul [Apply (MaxOver (Some 0)) [layer_input],
                                Random Binomial [Const (PyInt 1), Const (PyFloat hidden_dropout)]],
                     Const (PyFloat hidden_dropout)]
             else layer_input);
          xargs = (if layer_type = ''R'' \<and> layer = last layers then Some False else None)
      in case make_layer E layer_type layer_input layer_n_in layer_size xargs None None w of
           (Inl e, w') \<Rightarrow> (Inl e, w')
         | (Inr l, w') \<Rightarrow> noisy_stack E x n_in hidden_dropout layers todo (done @ [l]) w')"

text \<open>The second loop, which fills \<^verbatim>\<open>self.clean_layers\<close> from \<^verbatim>\<open>self.layers\<close>.\<close>

fun clean_stack ::
  "('v, 'r) engine \<Rightarrow> texpr \<Rightarrow> nat \<Rightarrow> layer list \<Rightarrow> (string \<times> nat) list \<Rightarrow> (string \<times> nat) list
     \<Rightarrow> layer list \<Rightarrow> ('v, 'r) world \<Rightarrow> (error + layer list) \<times> ('v, 'r) world"
where
  "clean_stack E x n_in self_layers layers [] done w = (Inr done, w)"
| "clean_stack E x n_in self_layers layers (layer # todo) done w =
     (let i = length done;
          layer_type = fst layer;
          layer_size = snd layer;
          (layer_input, layer_n_in) =
            (if i = 0 then (x, n_in) else (l_output (last done), l_n_out (last done)));
          layer_input =
            (if Suc i = length layers then Apply (MaxOver (Some 0)) [layer_input]
             else layer_input);
          xargs = (if layer_type = ''R'' \<and> layer = last layers then Some False else None)
      in if length self_layers \<le> i then (Inl IndexError, w)
         else
           case make_layer E layer_type layer_input layer_n_in layer_size xargs
                  (Some (l_W (self_layers ! i))) (Some (l_b (self_layers ! i))) w of
             (Inl e, w') \<Rightarrow> (Inl e, w')
           | (Inr l, w') \<Rightarrow> clean_stack E x n_in self_layers layers todo (done @ [l]) w')"

text \<open>
  \<^verbatim>\<open>NeuralNetworkTrainer.__init__\<close>: plain gradient descent, or gradient descent with
  a momentum memory per parameter when \<^verbatim>\<open>momentum\<close> is given and not zero.
\<close>

fun trainer_updates ::
  "('v, 'r) engine \<Rightarrow> real \<Rightarrow> real option \<Rightarrow> (nat \<times> texpr) list \<Rightarrow> (nat \<times> texpr) list
     \<Rightarrow> ('v, 'r) world \<Rightarrow> (error + (nat \<times> texpr) list) \<times> ('v, 'r) world"
where
  "trainer_updates E learning_rate momentum [] updates w = (Inr updates, w)"
| "trainer_updates E learning_rate momentum ((param, gparam) # rest) updates w =
     (case momentum of
        None \<Rightarrow>
          trainer_updates E learning_rate momentum rest
            (updates @ [(param, Apply Sub [Shared param,
                                  Apply Mul [Const (PyFloat learning_rate), gparam]])]) w
      | Some mu \<Rightarrow>
          if mu = 0 then
            trainer_updates E learning_rate momentum rest
              (updates @ [(param, Apply Sub [Shared param,
                                    Apply Mul [Const (PyFloat learning_rate), gparam]])]) w
          else
            (case store w param of
               None \<Rightarrow> (Inl NameError, w)
             | Some v \<Rightarrow>
                 (case e_op E Mul [v, e_const E (PyFloat 0)] of
                    None \<Rightarrow> (Inl EngineError, w)
                  | Some zero \<Rightarrow>
                      (let (memory, w') = shared zero w
                       in trainer_updates E learning_rate momentum rest
                            (updates @
                               [(param, Apply Sub [Shared param, Shared memory]),
                                (memory, Apply Add
                                   [Apply Mul [Const (PyFloat mu), Shared memory],
                                    Apply Mul [Const (PyFloat learning_rate), gparam]])])
                            w'))))"

definition NeuralNetworkTrainer_init ::
  "('v, 'r) engine \<Rightarrow> string list \<Rightarrow> texpr \<Rightarrow> layer list \<Rightarrow> real \<Rightarrow> real option
     \<Rightarrow> ('v, 'r) world \<Rightarrow> (error + tfunction) \<times> ('v, 'r) world"
where
  "NeuralNetworkTrainer_init E inputs cost layers learning_rate momentum w0 =
     (let params = map l_W layers @ map l_b layers;
          (lr, w1) = shared (e_const E (PyFloat learning_rate)) w0;
          gparams = map (\<lambda>param. Grad cost (Shared param) []) params
      in case trainer_updates E learning_rate momentum (zip params gparams) [] w1 of
           (Inl e, w2) \<Rightarrow> (Inl e, w2)
         | (Inr updates, w2) \<Rightarrow> (Inr (theano_function inputs cost (Some updates)), w2))"

record mlp =
  mlp_layers :: "layer list"
  mlp_clean_layers :: "layer list"
  mlp_output :: tfunction        \<comment> \<open>\<^verbatim>\<open>self._output\<close>\<close>
  mlp_transform :: tfunction     \<comment> \<open>\<^verbatim>\<open>self.transform\<close>\<close>
  mlp_trainer :: tfunction       \<comment> \<open>\<^verbatim>\<open>self.trainer._train\<close>\<close>

text \<open>Python's \<^verbatim>\<open>sum(list)\<close>: addition from the left, starting with 0.\<close>

definition py_sum :: "texpr list \<Rightarrow> texpr" where
  "py_sum ts = foldl (\<lambda>acc t. Apply Add [acc, t]) (Const (PyInt 0)) ts"

definition MLP_init ::
  "('v, 'r) engine \<Rightarrow> nat \<Rightarrow> (string \<times> nat) list \<Rightarrow> real \<Rightarrow> real option \<Rightarrow> real \<Rightarrow> real option
     \<Rightarrow> ('v, 'r) world \<Rightarrow> (error + mlp) \<times> ('v, 'r) world"
where
  "MLP_init E n_in layers hidden_dropout l2 learning_rate momentum w0 =
     (let x = Input ''x'';
          y = Input ''y'';
          w1 = w0\<lparr>rng := e_seed E (np_draws w0), np_draws := Suc (np_draws w0)\<rparr>
      in case noisy_stack E x n_in hidden_dropout layers layers [] w1 of
           (Inl e, w2) \<Rightarrow> (Inl e, w2)
         | (Inr self_layers, w2) \<Rightarrow>
             (case clean_stack E x n_in self_layers layers layers [] w2 of
                (Inl e, w3) \<Rightarrow> (Inl e, w3)
              | (Inr clean_layers, w3) \<Rightarrow>
                  if length clean_layers < 2 then (Inl IndexError, w3)
                  else
                    (let output = theano_function [''x'']
                           (Apply (ArgMaxOver (Some 1)) [l_output (last clean_layers)]) None;
                         transform = theano_function [''x'']
                           (Apply (MaxOver (Some 0))
                              [l_output (clean_layers ! (length clean_layers - 2))]) None;
                         loss = Apply Neg [Apply (MeanOver None)
                                  [Apply AdvIndex [Apply Log [l_output (last self_layers)],
                                                   Apply ARange [Apply (ShapeAt 0) [y]], y]]];
                         loss = (case l2 of
                                   None \<Rightarrow> loss
                                 | Some c \<Rightarrow>
                                     Apply Add [loss, Apply Mul [Const (PyFloat c),
                                       py_sum (map (\<lambda>l. Apply (SumOver None)
                                                 [Apply Pow [Shared (l_W l), Const (PyInt 2)]])
                                               self_layers)]])
                     in case NeuralNetworkTrainer_init E [''x'', ''y''] loss self_layers
                               learning_rate momentum w3 of
                          (Inl e, w4) \<Rightarrow> (Inl e, w4)
                        | (Inr trainer, w4) \<Rightarrow>
                            (Inr \<lparr>mlp_layers = self_layers, mlp_clean_layers = clean_layers,
                                  mlp_output = output, mlp_transform = transform,
                                  mlp_trainer = trainer\<rparr>, w4))))"

subsection \<open>Saving and loading the parameters\<close>

text \<open>
  The files of the working directory, by name. \<^verbatim>\<open>numpy.save\<close> writes an array to a
  file and \<^verbatim>\<open>numpy.load\<close> reads the same array back; a file that does not exist
  raises \<^verbatim>\<open>IOError\<close>.
\<close>

fun string_of_nat :: "nat \<Rightarrow> string" where
  "string_of_nat n =
     (if n < 10 then [''0123456789'' ! n]
      else string_of_nat (n div 10) @ [''0123456789'' ! (n mod 10)])"

definition W_file :: "nat \<Rightarrow> string" where
  "W_file i = ''W_'' @ string_of_nat i @ ''.npy''"

definition b_file :: "nat \<Rightarrow> string" where
  "b_file i = ''b_'' @ string_of_nat i @ ''.npy''"

text \<open>The loops \<^verbatim>\<open>for i, layer in enumerate(self.layers)\<close> of \<^verbatim>\<open>save\<close> and \<^verbatim>\<open>load\<close>.\<close>

fun save_layers ::
  "nat \<Rightarrow> layer list \<Rightarrow> ('v, 'r) world \<Rightarrow> (string \<rightharpoonup> 'v) \<Rightarrow> error + (string \<rightharpoonup> 'v)"
where
  "save_layers i [] w files = Inr files"
| "save_layers i (l # ls) w files =
     (case (store w (l_W l), store w (l_b l)) of
        (Some Wv, Some bv) \<Rightarrow>
          save_layers (Suc i) ls w (files(W_file i \<mapsto> Wv, b_file i \<mapsto> bv))
      | _ \<Rightarrow> Inl NameError)"

fun load_layers ::
  "nat \<Rightarrow> layer list \<Rightarrow> (string \<rightharpoonup> 'v) \<Rightarrow> ('v, 'r) world \<Rightarrow> error + ('v, 'r) world"
where
  "load_layers i [] files w = Inr w"
| "load_layers i (l # ls) files w =
     (case files (W_file i) of
        None \<Rightarrow> Inl IOError
      | Some Wv \<Rightarrow>
          (case files (b_file i) of
             None \<Rightarrow> Inl IOError
           | Some bv \<Rightarrow>
               load_layers (Suc i) ls files
                 (w\<lparr>store := (store w)(l_W l \<mapsto> Wv, l_b l \<mapsto> bv)\<rparr>)))"

definition MLP_save :: "mlp \<Rightarrow> ('v, 'r) world \<Rightarrow> (string \<rightharpoonup> 'v) \<Rightarrow> error + (string \<rightharpoonup> 'v)" where
  "MLP_save self w files = save_layers 0 (mlp_layers self) w files"

definition MLP_load :: "mlp \<Rightarrow> (string \<rightharpoonup> 'v) \<Rightarrow> ('v, 'r) world \<Rightarrow> error + ('v, 'r) world" where
  "MLP_load self files w = load_layers 0 (mlp_layers self) files w"

subsection \<open>The two stacks, as the specification words them\<close>

text \<open>
  Pooling is the element-wise maximum over the set dimension; dropout multiplies by a
  Bernoulli draw and divides by its probability. A layer of a stack reads the input
  \<open>x\<close> when it is the first, and the output of the layer before it otherwise.
\<close>

definition pooled :: "texpr \<Rightarrow> texpr" where
  "pooled t = Apply (MaxOver (Some 0)) [t]"

definition dropout :: "real \<Rightarrow> texpr \<Rightarrow> texpr" where
  "dropout p t =
     Apply TrueDiv [Apply Mul [t, Random Binomial [Const (PyInt 1), Const (PyFloat p)]],
                    Const (PyFloat p)]"

definition stack_input :: "texpr \<Rightarrow> layer list \<Rightarrow> nat \<Rightarrow> texpr" where
  "stack_input x ls i = (if i = 0 then x else l_output (ls ! (i - 1)))"

text \<open>
  The graph an activation yields when it is applied at the \<open>k\<close>-th draw of
  \<^verbatim>\<open>numpy.random\<close>, and what it means for a layer to compute from its own input,
  weights and bias.
\<close>

fun activation_graph :: "activation \<Rightarrow> nat \<Rightarrow> texpr \<Rightarrow> texpr" where
  "activation_graph ASigmoid k x = Apply Sigmoid [x]"
| "activation_graph (ARectifierMasked n_out) k x =
     Apply Mul [Const (NpArr (NpSignMask k n_out)), Apply Maximum [x, Const (PyInt 0)]]"
| "activation_graph ARectifier k x = Apply Maximum [x, Const (PyInt 0)]"
| "activation_graph ATanh k x = Apply Tanh [x]"
| "activation_graph ASoftmax k x = Apply Softmax [x]"
| "activation_graph ASoftplus k x = Apply Softplus [x]"
| "activation_graph ALinear k x = x"
| "activation_graph ASquared k x = Apply Pow [x, Const (PyInt 2)]"

definition layer_wired :: "layer \<Rightarrow> bool" where
  "layer_wired l =
     (l_linear_output l = Apply Dot [l_input l, Shared (l_W l)] \<and>
      (\<exists>act k. l_output l =
                 activation_graph act k (Apply Add [l_linear_output l, Shared (l_b l)])))"

text \<open>
  A small perceptron for concrete runs: 3 inputs, a rectifier layer of 2 units and a
  softmax layer of 2 classes, dropout 0.5, no weight penalty, learning rate 0.01, no
  momentum, created in the fresh state of the abstract engine.
\<close>

definition mlp0 :: mlp where
  "mlp0 = projr (fst (MLP_init abs_engine 3 [(''R'', 2), (''S'', 2)] (1 / 2) None (1 / 100) None world0))"

definition mlp0_world :: "(aval, unit) world" where
  "mlp0_world = snd (MLP_init abs_engine 3 [(''R'', 2), (''S'', 2)] (1 / 2) None (1 / 100) None world0)"

section \<open>A numeric engine for the inference path\<close>

text \<open>
  To run \<^verbatim>\<open>_output\<close> on numbers, a second instance of the engine computes on exact
  reals with the usual meaning of the array operations. It interprets the operations
  of the clean inference path (matrix product, broadcast addition and multiplication,
  maximum, pooling, softmax, argmax) and nothing else. Every random array of
  \<^verbatim>\<open>numpy\<close> needs an outcome: initial weights come out as zeros, and the sign mask of
  draw \<open>k\<close> is all \<open>+1\<close>, except for draw 12, where it is all \<open>-1\<close>.
\<close>

datatype nval = Scal real | Vec "real list" | Mat "real list list" | IVec "nat list"

definition vec_mat :: "real list \<Rightarrow> real list list \<Rightarrow> real list option" where
  "vec_mat v M =
     (if length v = length M \<and> list_all (\<lambda>row. length row = length (hd M)) M \<and> M \<noteq> []
      then Some (map (\<lambda>col. sum_list (map2 (*) v col)) (transpose M))
      else None)"

fun num_dot :: "nval \<Rightarrow> nval \<Rightarrow> nval option" where
  "num_dot (Vec v) (Mat M) = map_option Vec (vec_mat v M)"
| "num_dot (Mat X) (Mat M) = map_option Mat (those_vals (map (\<lambda>row. vec_mat row M) X))"
| "num_dot a b = None"

fun num_add :: "nval \<Rightarrow> nval \<Rightarrow> nval option" where
  "num_add (Vec a) (Vec b) = (if length a = length b then Some (Vec (map2 (+) a b)) else None)"
| "num_add (Mat X) (Vec b) =
     (if list_all (\<lambda>row. length row = length b) X
      then Some (Mat (map (\<lambda>row. map2 (+) row b) X)) else None)"
| "num_add a b = None"

fun num_mul :: "nval \<Rightarrow> nval \<Rightarrow> nval option" where
  "num_mul (Vec a) (Vec b) = (if length a = length b then Some (Vec (map2 (*) a b)) else None)"
| "num_mul (Vec a) (Mat X) =
     (if list_all (\<lambda>row. length row = length a) X
      then Some (Mat (map (\<lambda>row. map2 (*) a row) X)) else None)"
| "num_mul a b = None"

fun num_maximum :: "nval \<Rightarrow> nval \<Rightarrow> nval option" where
  "num_maximum (Vec a) (Scal c) = Some (Vec (map (\<lambda>x. max x c) a))"
| "num_maximum (Mat X) (Scal c) = Some (Mat (map (map (\<lambda>x. max x c)) X))"
| "num_maximum a b = None"

text \<open>The maximum of each column of a matrix that has a row.\<close>

fun num_max0 :: "nval \<Rightarrow> nval option" where
  "num_max0 (Mat (row # rows)) =
     (if list_all (\<lambda>r. length r = length row) rows
      then Some (Vec (foldl (map2 max) row rows)) else None)"
| "num_max0 a = None"

definition softmax_row :: "real list \<Rightarrow> real list" where
  "softmax_row v = map (\<lambda>a. exp a / sum_list (map exp v)) v"

fun num_softmax :: "nval \<Rightarrow> nval option" where
  "num_softmax (Vec v) = Some (Mat [softmax_row v])"
| "num_softmax (Mat X) = Some (Mat (map softmax_row X))"
| "num_softmax a = None"

text \<open>The index of the first greatest element, scanning from the left.\<close>

fun argmax_scan :: "nat \<Rightarrow> real \<Rightarrow> nat \<Rightarrow> real list \<Rightarrow> nat" where
  "argmax_scan best hi i [] = best"
| "argmax_scan best hi i (x # xs) =
     (if hi < x then argmax_scan i x (Suc i) xs else argmax_scan best hi (Suc i) xs)"

fun argmax_row :: "real list \<Rightarrow> nat option" where
  "argmax_row [] = None"
| "argmax_row (x # xs) = Some (argmax_scan 0 x 1 xs)"

fun num_argmax1 :: "nval \<Rightarrow> nval option" where
  "num_argmax1 (Mat X) = map_option IVec (those_vals (map argmax_row X))"
| "num_argmax1 a = None"

fun num_op :: "op \<Rightarrow> nval list \<Rightarrow> nval option" where
  "num_op f [a, b] =
     (if f = Dot then num_dot a b
      else if f = Add then num_add a b
      else if f = Mul then num_mul a b
      else if f = Maximum then num_maximum a b
      else None)"
| "num_op f [a] =
     (if f = MaxOver (Some 0) then num_max0 a
      else if f = Softmax then num_softmax a
      else if f = ArgMaxOver (Some 1) then num_argmax1 a
      else None)"
| "num_op f vs = None"

fun num_array :: "nparray \<Rightarrow> nval" where
  "num_array NpEmpty2 = Mat [[]]"
| "num_array NpEmpty1 = Vec []"
| "num_array (NpZeros s) =
     (case s of [n] \<Rightarrow> Vec (replicate n 0) | [m, n] \<Rightarrow> Mat (replicate m (replicate n 0))
      | _ \<Rightarrow> Scal 0)"
| "num_array (NpNormal k s) =
     (case s of [n] \<Rightarrow> Vec (replicate n 0) | [m, n] \<Rightarrow> Mat (replicate m (replicate n 0))
      | _ \<Rightarrow> Scal 0)"
| "num_array (NpGlorot k n_in n_out) = Mat (replicate n_in (replicate n_out 0))"
| "num_array (NpSignMask k n_out) = Vec (replicate n_out (if k = 12 then - 1 else 1))"

fun num_const :: "cval \<Rightarrow> nval" where
  "num_const (PyFloat x) = Scal x"
| "num_const (PyInt n) = Scal (of_int n)"
| "num_const (NpArr a) = num_array a"

fun num_shape :: "nval \<Rightarrow> nat list" where
  "num_shape (Scal x) = []"
| "num_shape (Vec v) = [length v]"
| "num_shape (IVec v) = [length v]"
| "num_shape (Mat X) = [length X, (case X of [] \<Rightarrow> 0 | row # rows \<Rightarrow> length row)]"

fun num_rows :: "nval \<Rightarrow> nat list \<Rightarrow> nval" where
  "num_rows (Mat X) idx = Mat (map ((!) X) idx)"
| "num_rows v idx = v"

definition num_engine :: "(nval, unit) engine" where
  "num_engine =
     \<lparr>e_const = num_const, e_op = num_op,
      e_draw = (\<lambda>d r node vs. None),
      e_next = (\<lambda>r. r), e_seed = (\<lambda>k. ()),
      e_grad = (\<lambda>node ins w c v. None),
      e_scan = (\<lambda>node ins w. None),
      e_shape = num_shape, e_rows = num_rows,
      e_shuffle = (\<lambda>k idx. idx)\<rparr>"

definition num_world0 :: "(nval, unit) world" where
  "num_world0 = \<lparr>store = Map.empty, next_id = 0, rng = (), np_draws = 0\<rparr>"

text \<open>
  Two perceptrons of the same layer structure, one built after the other in the same
  interpreter: one input, a rectifier layer of one unit, a softmax layer of two classes.
\<close>

definition mlpA :: mlp where
  "mlpA = projr (fst (MLP_init num_engine 1 [(''R'', 1), (''S'', 2)] (1 / 2) None (1 / 100) None
                        num_world0))"

definition worldA :: "(nval, unit) world" where
  "worldA = snd (MLP_init num_engine 1 [(''R'', 1), (''S'', 2)] (1 / 2) None (1 / 100) None
                   num_world0)"

definition mlpB :: mlp where
  "mlpB = projr (fst (MLP_init num_engine 1 [(''R'', 1), (''S'', 2)] (1 / 2) None (1 / 100) None
                        worldA))"

definition worldB :: "(nval, unit) world" where
  "worldB = snd (MLP_init num_engine 1 [(''R'', 1), (''S'', 2)] (1 / 2) None (1 / 100) None
                   worldA)"

text \<open>
  The state in which the first perceptron has the weights \<open>W\<^sub>0 = [[1]]\<close>, \<open>b\<^sub>0 = [0]\<close>,
  \<open>W\<^sub>1 = [[1, -1]]\<close>, \<open>b\<^sub>1 = [0, 0]\<close> (as after some training).
\<close>

definition worldT :: "(nval, unit) world" where
  "worldT = worldB\<lparr>store := (store worldB)
      (l_W (mlp_layers mlpA ! 0) \<mapsto> Mat [[1]], l_b (mlp_layers mlpA ! 0) \<mapsto> Vec [0],
       l_W (mlp_layers mlpA ! 1) \<mapsto> Mat [[1, - 1]], l_b (mlp_layers mlpA ! 1) \<mapsto> Vec [0, 0])\<rparr>"

text \<open>
  The first perceptron saves its parameters in that state, to an empty directory; the
  second one loads them.
\<close>

definition filesA :: "string \<rightharpoonup> nval" where
  "filesA = projr (MLP_save mlpA worldT Map.empty)"

definition worldL :: "(nval, unit) world" where
  "worldL = projr (MLP_load mlpB filesA worldT)"

section \<open>The shapes of a machine's shared variables\<close>

text \<open>
  On the abstract engine, where an array is its shape: the four shared variables of an
  instance have the shapes that \<^verbatim>\<open>fit\<close> gives them for data of \<open>n_in\<close> features.
\<close>

definition rbm_shapes :: "nat \<Rightarrow> rbm \<Rightarrow> (aval, unit) world \<Rightarrow> bool" where
  "rbm_shapes n_in self w =
     (store w (s_W self) = Some (ATensor [n_in, n_hiddens self]) \<and>
      store w (s_b self) = Some (ATensor [n_in]) \<and>
      store w (s_c self) = Some (ATensor [n_hiddens self]) \<and>
      store w (h_samples self) = Some (ATensor [n_samples self, n_hiddens self]))"

text \<open>A compiled function that leaves these shapes as they are, whatever it is called with.\<close>

definition keeps_shapes :: "nat \<Rightarrow> rbm \<Rightarrow> tfunction \<Rightarrow> bool" where
  "keeps_shapes n_in self f =
     (\<forall>args w. rbm_shapes n_in self w \<longrightarrow>
        rbm_shapes n_in self (snd (call_function abs_engine f args w)))"

text \<open>
  The state of an instance \<open>self0\<close> that \<^verbatim>\<open>fit\<close> has initialised: the instance differs
  from \<open>self0\<close> by the compiled functions it holds at most, its variables exist and
  have their shapes, and the compiled \<^verbatim>\<open>_fit\<close>, if there is one, keeps them.
\<close>

definition fit_inv :: "rbm \<Rightarrow> nat \<Rightarrow> rbm \<Rightarrow> (aval, unit) world \<Rightarrow> bool" where
  "fit_inv self0 n_in self w =
     ((\<exists>c n. self = self0\<lparr>compiled := c, compilations := n\<rparr>) \<and>
      wf_rbm self0 w \<and> rbm_shapes n_in self0 w \<and>
      (case compiled self ''___fit'' of None \<Rightarrow> True | Some f \<Rightarrow> keeps_shapes n_in self0 f))"

text \<open>
  The state of an instance before \<^verbatim>\<open>fit\<close> has initialised it: \<open>W\<close> and
  \<^verbatim>\<open>h_samples\<close> are the empty arrays of \<^verbatim>\<open>__init__\<close> and \<^verbatim>\<open>_fit\<close> was not compiled.
\<close>

definition fit_fresh :: "rbm \<Rightarrow> rbm \<Rightarrow> (aval, unit) world \<Rightarrow> bool" where
  "fit_fresh self0 self w =
     ((\<exists>c n. self = self0\<lparr>compiled := c, compilations := n\<rparr>) \<and>
      wf_rbm self0 w \<and>
      store w (s_W self0) = Some (ATensor [1, 0]) \<and>
      store w (h_samples self0) = Some (ATensor [1, 0]) \<and>
      compiled self ''___fit'' = None)"

text \<open>
  Successive calls of \<^verbatim>\<open>fit\<close> on one instance, as a caller makes them who goes on
  after an exception.
\<close>

fun fits ::
  "(rbm \<Rightarrow> 'v \<Rightarrow> ('v, 'r) world \<Rightarrow> (error + unit) \<times> rbm \<times> ('v, 'r) world)
     \<Rightarrow> rbm \<Rightarrow> 'v list \<Rightarrow> ('v, 'r) world \<Rightarrow> rbm \<times> ('v, 'r) world"
where
  "fits fit self [] w = (self, w)"
| "fits fit self (X # Xs) w = (case fit self X w of (r, self', w') \<Rightarrow> fits fit self' Xs w')"

text \<open>Is an array a matrix with at least one row?\<close>

definition has_rows :: "nat list \<Rightarrow> bool" where
  "has_rows s = (case s of [n, n_features] \<Rightarrow> 0 < n | _ \<Rightarrow> False)"

(*PROPERTIES*)

section \<open>Properties of the recurrent network\<close>

lemma rnn_updates_member:
  "(p, e) \<in> set (rnn_updates lr (zip ps (map G ps))) \<Longrightarrow>
     p \<in> set ps \<and>
     e = Apply Sub [Shared p, Apply Mul [lr, Apply Maximum [Const (PyInt (- 15)),
                                      Apply Minimum [G p, Const (PyFloat 15)]]]]"
  by (induction ps) auto

lemma rnn_updates_keys: "map fst (rnn_updates lr (zip ps (map G ps))) = ps"
  by (induction ps) auto

lemma RNN_init_train:
  "RNN_init E n_in n_hid n_out learning_rate w0 = (r, w) \<Longrightarrow>
     f_updates (rnn_train r) =
       rnn_updates (Shared (rnn_learning_rate r))
         (zip (rnn_params r) (map (\<lambda>p. Grad (f_output (rnn_train r)) (Shared p) []) (rnn_params r)))"
  by (auto simp: RNN_init_def shared_def Let_def theano_function_def split: prod.splits)

text \<open>
  Claim C9. In the function \<^verbatim>\<open>train\<close> that \<^verbatim>\<open>RNN.__init__\<close> compiles, every parameter
  \<open>W, U, V, b, c\<close> has exactly one update, and at every element the new value is
  \<open>param - learning_rate * g\<close> where \<open>g\<close> is the gradient clipped to \<open>[-15, 15]\<close>; with a
  learning rate that is not negative the element moves by at most \<open>15 * learning_rate\<close>.
  (Elements are real numbers here: a NaN gradient is outside the statement.)
\<close>

theorem rnn_update_clipped:
  assumes init: "RNN_init E n_in n_hid n_out learning_rate w0 = (r, w)"
      and upd: "(p, e) \<in> set (f_updates (rnn_train r))"
      and lr: "0 \<le> leaf (Shared (rnn_learning_rate r))"
  shows "map fst (f_updates (rnn_train r)) = rnn_params r \<and>
         (\<exists>g. - 15 \<le> g \<and> g \<le> 15 \<and>
              g = max (- 15) (min (leaf (Grad (f_output (rnn_train r)) (Shared p) [])) 15) \<and>
              elem leaf e = Some (leaf (Shared p) - leaf (Shared (rnn_learning_rate r)) * g) \<and>
              \<bar>(leaf (Shared p) - leaf (Shared (rnn_learning_rate r)) * g) - leaf (Shared p)\<bar>
                \<le> 15 * leaf (Shared (rnn_learning_rate r)))"
proof -
  let ?G = "\<lambda>p. Grad (f_output (rnn_train r)) (Shared p) []"
  let ?lr = "leaf (Shared (rnn_learning_rate r))"
  define g where "g = max (- 15) (min (leaf (?G p)) 15)"
  have us: "f_updates (rnn_train r) =
      rnn_updates (Shared (rnn_learning_rate r)) (zip (rnn_params r) (map ?G (rnn_params r)))"
    using init by (rule RNN_init_train)
  have keys: "map fst (f_updates (rnn_train r)) = rnn_params r"
    unfolding us by (rule rnn_updates_keys)
  have e: "e = Apply Sub [Shared p, Apply Mul [Shared (rnn_learning_rate r),
              Apply Maximum [Const (PyInt (- 15)), Apply Minimum [?G p, Const (PyFloat 15)]]]]"
    using upd rnn_updates_member [of p e "Shared (rnn_learning_rate r)" "rnn_params r" ?G]
    unfolding us by simp
  have range: "- 15 \<le> g" "g \<le> 15"
    by (simp_all add: g_def)
  have val: "elem leaf e = Some (leaf (Shared p) - ?lr * g)"
    unfolding e g_def by simp
  have "\<bar>?lr * g\<bar> \<le> ?lr * 15"
    using lr range by (simp add: abs_mult mult_left_mono abs_le_iff)
  then have bound: "\<bar>(leaf (Shared p) - ?lr * g) - leaf (Shared p)\<bar> \<le> 15 * ?lr"
    by (simp add: mult.commute)
  show ?thesis
    using keys range val bound g_def by blast
qed

theorem rnn_update_clipped_witness:
  "(let r = fst (RNN_init abs_engine 2 3 2 (1 / 10) world0);
        leaf = (\<lambda>t. if t = Shared (rnn_learning_rate r) then 1 / 10 else 100)
    in RNN_init abs_engine 2 3 2 (1 / 10) world0 = (r, snd (RNN_init abs_engine 2 3 2 (1 / 10) world0)) \<and>
       hd (f_updates (rnn_train r)) \<in> set (f_updates (rnn_train r)) \<and>
       0 \<le> leaf (Shared (rnn_learning_rate r)) \<and>
       map fst (f_updates (rnn_train r)) = [1, 2, 3, 4, 5] \<and>
       elem leaf (snd (hd (f_updates (rnn_train r)))) = Some (100 - (1 / 10) * 15))"
proof -
  define r where "r = fst (RNN_init abs_engine 2 3 2 (1 / 10) world0)"
  define w where "w = snd (RNN_init abs_engine 2 3 2 (1 / 10) world0)"
  define leaf :: "texpr \<Rightarrow> real" where
    "leaf = (\<lambda>t. if t = Shared (rnn_learning_rate r) then 1 / 10 else 100)"
  have init: "RNN_init abs_engine 2 3 2 (1 / 10) world0 = (r, w)"
    by (simp add: r_def w_def)
  have ps: "rnn_params r = [1, 2, 3, 4, 5]" and lrid: "rnn_learning_rate r = 6"
    by (simp_all add: r_def RNN_init_def shared_def world0_def Let_def)
  have mem: "(fst (hd (f_updates (rnn_train r))), snd (hd (f_updates (rnn_train r))))
               \<in> set (f_updates (rnn_train r))"
    by (simp add: r_def RNN_init_def shared_def world0_def Let_def theano_function_def)
  have p1: "fst (hd (f_updates (rnn_train r))) = 1"
    by (simp add: r_def RNN_init_def shared_def world0_def Let_def theano_function_def)
  have lr: "0 \<le> leaf (Shared (rnn_learning_rate r))"
    by (simp add: leaf_def)
  from rnn_update_clipped [where leaf = leaf, OF init mem lr]
  have "map fst (f_updates (rnn_train r)) = [1, 2, 3, 4, 5] \<and>
        elem leaf (snd (hd (f_updates (rnn_train r)))) = Some (100 - (1 / 10) * 15)"
    by (auto simp: ps p1 lrid leaf_def)
  then show ?thesis
    using init mem lr unfolding Let_def r_def [symmetric] leaf_def [symmetric] w_def [symmetric]
    by simp
qed

section \<open>Facts about compiled functions\<close>

lemma eval_updates_keys:
  "eval_updates E ins w us = Some vs \<Longrightarrow> map fst vs = map fst us"
  by (induction us arbitrary: vs) (auto split: option.splits)

lemma eval_updates_lookup:
  "eval_updates E ins w us = Some vs \<Longrightarrow> map_of us i = Some e \<Longrightarrow>
     map_of vs i = eval E ins w e"
  by (induction us arbitrary: vs) (auto split: option.splits if_splits)

lemma assign_lookup:
  "distinct (map fst vs) \<Longrightarrow>
     assign vs s i = (case map_of vs i of None \<Rightarrow> s i | Some v \<Rightarrow> Some v)"
proof (induction vs arbitrary: s)
  case Nil
  show ?case by simp
next
  case (Cons a vs)
  obtain j v where a: "a = (j, v)" by (cases a)
  from Cons.prems have d: "distinct (map fst vs)" and nj: "j \<notin> fst ` set vs"
    by (auto simp: a)
  have none: "map_of vs j = None"
    using nj by (simp add: map_of_eq_None_iff)
  have "assign (a # vs) s i = assign vs (s(j \<mapsto> v)) i"
    by (simp add: a)
  also have "\<dots> = (case map_of vs i of None \<Rightarrow> (s(j \<mapsto> v)) i | Some x \<Rightarrow> Some x)"
    by (rule Cons.IH [OF d])
  finally show ?case
    using none by (cases "i = j") (simp_all add: a split: option.splits)
qed

lemma call_function_replaces:
  assumes call: "call_function E f args w = (Inr out, w')"
      and dist: "distinct (map fst (f_updates f))"
      and upd: "map_of (f_updates f) i = Some e"
  shows "store w' i = eval E (map_of (zip (f_inputs f) args)) w e"
proof -
  let ?ins = "map_of (zip (f_inputs f) args)"
  from call obtain vs where vs: "eval_updates E ?ins w (f_updates f) = Some vs"
    and w': "store w' = assign vs (store w)"
    by (auto simp: call_function_def Let_def split: if_splits option.splits)
  have "distinct (map fst vs)"
    using dist eval_updates_keys [OF vs] by simp
  then have "store w' i = (case map_of vs i of None \<Rightarrow> store w i | Some v \<Rightarrow> Some v)"
    unfolding w' by (rule assign_lookup)
  moreover have "map_of vs i = eval E ?ins w e"
    using vs upd by (rule eval_updates_lookup)
  moreover have "eval E ?ins w e \<noteq> None"
  proof -
    from upd have "(i, e) \<in> set (f_updates f)" by (rule map_of_SomeD)
    then have "i \<in> fst ` set vs"
      using eval_updates_keys [OF vs] by (metis fst_conv image_eqI set_map)
    then have "map_of vs i \<noteq> None" by (simp add: map_of_eq_None_iff)
    then show ?thesis using \<open>map_of vs i = eval E ?ins w e\<close> by simp
  qed
  ultimately show ?thesis by (auto split: option.splits)
qed

lemma call_function_frame:
  assumes call: "call_function E f args w = (res, w')"
      and notin: "i \<notin> fst ` set (f_updates f)"
  shows "store w' i = store w i"
proof (cases res)
  case (Inl e)
  then have "w' = w"
    using call by (auto simp: call_function_def Let_def split: if_splits option.splits)
  then show ?thesis by simp
next
  case (Inr out)
  let ?ins = "map_of (zip (f_inputs f) args)"
  from call Inr obtain vs where vs: "eval_updates E ?ins w (f_updates f) = Some vs"
    and w': "store w' = assign vs (store w)"
    by (auto simp: call_function_def Let_def split: if_splits option.splits)
  have keys: "map fst vs = map fst (f_updates f)"
    using vs by (rule eval_updates_keys)
  have "\<And>s. i \<notin> fst ` set vs \<Longrightarrow> assign vs s i = s i"
    by (induction vs) auto
  moreover have "i \<notin> fst ` set vs"
    using notin keys by (metis set_map)
  ultimately show ?thesis by (simp add: w')
qed

section \<open>Properties of the restricted Boltzmann machines\<close>

lemma rbm0_simps:
  "s_W rbm0 = 0" "s_c rbm0 = 1" "s_b rbm0 = 2" "h_samples rbm0 = 3" "K rbm0 = 2"
  "epsilon rbm0 = 1 / 10" "n_hiddens rbm0 = 3" "n_samples rbm0 = 4" "epochs rbm0 = 1"
  "compiled rbm0 = Map.empty" "compilations rbm0 = 0"
  by (simp_all add: rbm0_def RBM_init_def shared_def world0_def Let_def)

lemma rbm0_world_simps:
  "next_id rbm0_world = 4" "np_draws rbm0_world = 1"
  "store rbm0_world 0 = Some (ATensor [1, 0])" "store rbm0_world (Suc 0) = Some (ATensor [0])"
  "store rbm0_world 2 = Some (ATensor [0])" "store rbm0_world 3 = Some (ATensor [1, 0])"
  by (simp_all add: rbm0_world_def RBM_init_def shared_def world0_def Let_def abs_engine_def)

lemma RBM_init_wf: "RBM_init E n_hid W c b k eps n_samp n_epochs w0 = (self, w) \<Longrightarrow> wf_rbm self w"
  by (auto simp: RBM_init_def shared_def Let_def wf_rbm_def rbm_vars_def split: prod.splits)

lemma BinaryRBM_chain_rounds:
  "BinaryRBM_chain self (Suc n) (v, h) =
     (Some (BinaryRBM_sample_v self
        ((gibbs_round (BinaryRBM_sample_v self) (BinaryRBM_sample_h self) ^^ n) h)),
      (gibbs_round (BinaryRBM_sample_v self) (BinaryRBM_sample_h self) ^^ Suc n) h)"
proof (induction n arbitrary: v h)
  case 0
  show ?case by (simp add: gibbs_round_def Let_def)
next
  case (Suc n)
  have "BinaryRBM_chain self (Suc (Suc n)) (v, h) =
          BinaryRBM_chain self (Suc n)
            (Some (BinaryRBM_sample_v self h),
             gibbs_round (BinaryRBM_sample_v self) (BinaryRBM_sample_h self) h)"
    by (simp add: gibbs_round_def Let_def)
  then show ?case
    by (simp only: Suc.IH funpow_Suc_right o_apply)
qed

lemma GaussianRBM_chain_rounds:
  "GaussianRBM_chain self (Suc n) (v, h) =
     (Some (GaussianRBM_mean_v self
        ((gibbs_round (GaussianRBM_mean_v self) (GaussianRBM_sample_h self) ^^ n) h)),
      (gibbs_round (GaussianRBM_mean_v self) (GaussianRBM_sample_h self) ^^ Suc n) h)"
proof (induction n arbitrary: v h)
  case 0
  show ?case by (simp add: gibbs_round_def Let_def)
next
  case (Suc n)
  have "GaussianRBM_chain self (Suc (Suc n)) (v, h) =
          GaussianRBM_chain self (Suc n)
            (Some (GaussianRBM_mean_v self h),
             gibbs_round (GaussianRBM_mean_v self) (GaussianRBM_sample_h self) h)"
    by (simp add: gibbs_round_def Let_def)
  then show ?case
    by (simp only: Suc.IH funpow_Suc_right o_apply)
qed

text \<open>
  Claim C1, as amended. With \<open>K \<ge> 1\<close> the loop of \<^verbatim>\<open>_fit\<close> runs exactly \<open>K\<close> rounds from
  the fantasy particles \<^verbatim>\<open>h_samples\<close>, and the training step does not raise. In
  \<^verbatim>\<open>BinaryRBM\<close> a round draws the visible units from the hiddens (\<^verbatim>\<open>sample_v\<close>) and
  then the hiddens from those visibles (\<^verbatim>\<open>sample_h\<close>). In \<^verbatim>\<open>GaussianRBM\<close> a round takes
  the conditional mean of the visible units (\<^verbatim>\<open>mean_v\<close>, no draw) and then draws the
  hiddens from it.
\<close>

theorem fit_negative_chain:
  assumes "K self = Suc n"
  shows "BinaryRBM_chain self (K self) (None, Shared (h_samples self)) =
           (Some (BinaryRBM_sample_v self
              ((gibbs_round (BinaryRBM_sample_v self) (BinaryRBM_sample_h self) ^^ n)
                 (Shared (h_samples self)))),
            (gibbs_round (BinaryRBM_sample_v self) (BinaryRBM_sample_h self) ^^ K self)
               (Shared (h_samples self)))
       \<and> GaussianRBM_chain self (K self) (None, Shared (h_samples self)) =
           (Some (GaussianRBM_mean_v self
              ((gibbs_round (GaussianRBM_mean_v self) (GaussianRBM_sample_h self) ^^ n)
                 (Shared (h_samples self)))),
            (gibbs_round (GaussianRBM_mean_v self) (GaussianRBM_sample_h self) ^^ K self)
               (Shared (h_samples self)))
       \<and> (\<exists>g w'. BinaryRBM_fit_step E self v_pos w = (Inr g, w'))
       \<and> (\<exists>g w'. GaussianRBM_fit_step self v_pos w = (Inr g, w'))"
proof -
  have b: "BinaryRBM_chain self (K self) (None, Shared (h_samples self)) =
           (Some (BinaryRBM_sample_v self
              ((gibbs_round (BinaryRBM_sample_v self) (BinaryRBM_sample_h self) ^^ n)
                 (Shared (h_samples self)))),
            (gibbs_round (BinaryRBM_sample_v self) (BinaryRBM_sample_h self) ^^ K self)
               (Shared (h_samples self)))"
    unfolding assms by (rule BinaryRBM_chain_rounds)
  have g: "GaussianRBM_chain self (K self) (None, Shared (h_samples self)) =
           (Some (GaussianRBM_mean_v self
              ((gibbs_round (GaussianRBM_mean_v self) (GaussianRBM_sample_h self) ^^ n)
                 (Shared (h_samples self)))),
            (gibbs_round (GaussianRBM_mean_v self) (GaussianRBM_sample_h self) ^^ K self)
               (Shared (h_samples self)))"
    unfolding assms by (rule GaussianRBM_chain_rounds)
  have fb: "\<exists>g w'. BinaryRBM_fit_step E self v_pos w = (Inr g, w')"
    by (simp add: BinaryRBM_fit_step_def b Let_def split: prod.splits)
  have fg: "\<exists>g w'. GaussianRBM_fit_step self v_pos w = (Inr g, w')"
    by (simp add: GaussianRBM_fit_step_def g Let_def)
  show ?thesis using b g fb fg by blast
qed

theorem fit_negative_chain_witness:
  "K rbm0 = Suc 1 \<and>
   BinaryRBM_chain rbm0 (K rbm0) (None, Shared (h_samples rbm0)) =
     (Some (BinaryRBM_sample_v rbm0 (BinaryRBM_sample_h rbm0 (BinaryRBM_sample_v rbm0 (Shared 3)))),
      BinaryRBM_sample_h rbm0 (BinaryRBM_sample_v rbm0
        (BinaryRBM_sample_h rbm0 (BinaryRBM_sample_v rbm0 (Shared 3))))) \<and>
   GaussianRBM_chain rbm0 (K rbm0) (None, Shared (h_samples rbm0)) =
     (Some (GaussianRBM_mean_v rbm0 (GaussianRBM_sample_h rbm0 (GaussianRBM_mean_v rbm0 (Shared 3)))),
      GaussianRBM_sample_h rbm0 (GaussianRBM_mean_v rbm0
        (GaussianRBM_sample_h rbm0 (GaussianRBM_mean_v rbm0 (Shared 3)))))"
proof -
  have k: "K rbm0 = Suc 1" by (simp add: rbm0_simps)
  from fit_negative_chain [OF k, where E = abs_engine and v_pos = "Input ''v_pos''" and w = rbm0_world]
  show ?thesis
    using k by (simp add: rbm0_simps gibbs_round_def numeral_2_eq_2)
qed

text \<open>
  The claim C1 as it was stated fails for \<^verbatim>\<open>GaussianRBM\<close>: the negative sample of
  its training step is not the draw \<^verbatim>\<open>sample_v\<close> of the visible units but their mean,
  which uses no random stream at all.
\<close>

theorem gaussian_chain_draws_no_visibles:
  "fst (GaussianRBM_chain rbm0 (K rbm0) (None, Shared (h_samples rbm0))) \<noteq>
     Some (GaussianRBM_sample_v rbm0
       ((gibbs_round (GaussianRBM_sample_v rbm0) (GaussianRBM_sample_h rbm0) ^^ 1)
          (Shared (h_samples rbm0))))
   \<and> fst (GaussianRBM_chain rbm0 1 (None, Shared (h_samples rbm0))) =
       Some (GaussianRBM_mean_v rbm0 (Shared (h_samples rbm0)))
   \<and> GaussianRBM_mean_v rbm0 (Shared (h_samples rbm0)) \<noteq>
       GaussianRBM_sample_v rbm0 (Shared (h_samples rbm0))
   \<and> \<not> uses_rng (GaussianRBM_mean_v rbm0 (Shared (h_samples rbm0)))"
  by (simp add: rbm0_simps numeral_2_eq_2 gibbs_round_def GaussianRBM_mean_v_def
      GaussianRBM_sample_v_def GaussianRBM_sample_h_def Let_def)

lemma fit_updates_spec_sgd:
  assumes d: "distinct [iW, ib, ic, ih]"
  shows "map_of (AList.update ih h_neg
            (sgd_updates eps (zip [iW, ib, ic] (map G [iW, ib, ic])) [])) =
         [iW \<mapsto> Apply Sub [Shared iW, Apply Mul [Const (PyFloat eps), G iW]],
          ib \<mapsto> Apply Sub [Shared ib, Apply Mul [Const (PyFloat eps), G ib]],
          ic \<mapsto> Apply Sub [Shared ic, Apply Mul [Const (PyFloat eps), G ic]],
          ih \<mapsto> h_neg]"
  using d by (simp add: update_conv' fun_upd_twist)

lemma distinct_fit_keys:
  assumes d: "distinct [iW, ib, ic, ih]"
  shows "distinct (map fst (AList.update ih h_neg
            (sgd_updates eps (zip [iW, ib, ic] (map G [iW, ib, ic])) [])))"
  using d by (simp add: distinct_update)

text \<open>
  Claim C2. With \<open>K \<ge> 1\<close>, for an instance whose shared variables are different ones
  and exist (as after \<^verbatim>\<open>__init__\<close>), the training step of either machine returns
  updates in which each of \<open>W\<close>, \<open>b\<close>, \<open>c\<close> becomes \<open>p - epsilon * grad(cost, p)\<close>, where
  \<open>cost = mean(free_energy(v_pos)) - mean(free_energy(v_neg))\<close> and \<open>v_neg\<close> is held
  constant in the gradient, and \<^verbatim>\<open>h_samples\<close> becomes the last hidden sample of the
  chain. A call of the function compiled from them stores, for every updated variable,
  the value its graph has in the state before the call.
\<close>

theorem fit_step_updates:
  assumes k: "0 < K self" and wf: "wf_rbm self w"
  shows "(\<exists>v_neg h_neg loss updates w'.
            BinaryRBM_chain self (K self) (None, Shared (h_samples self)) = (Some v_neg, h_neg) \<and>
            BinaryRBM_fit_step E self v_pos w = (Inr (OutputUpdates loss updates), w') \<and>
            fit_updates_spec (BinaryRBM_free_energy self) self v_pos v_neg h_neg (map_of updates) \<and>
            (\<forall>args w1 out w2 p e.
               call_function E (theano_function ins loss (Some updates)) args w1 = (Inr out, w2) \<longrightarrow>
               map_of updates p = Some e \<longrightarrow>
               store w2 p = eval E (map_of (zip ins args)) w1 e))
       \<and> (\<exists>v_neg h_neg loss updates w'.
            GaussianRBM_chain self (K self) (None, Shared (h_samples self)) = (Some v_neg, h_neg) \<and>
            GaussianRBM_fit_step self v_pos w = (Inr (OutputUpdates loss updates), w') \<and>
            fit_updates_spec (GaussianRBM_free_energy self) self v_pos v_neg h_neg (map_of updates) \<and>
            (\<forall>args w1 out w2 p e.
               call_function E (theano_function ins loss (Some updates)) args w1 = (Inr out, w2) \<longrightarrow>
               map_of updates p = Some e \<longrightarrow>
               store w2 p = eval E (map_of (zip ins args)) w1 e))"
proof -
  from k obtain n where n: "K self = Suc n" by (cases "K self") auto
  from wf have d: "distinct [s_W self, s_b self, s_c self, h_samples self]"
    and fresh: "next_id w \<notin> set [s_W self, s_b self, s_c self, h_samples self]"
    by (auto simp: wf_rbm_def rbm_vars_def)
  have sem: "\<And>loss updates. distinct (map fst updates) \<Longrightarrow>
      (\<forall>args w1 out w2 p e.
         call_function E (theano_function ins loss (Some updates)) args w1 = (Inr out, w2) \<longrightarrow>
         map_of updates p = Some e \<longrightarrow>
         store w2 p = eval E (map_of (zip ins args)) w1 e)"
  proof (intro allI impI)
    fix loss updates args w1 out w2 p e
    assume dist: "distinct (map fst (updates :: (nat \<times> texpr) list))"
      and call: "call_function E (theano_function ins loss (Some updates)) args w1 = (Inr out, w2)"
      and upd: "map_of updates p = Some e"
    show "store w2 p = eval E (map_of (zip ins args)) w1 e"
      using call_function_replaces [OF call] dist upd
      by (simp add: theano_function_def)
  qed
  \<comment> \<open>the binary machine\<close>
  obtain vb hb where cb: "BinaryRBM_chain self (K self) (None, Shared (h_samples self)) = (Some vb, hb)"
    unfolding n by (simp only: BinaryRBM_chain_rounds)
  let ?Gb = "\<lambda>p. Grad (cd_cost (BinaryRBM_free_energy self) v_pos vb) (Shared p) [vb]"
  let ?ub = "AList.update (h_samples self) hb
               (sgd_updates (epsilon self)
                  (zip [s_W self, s_b self, s_c self] (map ?Gb [s_W self, s_b self, s_c self])) [])"
  obtain lb ub wb where fb: "BinaryRBM_fit_step E self v_pos w = (Inr (OutputUpdates lb ub), wb)"
    and ub: "ub = AList.update (next_id w)
                    (Apply Mod [Apply Add [Shared (next_id w), Const (PyInt 1)],
                                Apply (ShapeAt 1) [v_pos]]) ?ub"
    by (simp add: BinaryRBM_fit_step_def cb BinaryRBM_pseudo_likelihood_def shared_def
        Let_def cd_cost_def)
  have mb: "map_of ?ub =
         [s_W self \<mapsto> Apply Sub [Shared (s_W self), Apply Mul [Const (PyFloat (epsilon self)), ?Gb (s_W self)]],
          s_b self \<mapsto> Apply Sub [Shared (s_b self), Apply Mul [Const (PyFloat (epsilon self)), ?Gb (s_b self)]],
          s_c self \<mapsto> Apply Sub [Shared (s_c self), Apply Mul [Const (PyFloat (epsilon self)), ?Gb (s_c self)]],
          h_samples self \<mapsto> hb]"
    using d by (rule fit_updates_spec_sgd)
  have specb: "fit_updates_spec (BinaryRBM_free_energy self) self v_pos vb hb (map_of ub)"
    using d fresh
    by (auto simp: fit_updates_spec_def ub update_conv' mb gradient_step_def)
  have distb: "distinct (map fst ub)"
    unfolding ub using distinct_fit_keys [OF d] by (simp add: distinct_update)
  \<comment> \<open>the Gaussian machine\<close>
  obtain vg hg where cg: "GaussianRBM_chain self (K self) (None, Shared (h_samples self)) = (Some vg, hg)"
    unfolding n by (simp only: GaussianRBM_chain_rounds)
  let ?Gg = "\<lambda>p. Grad (cd_cost (GaussianRBM_free_energy self) v_pos vg) (Shared p) [vg]"
  let ?ug = "AList.update (h_samples self) hg
               (sgd_updates (epsilon self)
                  (zip [s_W self, s_b self, s_c self] (map ?Gg [s_W self, s_b self, s_c self])) [])"
  have fg: "GaussianRBM_fit_step self v_pos w =
              (Inr (OutputUpdates (GaussianRBM_reconstruction_error self v_pos) ?ug), w)"
    by (simp add: GaussianRBM_fit_step_def cg Let_def cd_cost_def)
  have mg: "map_of ?ug =
         [s_W self \<mapsto> Apply Sub [Shared (s_W self), Apply Mul [Const (PyFloat (epsilon self)), ?Gg (s_W self)]],
          s_b self \<mapsto> Apply Sub [Shared (s_b self), Apply Mul [Const (PyFloat (epsilon self)), ?Gg (s_b self)]],
          s_c self \<mapsto> Apply Sub [Shared (s_c self), Apply Mul [Const (PyFloat (epsilon self)), ?Gg (s_c self)]],
          h_samples self \<mapsto> hg]"
    using d by (rule fit_updates_spec_sgd)
  have specg: "fit_updates_spec (GaussianRBM_free_energy self) self v_pos vg hg (map_of ?ug)"
    using d by (auto simp: fit_updates_spec_def mg gradient_step_def)
  have distg: "distinct (map fst ?ug)"
    using d by (rule distinct_fit_keys)
  show ?thesis
    using cb fb specb sem [OF distb] cg fg specg sem [OF distg] by blast
qed


theorem fit_step_updates_witness:
  "0 < K rbm0 \<and> wf_rbm rbm0 rbm0_world \<and>
   (\<exists>loss updates w'.
      BinaryRBM_fit_step abs_engine rbm0 (Input ''v_pos'') rbm0_world =
        (Inr (OutputUpdates loss updates), w') \<and>
      map_of updates (s_W rbm0) =
        Some (gradient_step (1 / 10)
                (cd_cost (BinaryRBM_free_energy rbm0) (Input ''v_pos'')
                   (BinaryRBM_sample_v rbm0 (BinaryRBM_sample_h rbm0 (BinaryRBM_sample_v rbm0 (Shared 3)))))
                [BinaryRBM_sample_v rbm0 (BinaryRBM_sample_h rbm0 (BinaryRBM_sample_v rbm0 (Shared 3)))]
                0) \<and>
      map_of updates (h_samples rbm0) =
        Some (BinaryRBM_sample_h rbm0 (BinaryRBM_sample_v rbm0
               (BinaryRBM_sample_h rbm0 (BinaryRBM_sample_v rbm0 (Shared 3))))))"
proof -
  have k: "0 < K rbm0" by (simp add: rbm0_simps)
  have wf: "wf_rbm rbm0 rbm0_world"
    by (simp add: wf_rbm_def rbm_vars_def rbm0_simps rbm0_world_simps)
  have chain: "BinaryRBM_chain rbm0 (K rbm0) (None, Shared (h_samples rbm0)) =
      (Some (BinaryRBM_sample_v rbm0 (BinaryRBM_sample_h rbm0 (BinaryRBM_sample_v rbm0 (Shared 3)))),
       BinaryRBM_sample_h rbm0 (BinaryRBM_sample_v rbm0
         (BinaryRBM_sample_h rbm0 (BinaryRBM_sample_v rbm0 (Shared 3)))))"
    by (simp add: rbm0_simps numeral_2_eq_2 Let_def)
  from fit_step_updates [OF k wf, where E = abs_engine and v_pos = "Input ''v_pos''"
      and ins = "[''v_pos'']"]
  obtain v_neg h_neg loss updates w' where
    c: "BinaryRBM_chain rbm0 (K rbm0) (None, Shared (h_samples rbm0)) = (Some v_neg, h_neg)"
    and f: "BinaryRBM_fit_step abs_engine rbm0 (Input ''v_pos'') rbm0_world =
              (Inr (OutputUpdates loss updates), w')"
    and sp: "fit_updates_spec (BinaryRBM_free_energy rbm0) rbm0 (Input ''v_pos'') v_neg h_neg
               (map_of updates)"
    by blast
  from c [unfolded chain] have v: "v_neg = BinaryRBM_sample_v rbm0 (BinaryRBM_sample_h rbm0 (BinaryRBM_sample_v rbm0 (Shared 3)))"
    and h: "h_neg = BinaryRBM_sample_h rbm0 (BinaryRBM_sample_v rbm0
         (BinaryRBM_sample_h rbm0 (BinaryRBM_sample_v rbm0 (Shared 3))))"
    by blast+
  from sp have "map_of updates (s_W rbm0) =
        Some (gradient_step (1 / 10) (cd_cost (BinaryRBM_free_energy rbm0) (Input ''v_pos'') v_neg)
                [v_neg] 0)"
    and "map_of updates (h_samples rbm0) = Some h_neg"
    by (simp_all add: fit_updates_spec_def rbm0_simps)
  then show ?thesis
    using k wf f unfolding v h by blast
qed

section \<open>Facts about the abstract engine\<close>

lemma abs_engine_simps:
  "e_const abs_engine = abs_const" "e_op abs_engine = abs_op" "e_draw abs_engine = abs_draw"
  "e_next abs_engine = (\<lambda>r. r)" "e_grad abs_engine = (\<lambda>node ins w. abs_grad)"
  "e_scan abs_engine = (\<lambda>node ins w. None)"
  "e_shape abs_engine = shape_of" "e_rows abs_engine = abs_rows"
  "e_shuffle abs_engine = (\<lambda>k idx. idx)"
  by (simp_all add: abs_engine_def)

lemmas abs_eval = abs_engine_simps bcast_def elementwise1_def elementwise2_def drop_axis_def

section \<open>Properties of the decorator\<close>

lemma wrapper_symbolic:
  "wrapper E mname inputs meth self (Symbolic t # rest) w =
     (case meth self (Symbolic t # rest) w of
        (Inl e, w') \<Rightarrow> (Inl e, self, w')
      | (Inr g, w') \<Rightarrow> (Inr (Graph g), self, w'))"
  by (simp add: wrapper_def)

lemma wrapper_cached:
  assumes "compiled self (''__'' @ mname) = Some f" and "concrete_first args"
  shows "wrapper E mname inputs meth self args w =
           (fst (call_compiled E f args w), self, snd (call_compiled E f args w))"
proof -
  from assms(2) obtain v rest where "args = Concrete v # rest"
    by (cases args rule: concrete_first.cases) auto
  then show ?thesis
    using assms(1) by (simp add: wrapper_def split: prod.splits)
qed

lemma wrapper_first:
  assumes "compiled self (''__'' @ mname) = None" and "concrete_first args"
      and "meth self (map (\<lambda>n. Symbolic (Input n)) inputs) w = (Inr res, w1)"
  shows "wrapper E mname inputs meth self args w =
           (let f = theano_function inputs (fst (unpack res)) (snd (unpack res))
            in (fst (call_compiled E f args w1),
                self\<lparr>compiled := (compiled self)(''__'' @ mname \<mapsto> f),
                     compilations := Suc (compilations self)\<rparr>,
                snd (call_compiled E f args w1)))"
proof -
  from assms(2) obtain v rest where "args = Concrete v # rest"
    by (cases args rule: concrete_first.cases) auto
  then show ?thesis
    using assms(1,3) by (simp add: wrapper_def Let_def split: prod.splits)
qed

lemma wrapper_calls_cached:
  assumes "compiled self (''__'' @ mname) = Some f" and "list_all concrete_first argss"
  shows "wrapper_calls E mname inputs meth self argss w =
           (fst (compiled_calls E f argss w), self, snd (compiled_calls E f argss w))"
  using assms
proof (induction argss arbitrary: w)
  case Nil
  show ?case by simp
next
  case (Cons args later)
  then have c: "concrete_first args" and m: "list_all concrete_first later" by simp_all
  show ?case
    using Cons.IH [OF Cons.prems(1) m]
    by (simp add: wrapper_cached [OF Cons.prems(1) c] Let_def split: prod.splits)
qed

text \<open>
  Claim C3. Take an instance that has no attribute \<^verbatim>\<open>'__' + method name\<close> yet and a
  decorated method whose body builds its graph from the decorator's inputs without
  raising. Over any sequence of calls with concrete arguments, the first call compiles
  the method (one call of \<^verbatim>\<open>theano.function\<close> on those inputs, the graph and its
  updates) and stores the function under \<^verbatim>\<open>'__' + method name\<close>; no later call compiles
  again; and every call, the first included, returns what that one compiled function
  returns for the call's arguments.
\<close>

theorem symbolic_compiles_once:
  assumes fresh: "compiled self (''__'' @ mname) = None"
      and builds: "meth self (map (\<lambda>n. Symbolic (Input n)) inputs) w = (Inr res, w1)"
      and conc: "concrete_first args" "list_all concrete_first later"
      and calls: "wrapper_calls E mname inputs meth self (args # later) w = (results, self', w')"
  shows "compiled self' = (compiled self)
            (''__'' @ mname \<mapsto> theano_function inputs (fst (unpack res)) (snd (unpack res)))
       \<and> compilations self' = Suc (compilations self)
       \<and> (results, w') =
           compiled_calls E (theano_function inputs (fst (unpack res)) (snd (unpack res)))
             (args # later) w1"
proof -
  let ?f = "theano_function inputs (fst (unpack res)) (snd (unpack res))"
  let ?self1 = "self\<lparr>compiled := (compiled self)(''__'' @ mname \<mapsto> ?f),
                     compilations := Suc (compilations self)\<rparr>"
  have first: "wrapper E mname inputs meth self args w =
      (fst (call_compiled E ?f args w1), ?self1, snd (call_compiled E ?f args w1))"
    using wrapper_first [where meth = meth and inputs = inputs and w = w and E = E, OF fresh conc(1) builds]
    by (simp add: Let_def)
  have cached: "compiled ?self1 (''__'' @ mname) = Some ?f" by simp
  have rest: "wrapper_calls E mname inputs meth ?self1 later (snd (call_compiled E ?f args w1)) =
      (fst (compiled_calls E ?f later (snd (call_compiled E ?f args w1))), ?self1,
       snd (compiled_calls E ?f later (snd (call_compiled E ?f args w1))))"
    using cached conc(2) by (rule wrapper_calls_cached)
  let ?w2 = "snd (call_compiled E ?f args w1)"
  have all: "wrapper_calls E mname inputs meth self (args # later) w =
      (fst (call_compiled E ?f args w1) # fst (compiled_calls E ?f later ?w2), ?self1,
       snd (compiled_calls E ?f later ?w2))"
    by (simp only: wrapper_calls.simps first rest Let_def prod.case)
  have cc: "compiled_calls E ?f (args # later) w1 =
      (fst (call_compiled E ?f args w1) # fst (compiled_calls E ?f later ?w2),
       snd (compiled_calls E ?f later ?w2))"
    by (simp add: Let_def case_prod_beta)
  from calls [unfolded all] have "self' = ?self1"
    and "(results, w') = compiled_calls E ?f (args # later) w1"
    unfolding cc by simp_all
  then show ?thesis by simp
qed

theorem symbolic_compiles_once_witness:
  "compiled rbm0 (''__'' @ ''mean_h'') = None \<and>
   graph_method BinaryRBM_mean_h rbm0 (map (\<lambda>n. Symbolic (Input n)) [''v'']) rbm0_world =
     (Inr (Output (BinaryRBM_mean_h rbm0 (Input ''v''))), rbm0_world) \<and>
   concrete_first [Concrete (ATensor [5, 1])] \<and>
   list_all concrete_first [[Concrete (ATensor [2, 1])]] \<and>
   fst (wrapper_calls abs_engine ''mean_h'' [''v''] (graph_method BinaryRBM_mean_h) rbm0
     [[Concrete (ATensor [5, 1])], [Concrete (ATensor [2, 1])]] rbm0_world) =
     [Inr (Value (ATensor [5, 0])), Inr (Value (ATensor [2, 0]))] \<and>
   compilations (fst (snd (wrapper_calls abs_engine ''mean_h'' [''v''] (graph_method BinaryRBM_mean_h) rbm0
     [[Concrete (ATensor [5, 1])], [Concrete (ATensor [2, 1])]] rbm0_world))) = 1"
proof -
  let ?calls = "wrapper_calls abs_engine ''mean_h'' [''v''] (graph_method BinaryRBM_mean_h) rbm0
     [[Concrete (ATensor [5, 1])], [Concrete (ATensor [2, 1])]] rbm0_world"
  have fresh: "compiled rbm0 (''__'' @ ''mean_h'') = None"
    by (simp add: rbm0_simps)
  have builds: "graph_method BinaryRBM_mean_h rbm0 (map (\<lambda>n. Symbolic (Input n)) [''v'']) rbm0_world =
     (Inr (Output (BinaryRBM_mean_h rbm0 (Input ''v''))), rbm0_world)"
    by (simp add: graph_method_def)
  have c1: "concrete_first [Concrete (ATensor [5, 1])]" by simp
  have c2: "list_all concrete_first [[Concrete (ATensor [2, 1])]]" by simp
  have calls: "?calls = (fst ?calls, fst (snd ?calls), snd (snd ?calls))" by simp
  have run: "compiled_calls abs_engine
        (theano_function [''v''] (BinaryRBM_mean_h rbm0 (Input ''v'')) None)
        [[Concrete (ATensor [5, 1])], [Concrete (ATensor [2, 1])]] rbm0_world =
      ([Inr (Value (ATensor [5, 0])), Inr (Value (ATensor [2, 0]))], rbm0_world)"
    by (simp add: call_compiled_def call_function_def theano_function_def BinaryRBM_mean_h_def
        rbm0_simps rbm0_world_simps abs_engine_simps Let_def bcast_def
        elementwise1_def elementwise2_def)
  from symbolic_compiles_once [where meth = "graph_method BinaryRBM_mean_h" and inputs = "[''v'']"
      and w = rbm0_world and E = abs_engine, OF fresh builds c1 c2 calls]
  have "compilations (fst (snd ?calls)) = Suc (compilations rbm0)"
    and "(fst ?calls, snd (snd ?calls)) =
      compiled_calls abs_engine
        (theano_function [''v''] (BinaryRBM_mean_h rbm0 (Input ''v'')) None)
        [[Concrete (ATensor [5, 1])], [Concrete (ATensor [2, 1])]] rbm0_world"
    by simp_all
  then have "fst ?calls = [Inr (Value (ATensor [5, 0])), Inr (Value (ATensor [2, 0]))]"
    and "compilations (fst (snd ?calls)) = 1"
    unfolding run by (simp_all add: rbm0_simps)
  then show ?thesis
    using fresh builds c1 c2 by simp
qed

section \<open>The frame of the query and sampling methods\<close>

lemma call_function_no_updates:
  assumes "f_updates f = []" and "call_function E f vs w = (res, w')"
  shows "store w' = store w \<and> next_id w' = next_id w \<and> np_draws w' = np_draws w"
  using assms
  by (auto simp: call_function_def Let_def split: if_splits option.splits)

lemma call_compiled_no_updates:
  assumes "f_updates f = []" and "call_compiled E f args w = (res, w')"
  shows "store w' = store w \<and> next_id w' = next_id w \<and> np_draws w' = np_draws w"
proof (cases "concrete_args args")
  case None
  then show ?thesis using assms(2) by (simp add: call_compiled_def)
next
  case (Some vs)
  obtain r w1 where c: "call_function E f vs w = (r, w1)" by (cases "call_function E f vs w")
  have "w' = w1"
    using assms(2) by (cases r) (simp_all add: call_compiled_def Some c)
  then show ?thesis
    using call_function_no_updates [OF assms(1) c] by simp
qed

lemma method_name_inject: "method_name m = method_name m' \<Longrightarrow> m = m'"
  by (cases m; cases m') simp_all

lemma rbm_methods_all: "m \<in> set rbm_methods"
  by (cases m) (simp_all add: rbm_methods_def)

lemma cache_ok_iff:
  "cache_ok body self \<longleftrightarrow>
     (\<forall>m f. compiled self (''__'' @ method_name m) = Some f \<longrightarrow> f = compiled_query body self m)"
proof
  assume ok: "cache_ok body self"
  show "\<forall>m f. compiled self (''__'' @ method_name m) = Some f \<longrightarrow> f = compiled_query body self m"
  proof (intro allI impI)
    fix m f
    assume c: "compiled self (''__'' @ method_name m) = Some f"
    from ok rbm_methods_all [of m]
    have "case compiled self (''__'' @ method_name m) of
            None \<Rightarrow> True | Some f \<Rightarrow> f = compiled_query body self m"
      unfolding cache_ok_def list_all_iff by blast
    then show "f = compiled_query body self m" using c by simp
  qed
next
  assume "\<forall>m f. compiled self (''__'' @ method_name m) = Some f \<longrightarrow> f = compiled_query body self m"
  then show "cache_ok body self"
    unfolding cache_ok_def list_all_iff by (auto split: option.splits)
qed

lemma wrapper_query_frame:
  assumes indep: "\<And>m s c n. body m (s\<lparr>compiled := c, compilations := n\<rparr>) = body m s"
      and ok: "cache_ok body self"
      and call: "wrapper E (method_name m) (method_inputs m) (graph_method (body m)) self args w
                   = (res, self', w')"
  shows "store w' = store w \<and> cache_ok body self'"
proof (cases args)
  case Nil
  then show ?thesis using call ok by (simp add: wrapper_def)
next
  case (Cons a rest)
  show ?thesis
  proof (cases a)
    case (Symbolic t)
    then show ?thesis
      using call ok Cons
      by (auto simp: wrapper_def graph_method_def split: list.splits arg.splits)
  next
    case (Concrete v)
    have cf: "concrete_first args" by (simp add: Cons Concrete)
    show ?thesis
    proof (cases "compiled self (''__'' @ method_name m)")
      case (Some f)
      from ok Some have f: "f = compiled_query body self m"
        by (simp add: cache_ok_iff)
      then have nou: "f_updates f = []"
        by (simp add: compiled_query_def theano_function_def)
      from call have self': "self' = self"
        and c: "call_compiled E f args w = (res, w')"
        by (auto simp: wrapper_cached [OF Some cf])
      show ?thesis
        using call_compiled_no_updates [OF nou c] ok self' by simp
    next
      case None
      have ins: "map (\<lambda>n. Symbolic (Input n)) (method_inputs m) = [Symbolic (Input (hd (method_inputs m)))]"
        by (cases m) simp_all
      have builds: "graph_method (body m) self (map (\<lambda>n. Symbolic (Input n)) (method_inputs m)) w =
          (Inr (Output (body m self (Input (hd (method_inputs m))))), w)"
        by (simp add: ins graph_method_def)
      let ?f = "compiled_query body self m"
      have f: "theano_function (method_inputs m)
                 (fst (unpack (Output (body m self (Input (hd (method_inputs m)))))))
                 (snd (unpack (Output (body m self (Input (hd (method_inputs m))))))) = ?f"
        by (simp add: compiled_query_def)
      have nou: "f_updates ?f = []"
        by (simp add: compiled_query_def theano_function_def)
      from call have self': "self' = self\<lparr>compiled := (compiled self)(''__'' @ method_name m \<mapsto> ?f),
                                          compilations := Suc (compilations self)\<rparr>"
        and c: "call_compiled E ?f args w = (res, w')"
        by (auto simp: wrapper_first [where meth = "graph_method (body m)", OF None cf builds]
            compiled_query_def Let_def)
      have "cache_ok body self'"
        unfolding cache_ok_iff
      proof (intro allI impI)
        fix m' g
        assume g: "compiled self' (''__'' @ method_name m') = Some g"
        have q: "compiled_query body self' m' = compiled_query body self m'"
          by (simp add: compiled_query_def self' indep)
        show "g = compiled_query body self' m'"
        proof (cases "m' = m")
          case True
          then show ?thesis using g q by (simp add: self')
        next
          case False
          then have "method_name m' \<noteq> method_name m"
            using method_name_inject by blast
          then have "compiled self (''__'' @ method_name m') = Some g"
            using g by (simp add: self')
          then show ?thesis
            using ok q by (simp add: cache_ok_iff)
        qed
      qed
      then show ?thesis
        using call_compiled_no_updates [OF nou c] by simp
    qed
  qed
qed

lemma BinaryRBM_body_indep:
  "BinaryRBM_body m (s\<lparr>compiled := c, compilations := n\<rparr>) = BinaryRBM_body m s"
  by (cases m)
     (simp_all add: fun_eq_iff BinaryRBM_mean_h_def BinaryRBM_sample_h_def BinaryRBM_mean_v_def
        BinaryRBM_sample_v_def BinaryRBM_free_energy_def BinaryRBM_gibbs_def)

lemma GaussianRBM_body_indep:
  "GaussianRBM_body m (s\<lparr>compiled := c, compilations := n\<rparr>) = GaussianRBM_body m s"
  by (cases m)
     (simp_all add: fun_eq_iff GaussianRBM_mean_h_def GaussianRBM_sample_h_def GaussianRBM_mean_v_def
        GaussianRBM_sample_v_def GaussianRBM_free_energy_def GaussianRBM_gibbs_def)


lemma BinaryRBM_fit_step_keys:
  assumes "0 < K self"
  shows "\<exists>loss updates w1.
           BinaryRBM_fit_step E self v_pos w = (Inr (OutputUpdates loss updates), w1) \<and>
           fst ` set updates = insert (next_id w) (set (rbm_vars self))"
proof -
  from assms obtain n where n: "K self = Suc n" by (cases "K self") auto
  obtain v h where c: "BinaryRBM_chain self (K self) (None, Shared (h_samples self)) = (Some v, h)"
    unfolding n by (simp only: BinaryRBM_chain_rounds)
  show ?thesis
    by (auto simp: BinaryRBM_fit_step_def c BinaryRBM_pseudo_likelihood_def shared_def Let_def
        dom_update rbm_vars_def)
qed

lemma GaussianRBM_fit_step_keys:
  assumes "0 < K self"
  shows "\<exists>loss updates.
           GaussianRBM_fit_step self v_pos w = (Inr (OutputUpdates loss updates), w) \<and>
           fst ` set updates = set (rbm_vars self)"
proof -
  from assms obtain n where n: "K self = Suc n" by (cases "K self") auto
  obtain v h where c: "GaussianRBM_chain self (K self) (None, Shared (h_samples self)) = (Some v, h)"
    unfolding n by (simp only: GaussianRBM_chain_rounds)
  show ?thesis
    by (auto simp: GaussianRBM_fit_step_def c Let_def dom_update rbm_vars_def)
qed

text \<open>
  Claim C10. A call of \<^verbatim>\<open>mean_h\<close>, \<^verbatim>\<open>sample_h\<close>, \<^verbatim>\<open>mean_v\<close>, \<^verbatim>\<open>sample_v\<close>,
  \<^verbatim>\<open>free_energy\<close> or \<^verbatim>\<open>gibbs\<close> of either machine, with graph nodes or with concrete
  arrays, compiled before or not, leaves every shared variable as it was: \<open>W\<close>, \<open>b\<close>,
  \<open>c\<close> and \<^verbatim>\<open>h_samples\<close> among them (the instance keeps holding only functions the
  decorator compiled, so the next call is covered too). The training step \<^verbatim>\<open>_fit\<close> is
  the one that writes them: its updates cover all four.
\<close>

theorem queries_keep_parameters:
  "(cache_ok BinaryRBM_body self \<longrightarrow>
      BinaryRBM_call E m self args w = (res, self', w') \<longrightarrow>
      store w' = store w \<and> cache_ok BinaryRBM_body self')
   \<and> (cache_ok GaussianRBM_body self \<longrightarrow>
      GaussianRBM_call E m self args w = (res, self', w') \<longrightarrow>
      store w' = store w \<and> cache_ok GaussianRBM_body self')
   \<and> (0 < K self \<longrightarrow>
      (\<exists>loss updates w1.
          BinaryRBM_fit_step E self v_pos w = (Inr (OutputUpdates loss updates), w1) \<and>
          set (rbm_vars self) \<subseteq> fst ` set updates) \<and>
      (\<exists>loss updates w1.
          GaussianRBM_fit_step self v_pos w = (Inr (OutputUpdates loss updates), w1) \<and>
          set (rbm_vars self) \<subseteq> fst ` set updates))"
proof (intro conjI impI)
  assume "cache_ok BinaryRBM_body self" and "BinaryRBM_call E m self args w = (res, self', w')"
  then show "store w' = store w" and "cache_ok BinaryRBM_body self'"
    using wrapper_query_frame [where body = BinaryRBM_body, OF BinaryRBM_body_indep]
    unfolding BinaryRBM_call_def by blast+
next
  assume "cache_ok GaussianRBM_body self" and "GaussianRBM_call E m self args w = (res, self', w')"
  then show "store w' = store w" and "cache_ok GaussianRBM_body self'"
    using wrapper_query_frame [where body = GaussianRBM_body, OF GaussianRBM_body_indep]
    unfolding GaussianRBM_call_def by blast+
next
  assume k: "0 < K self"
  show "\<exists>loss updates w1.
          BinaryRBM_fit_step E self v_pos w = (Inr (OutputUpdates loss updates), w1) \<and>
          set (rbm_vars self) \<subseteq> fst ` set updates"
    using BinaryRBM_fit_step_keys [OF k, of E v_pos w] by blast
  show "\<exists>loss updates w1.
          GaussianRBM_fit_step self v_pos w = (Inr (OutputUpdates loss updates), w1) \<and>
          set (rbm_vars self) \<subseteq> fst ` set updates"
    using GaussianRBM_fit_step_keys [OF k, of v_pos w] by blast
qed

theorem queries_keep_parameters_witness:
  "cache_ok BinaryRBM_body rbm0 \<and>
   BinaryRBM_call abs_engine Sample_h rbm0 [Concrete (ATensor [5, 1])] rbm0_world =
     (Inr (Value (ATensor [5, 0])),
      rbm0\<lparr>compiled := [''__sample_h'' \<mapsto> compiled_query BinaryRBM_body rbm0 Sample_h],
           compilations := 1\<rparr>,
      rbm0_world) \<and>
   cache_ok BinaryRBM_body
     (rbm0\<lparr>compiled := [''__sample_h'' \<mapsto> compiled_query BinaryRBM_body rbm0 Sample_h],
           compilations := 1\<rparr>) \<and>
   0 < K rbm0 \<and>
   (\<exists>loss updates w1.
      BinaryRBM_fit_step abs_engine rbm0 (Input ''v_pos'') rbm0_world =
        (Inr (OutputUpdates loss updates), w1) \<and>
      set (rbm_vars rbm0) \<subseteq> fst ` set updates)"
proof -
  have ok: "cache_ok BinaryRBM_body rbm0"
    by (simp add: cache_ok_def rbm0_simps rbm_methods_def)
  have call: "BinaryRBM_call abs_engine Sample_h rbm0 [Concrete (ATensor [5, 1])] rbm0_world =
     (Inr (Value (ATensor [5, 0])),
      rbm0\<lparr>compiled := [''__sample_h'' \<mapsto> compiled_query BinaryRBM_body rbm0 Sample_h],
           compilations := 1\<rparr>,
      rbm0_world)"
    by (simp add: BinaryRBM_call_def wrapper_def graph_method_def compiled_query_def
        call_compiled_def call_function_def theano_function_def BinaryRBM_sample_h_def
        BinaryRBM_mean_h_def rbm0_simps rbm0_world_simps abs_eval Let_def)
  have k: "0 < K rbm0" by (simp add: rbm0_simps)
  from queries_keep_parameters [of rbm0 abs_engine Sample_h "[Concrete (ATensor [5, 1])]"
      rbm0_world _ _ _ "Input ''v_pos''"] ok call k
  show ?thesis by blast
qed

section \<open>Properties of the multilayer perceptron\<close>

lemma those_vals_cong:
  "(\<And>x. x \<in> set xs \<Longrightarrow> f x = g x) \<Longrightarrow> those_vals (map f xs) = those_vals (map g xs)"
proof -
  assume "\<And>x. x \<in> set xs \<Longrightarrow> f x = g x"
  then have "map f xs = map g xs" by simp
  then show ?thesis by (rule arg_cong)
qed

lemma eval_plain_store:
  "plain e \<Longrightarrow> store w = store w' \<Longrightarrow> eval E ins w e = eval E ins w' e"
proof (induction e)
  case (Apply f xs)
  then have "\<And>x. x \<in> set xs \<Longrightarrow> eval E ins w x = eval E ins w' x"
    by (simp add: list_all_iff)
  then have "those_vals (map (eval E ins w) xs) = those_vals (map (eval E ins w') xs)"
    by (rule those_vals_cong)
  then show ?case by simp
qed simp_all

lemma plain_no_rng: "plain e \<Longrightarrow> \<not> uses_rng e"
  by (induction e) (auto simp: list_all_iff list_ex_iff)

lemma call_function_plain:
  assumes "plain (f_output f)" and "f_updates f = []" and "store w = store w'"
  shows "fst (call_function E f args w) = fst (call_function E f args w')"
proof -
  have "eval E (map_of (zip (f_inputs f) args)) w (f_output f) =
        eval E (map_of (zip (f_inputs f) args)) w' (f_output f)"
    using assms(1,3) by (rule eval_plain_store)
  then show ?thesis
    using assms(2) by (simp add: call_function_def Let_def split: option.splits)
qed

lemma activate_plain: "activate act x w = (y, w') \<Longrightarrow> plain y = plain x"
  by (cases act) auto

lemma activate_store:
  "activate act x w = (y, w') \<Longrightarrow> store w' = store w \<and> next_id w' = next_id w"
  by (cases act) auto

lemma make_layer_fields:
  assumes "make_layer E t x n_in n_out xm W b w = (Inr l, w')"
  shows "l_input l = x" "l_n_in l = n_in" "l_n_out l = n_out"
        "W = Some i \<Longrightarrow> l_W l = i" "b = Some j \<Longrightarrow> l_b l = j"
        "plain (l_output l) = plain x"
        "l_linear_output l = Apply Dot [x, Shared (l_W l)]"
proof -
  from assms obtain act where act: "type_map t xm n_out = Some act"
    and l: "NeuralNetworkLayer_init E x n_in n_out act W b w = (l, w')"
    by (auto simp: make_layer_def split: option.splits prod.splits)
  from l show "l_input l = x" "l_n_in l = n_in" "l_n_out l = n_out"
    by (auto simp: NeuralNetworkLayer_init_def Let_def split: prod.splits)
  from l show "W = Some i \<Longrightarrow> l_W l = i" "b = Some j \<Longrightarrow> l_b l = j"
    by (auto simp: NeuralNetworkLayer_init_def Let_def split: prod.splits)
  from l show "l_linear_output l = Apply Dot [x, Shared (l_W l)]"
    by (auto simp: NeuralNetworkLayer_init_def Let_def split: prod.splits)
  from l show "plain (l_output l) = plain x"
    by (auto simp: NeuralNetworkLayer_init_def Let_def split: prod.splits dest!: activate_plain)
qed


lemma make_layer_store_given:
  assumes "make_layer E t x n_in n_out xm (Some i) (Some j) w = (Inr l, w')"
  shows "store w' = store w \<and> next_id w' = next_id w"
  using assms
  by (auto simp: make_layer_def NeuralNetworkLayer_init_def Let_def
      split: option.splits prod.splits dest!: activate_store)

lemma prefix_nth:
  assumes "take (Suc n) cs = done @ [l]" and "length done = n"
  shows "cs ! n = l" and "take n cs = done" and "\<And>k. k < n \<Longrightarrow> cs ! k = done ! k"
proof -
  have len: "n < length cs"
  proof (rule ccontr)
    assume "\<not> n < length cs"
    then have "length (take (Suc n) cs) \<le> n" by simp
    then show False using assms by simp
  qed
  have "cs ! n = take (Suc n) cs ! n" by simp
  also have "\<dots> = l" using assms by (simp add: nth_append)
  finally show "cs ! n = l" .
  have "take n cs = take n (take (Suc n) cs)" by simp
  also have "\<dots> = done" using assms by simp
  finally show t: "take n cs = done" .
  fix k assume "k < n"
  then have "cs ! k = take n cs ! k" by simp
  then show "cs ! k = done ! k" by (simp add: t)
qed

lemma clean_stack_props:
  assumes "clean_stack E x n_in ls layers todo done w = (Inr cs, w')"
  shows "length cs = length done + length todo \<and>
         take (length done) cs = done \<and>
         store w' = store w \<and> next_id w' = next_id w \<and>
         (plain x \<longrightarrow> list_all (\<lambda>l. plain (l_output l)) done \<longrightarrow>
            list_all (\<lambda>l. plain (l_output l)) cs) \<and>
         (\<forall>i. length done \<le> i \<and> i < length cs \<longrightarrow>
            l_W (cs ! i) = l_W (ls ! i) \<and> l_b (cs ! i) = l_b (ls ! i) \<and>
            l_n_out (cs ! i) = snd (todo ! (i - length done)) \<and>
            l_n_in (cs ! i) = (if i = 0 then n_in else l_n_out (cs ! (i - 1))) \<and>
            l_input (cs ! i) =
              (if Suc i = length layers
               then Apply (MaxOver (Some 0)) [if i = 0 then x else l_output (cs ! (i - 1))]
               else (if i = 0 then x else l_output (cs ! (i - 1)))))"
  using assms
proof (induction todo arbitrary: "done" w)
  case Nil
  then have "cs = done" and "w' = w" by simp_all
  then show ?case by auto
next
  case (Cons layer todo)
  let ?i = "length done"
  let ?prev = "if ?i = 0 then x else l_output (last done)"
  let ?n_in = "if ?i = 0 then n_in else l_n_out (last done)"
  let ?input = "if Suc ?i = length layers then Apply (MaxOver (Some 0)) [?prev] else ?prev"
  let ?xargs = "if fst layer = ''R'' \<and> layer = last layers then Some False else None"
  from Cons.prems have inrange: "?i < length ls"
    by (auto simp: Let_def split: if_splits)
  from Cons.prems inrange obtain l w1 where
    mk: "make_layer E (fst layer) ?input ?n_in (snd layer) ?xargs
           (Some (l_W (ls ! ?i))) (Some (l_b (ls ! ?i))) w = (Inr l, w1)"
    and rec: "clean_stack E x n_in ls layers todo (done @ [l]) w1 = (Inr cs, w')"
    by (auto simp: Let_def split: if_splits prod.splits sum.splits)
  note f = make_layer_fields [OF mk]
  note st = make_layer_store_given [OF mk]
  from Cons.IH [OF rec] have
    len: "length cs = length (done @ [l]) + length todo"
    and pre: "take (length (done @ [l])) cs = done @ [l]"
    and sto: "store w' = store w1 \<and> next_id w' = next_id w1"
    and pl: "plain x \<longrightarrow> list_all (\<lambda>l. plain (l_output l)) (done @ [l]) \<longrightarrow>
               list_all (\<lambda>l. plain (l_output l)) cs"
    and ix: "\<forall>i. length (done @ [l]) \<le> i \<and> i < length cs \<longrightarrow>
            l_W (cs ! i) = l_W (ls ! i) \<and> l_b (cs ! i) = l_b (ls ! i) \<and>
            l_n_out (cs ! i) = snd (todo ! (i - length (done @ [l]))) \<and>
            l_n_in (cs ! i) = (if i = 0 then n_in else l_n_out (cs ! (i - 1))) \<and>
            l_input (cs ! i) =
              (if Suc i = length layers
               then Apply (MaxOver (Some 0)) [if i = 0 then x else l_output (cs ! (i - 1))]
               else (if i = 0 then x else l_output (cs ! (i - 1))))"
    by blast+
  from pre have pre': "take (Suc ?i) cs = done @ [l]" by simp
  have at: "cs ! ?i = l" and pre0: "take ?i cs = done"
    and below: "\<And>k. k < ?i \<Longrightarrow> cs ! k = done ! k"
    using prefix_nth [OF pre' refl] by blast+
  have prev: "?i \<noteq> 0 \<Longrightarrow> cs ! (?i - 1) = last done"
  proof -
    assume nz: "?i \<noteq> 0"
    then have "cs ! (?i - 1) = done ! (?i - 1)" by (intro below) simp
    also have "\<dots> = last done" using nz by (simp add: last_conv_nth)
    finally show ?thesis .
  qed
  have plain_l: "plain x \<Longrightarrow> list_all (\<lambda>l. plain (l_output l)) done \<Longrightarrow> plain (l_output l)"
  proof -
    assume px: "plain x" and pd: "list_all (\<lambda>l. plain (l_output l)) done"
    have "plain ?prev"
      using px pd by (auto simp: list_all_iff)
    then have "plain ?input" by simp
    then show ?thesis using f(6) by simp
  qed
  have here: "l_W (cs ! ?i) = l_W (ls ! ?i) \<and> l_b (cs ! ?i) = l_b (ls ! ?i) \<and>
            l_n_out (cs ! ?i) = snd ((layer # todo) ! (?i - ?i)) \<and>
            l_n_in (cs ! ?i) = (if ?i = 0 then n_in else l_n_out (cs ! (?i - 1))) \<and>
            l_input (cs ! ?i) =
              (if Suc ?i = length layers
               then Apply (MaxOver (Some 0)) [if ?i = 0 then x else l_output (cs ! (?i - 1))]
               else (if ?i = 0 then x else l_output (cs ! (?i - 1))))"
    using f(1,2,3) f(4) [OF refl] f(5) [OF refl] prev by (auto simp: at)
  have later: "\<And>i. ?i < i \<Longrightarrow> i < length cs \<Longrightarrow>
            l_W (cs ! i) = l_W (ls ! i) \<and> l_b (cs ! i) = l_b (ls ! i) \<and>
            l_n_out (cs ! i) = snd ((layer # todo) ! (i - ?i)) \<and>
            l_n_in (cs ! i) = (if i = 0 then n_in else l_n_out (cs ! (i - 1))) \<and>
            l_input (cs ! i) =
              (if Suc i = length layers
               then Apply (MaxOver (Some 0)) [if i = 0 then x else l_output (cs ! (i - 1))]
               else (if i = 0 then x else l_output (cs ! (i - 1))))"
  proof -
    fix i assume a: "?i < i" "i < length cs"
    then have "length (done @ [l]) \<le> i \<and> i < length cs" by simp
    with ix have h: "l_W (cs ! i) = l_W (ls ! i) \<and> l_b (cs ! i) = l_b (ls ! i) \<and>
            l_n_out (cs ! i) = snd (todo ! (i - length (done @ [l]))) \<and>
            l_n_in (cs ! i) = (if i = 0 then n_in else l_n_out (cs ! (i - 1))) \<and>
            l_input (cs ! i) =
              (if Suc i = length layers
               then Apply (MaxOver (Some 0)) [if i = 0 then x else l_output (cs ! (i - 1))]
               else (if i = 0 then x else l_output (cs ! (i - 1))))"
      by blast
    have "(layer # todo) ! (i - ?i) = todo ! (i - length (done @ [l]))"
      using a by (simp add: nth_Cons')
    with h show "l_W (cs ! i) = l_W (ls ! i) \<and> l_b (cs ! i) = l_b (ls ! i) \<and>
            l_n_out (cs ! i) = snd ((layer # todo) ! (i - ?i)) \<and>
            l_n_in (cs ! i) = (if i = 0 then n_in else l_n_out (cs ! (i - 1))) \<and>
            l_input (cs ! i) =
              (if Suc i = length layers
               then Apply (MaxOver (Some 0)) [if i = 0 then x else l_output (cs ! (i - 1))]
               else (if i = 0 then x else l_output (cs ! (i - 1))))"
      by simp
  qed
  have all: "\<forall>i. ?i \<le> i \<and> i < length cs \<longrightarrow>
            l_W (cs ! i) = l_W (ls ! i) \<and> l_b (cs ! i) = l_b (ls ! i) \<and>
            l_n_out (cs ! i) = snd ((layer # todo) ! (i - ?i)) \<and>
            l_n_in (cs ! i) = (if i = 0 then n_in else l_n_out (cs ! (i - 1))) \<and>
            l_input (cs ! i) =
              (if Suc i = length layers
               then Apply (MaxOver (Some 0)) [if i = 0 then x else l_output (cs ! (i - 1))]
               else (if i = 0 then x else l_output (cs ! (i - 1))))"
  proof (intro allI impI)
    fix i assume "?i \<le> i \<and> i < length cs"
    then consider "i = ?i" | "?i < i" "i < length cs" by linarith
    then show "l_W (cs ! i) = l_W (ls ! i) \<and> l_b (cs ! i) = l_b (ls ! i) \<and>
            l_n_out (cs ! i) = snd ((layer # todo) ! (i - ?i)) \<and>
            l_n_in (cs ! i) = (if i = 0 then n_in else l_n_out (cs ! (i - 1))) \<and>
            l_input (cs ! i) =
              (if Suc i = length layers
               then Apply (MaxOver (Some 0)) [if i = 0 then x else l_output (cs ! (i - 1))]
               else (if i = 0 then x else l_output (cs ! (i - 1))))"
    proof cases
      case 1
      then show ?thesis using here by simp
    next
      case 2
      then show ?thesis by (rule later)
    qed
  qed
  have "plain x \<longrightarrow> list_all (\<lambda>l. plain (l_output l)) done \<longrightarrow>
            list_all (\<lambda>l. plain (l_output l)) cs"
    using pl plain_l by simp
  moreover have "length cs = length done + length (layer # todo)" using len by simp
  moreover have "store w' = store w \<and> next_id w' = next_id w" using sto st by simp
  ultimately show ?case using pre0 all by blast
qed

lemma noisy_stack_props:
  assumes "noisy_stack E x n_in p layers todo done w = (Inr cs, w')"
  shows "length cs = length done + length todo \<and>
         take (length done) cs = done \<and>
         (\<forall>i. length done \<le> i \<and> i < length cs \<longrightarrow>
            l_n_out (cs ! i) = snd (todo ! (i - length done)) \<and>
            l_n_in (cs ! i) = (if i = 0 then n_in else l_n_out (cs ! (i - 1))) \<and>
            l_input (cs ! i) =
              (if Suc i = length layers
               then Apply TrueDiv
                      [Apply Mul [Apply (MaxOver (Some 0)) [if i = 0 then x else l_output (cs ! (i - 1))],
                                  Random Binomial [Const (PyInt 1), Const (PyFloat p)]],
                       Const (PyFloat p)]
               else (if i = 0 then x else l_output (cs ! (i - 1)))))"
  using assms
proof (induction todo arbitrary: "done" w)
  case Nil
  then have "cs = done" and "w' = w" by simp_all
  then show ?case by auto
next
  case (Cons layer todo)
  let ?i = "length done"
  let ?prev = "if ?i = 0 then x else l_output (last done)"
  let ?n_in = "if ?i = 0 then n_in else l_n_out (last done)"
  let ?input = "if Suc ?i = length layers
                then Apply TrueDiv
                      [Apply Mul [Apply (MaxOver (Some 0)) [?prev],
                                  Random Binomial [Const (PyInt 1), Const (PyFloat p)]],
                       Const (PyFloat p)]
                else ?prev"
  let ?xargs = "if fst layer = ''R'' \<and> layer = last layers then Some False else None"
  from Cons.prems obtain l w1 where
    mk: "make_layer E (fst layer) ?input ?n_in (snd layer) ?xargs None None w = (Inr l, w1)"
    and rec: "noisy_stack E x n_in p layers todo (done @ [l]) w1 = (Inr cs, w')"
    by (auto simp: Let_def split: if_splits prod.splits sum.splits)
  note f = make_layer_fields [OF mk]
  from Cons.IH [OF rec] have
    len: "length cs = length (done @ [l]) + length todo"
    and pre: "take (length (done @ [l])) cs = done @ [l]"
    and ix: "\<forall>i. length (done @ [l]) \<le> i \<and> i < length cs \<longrightarrow>
            l_n_out (cs ! i) = snd (todo ! (i - length (done @ [l]))) \<and>
            l_n_in (cs ! i) = (if i = 0 then n_in else l_n_out (cs ! (i - 1))) \<and>
            l_input (cs ! i) =
              (if Suc i = length layers
               then Apply TrueDiv
                      [Apply Mul [Apply (MaxOver (Some 0)) [if i = 0 then x else l_output (cs ! (i - 1))],
                                  Random Binomial [Const (PyInt 1), Const (PyFloat p)]],
                       Const (PyFloat p)]
               else (if i = 0 then x else l_output (cs ! (i - 1))))"
    by blast+
  from pre have pre': "take (Suc ?i) cs = done @ [l]" by simp
  have at: "cs ! ?i = l" and pre0: "take ?i cs = done"
    and below: "\<And>k. k < ?i \<Longrightarrow> cs ! k = done ! k"
    using prefix_nth [OF pre' refl] by blast+
  have prev: "?i \<noteq> 0 \<Longrightarrow> cs ! (?i - 1) = last done"
  proof -
    assume nz: "?i \<noteq> 0"
    then have "cs ! (?i - 1) = done ! (?i - 1)" by (intro below) simp
    also have "\<dots> = last done" using nz by (simp add: last_conv_nth)
    finally show ?thesis .
  qed
  have here: "            l_n_out (cs ! ?i) = snd ((layer # todo) ! (?i - ?i)) \<and>
            l_n_in (cs ! ?i) = (if ?i = 0 then n_in else l_n_out (cs ! (?i - 1))) \<and>
            l_input (cs ! ?i) =
              (if Suc ?i = length layers
               then Apply TrueDiv
                      [Apply Mul [Apply (MaxOver (Some 0)) [if ?i = 0 then x else l_output (cs ! (?i - 1))],
                                  Random Binomial [Const (PyInt 1), Const (PyFloat p)]],
                       Const (PyFloat p)]
               else (if ?i = 0 then x else l_output (cs ! (?i - 1))))"
    using f(1,2,3) prev by (auto simp: at)
  have later: "\<And>i. ?i < i \<Longrightarrow> i < length cs \<Longrightarrow>
            l_n_out (cs ! i) = snd ((layer # todo) ! (i - ?i)) \<and>
            l_n_in (cs ! i) = (if i = 0 then n_in else l_n_out (cs ! (i - 1))) \<and>
            l_input (cs ! i) =
              (if Suc i = length layers
               then Apply TrueDiv
                      [Apply Mul [Apply (MaxOver (Some 0)) [if i = 0 then x else l_output (cs ! (i - 1))],
                                  Random Binomial [Const (PyInt 1), Const (PyFloat p)]],
                       Const (PyFloat p)]
               else (if i = 0 then x else l_output (cs ! (i - 1))))"
  proof -
    fix i assume a: "?i < i" "i < length cs"
    then have "length (done @ [l]) \<le> i \<and> i < length cs" by simp
    with ix have h: "            l_n_out (cs ! i) = snd (todo ! (i - length (done @ [l]))) \<and>
            l_n_in (cs ! i) = (if i = 0 then n_in else l_n_out (cs ! (i - 1))) \<and>
            l_input (cs ! i) =
              (if Suc i = length layers
               then Apply TrueDiv
                      [Apply Mul [Apply (MaxOver (Some 0)) [if i = 0 then x else l_output (cs ! (i - 1))],
                                  Random Binomial [Const (PyInt 1), Const (PyFloat p)]],
                       Const (PyFloat p)]
               else (if i = 0 then x else l_output (cs ! (i - 1))))"
      by blast
    have "(layer # todo) ! (i - ?i) = todo ! (i - length (done @ [l]))"
      using a by (simp add: nth_Cons')
    with h show "            l_n_out (cs ! i) = snd ((layer # todo) ! (i - ?i)) \<and>
            l_n_in (cs ! i) = (if i = 0 then n_in else l_n_out (cs ! (i - 1))) \<and>
            l_input (cs ! i) =
              (if Suc i = length layers
               then Apply TrueDiv
                      [Apply Mul [Apply (MaxOver (Some 0)) [if i = 0 then x else l_output (cs ! (i - 1))],
                                  Random Binomial [Const (PyInt 1), Const (PyFloat p)]],
                       Const (PyFloat p)]
               else (if i = 0 then x else l_output (cs ! (i - 1))))"
      by simp
  qed
  have all: "\<forall>i. ?i \<le> i \<and> i < length cs \<longrightarrow>
            l_n_out (cs ! i) = snd ((layer # todo) ! (i - ?i)) \<and>
            l_n_in (cs ! i) = (if i = 0 then n_in else l_n_out (cs ! (i - 1))) \<and>
            l_input (cs ! i) =
              (if Suc i = length layers
               then Apply TrueDiv
                      [Apply Mul [Apply (MaxOver (Some 0)) [if i = 0 then x else l_output (cs ! (i - 1))],
                                  Random Binomial [Const (PyInt 1), Const (PyFloat p)]],
                       Const (PyFloat p)]
               else (if i = 0 then x else l_output (cs ! (i - 1))))"
  proof (intro allI impI)
    fix i assume "?i \<le> i \<and> i < length cs"
    then consider "i = ?i" | "?i < i" "i < length cs" by linarith
    then show "            l_n_out (cs ! i) = snd ((layer # todo) ! (i - ?i)) \<and>
            l_n_in (cs ! i) = (if i = 0 then n_in else l_n_out (cs ! (i - 1))) \<and>
            l_input (cs ! i) =
              (if Suc i = length layers
               then Apply TrueDiv
                      [Apply Mul [Apply (MaxOver (Some 0)) [if i = 0 then x else l_output (cs ! (i - 1))],
                                  Random Binomial [Const (PyInt 1), Const (PyFloat p)]],
                       Const (PyFloat p)]
               else (if i = 0 then x else l_output (cs ! (i - 1))))"
    proof cases
      case 1
      then show ?thesis using here by simp
    next
      case 2
      then show ?thesis by (rule later)
    qed
  qed
  have "length cs = length done + length (layer # todo)" using len by simp
  then show ?case using pre0 all by blast
qed

lemma trainer_updates_keys:
  "trainer_updates E lr mom pgs ups w = (Inr us, w') \<Longrightarrow>
     fst ` set ups \<union> fst ` set pgs \<subseteq> fst ` set us"
proof (induction pgs arbitrary: ups w)
  case Nil
  then show ?case by simp
next
  case (Cons pg pgs)
  obtain param gparam where pg: "pg = (param, gparam)" by (cases pg)
  let ?plain = "ups @ [(param, Apply Sub [Shared param, Apply Mul [Const (PyFloat lr), gparam]])]"
  show ?case
  proof (cases "mom = None \<or> mom = Some 0")
    case True
    then have "trainer_updates E lr mom pgs ?plain w = (Inr us, w')"
      using Cons.prems by (auto simp: pg)
    from Cons.IH [OF this] show ?thesis by (auto simp: pg)
  next
    case False
    then obtain mu where mu: "mom = Some mu" "mu \<noteq> 0" by (cases mom) auto
    from Cons.prems obtain v zero where
      "trainer_updates E lr mom pgs
         (ups @ [(param, Apply Sub [Shared param, Shared (next_id w)]),
                 (next_id w, Apply Add [Apply Mul [Const (PyFloat mu), Shared (next_id w)],
                                        Apply Mul [Const (PyFloat lr), gparam]])])
         (snd (shared zero w)) = (Inr us, w')"
      by (auto simp: pg mu shared_def Let_def split: option.splits)
    from Cons.IH [OF this] show ?thesis by (auto simp: pg)
  qed
qed

lemma MLP_init_parts:
  assumes "MLP_init E n_in layers p l2 lr mom w0 = (Inr m, w)"
  shows "\<exists>w1 w2 w3 loss.
           noisy_stack E (Input ''x'') n_in p layers layers [] w1 = (Inr (mlp_layers m), w2) \<and>
           clean_stack E (Input ''x'') n_in (mlp_layers m) layers layers [] w2 =
             (Inr (mlp_clean_layers m), w3) \<and>
           2 \<le> length (mlp_clean_layers m) \<and>
           mlp_output m = theano_function [''x'']
             (Apply (ArgMaxOver (Some 1)) [l_output (last (mlp_clean_layers m))]) None \<and>
           mlp_transform m = theano_function [''x'']
             (Apply (MaxOver (Some 0))
                [l_output (mlp_clean_layers m ! (length (mlp_clean_layers m) - 2))]) None \<and>
           NeuralNetworkTrainer_init E [''x'', ''y''] loss (mlp_layers m) lr mom w3 =
             (Inr (mlp_trainer m), w)"
proof -
  let ?w1 = "w0\<lparr>rng := e_seed E (np_draws w0), np_draws := Suc (np_draws w0)\<rparr>"
  from assms obtain ls w2 where n: "noisy_stack E (Input ''x'') n_in p layers layers [] ?w1 = (Inr ls, w2)"
    by (auto simp: MLP_init_def Let_def split: prod.splits sum.splits)
  from assms n obtain cs w3 where c: "clean_stack E (Input ''x'') n_in ls layers layers [] w2 = (Inr cs, w3)"
    by (auto simp: MLP_init_def Let_def split: prod.splits sum.splits)
  from assms n c have len: "2 \<le> length cs"
    by (auto simp: MLP_init_def Let_def split: if_splits)
  from assms n c len obtain loss tr where
    t: "NeuralNetworkTrainer_init E [''x'', ''y''] loss ls lr mom w3 = (Inr tr, w)"
    and m: "m = \<lparr>mlp_layers = ls, mlp_clean_layers = cs,
                 mlp_output = theano_function [''x'']
                   (Apply (ArgMaxOver (Some 1)) [l_output (last cs)]) None,
                 mlp_transform = theano_function [''x'']
                   (Apply (MaxOver (Some 0)) [l_output (cs ! (length cs - 2))]) None,
                 mlp_trainer = tr\<rparr>"
    by (auto simp: MLP_init_def Let_def split: prod.splits sum.splits if_splits)
  show ?thesis
    using n c len t by (auto simp: m)
qed

lemma mlp0_init:
  "MLP_init abs_engine 3 [(''R'', 2), (''S'', 2)] (1 / 2) None (1 / 100) None world0 =
     (Inr mlp0, mlp0_world)"
  by (simp add: mlp0_def mlp0_world_def MLP_init_def world0_def Let_def make_layer_def type_map_def
      NeuralNetworkLayer_init_def shared_def NeuralNetworkTrainer_init_def abs_engine_simps)

lemma mlp0_layers:
  "map l_W (mlp_layers mlp0) = [0, 2]" "map l_b (mlp_layers mlp0) = [1, 3]"
  "map l_W (mlp_clean_layers mlp0) = [0, 2]" "map l_b (mlp_clean_layers mlp0) = [1, 3]"
  "map l_output (mlp_layers mlp0) =
     [Apply Mul [Const (NpArr (NpSignMask 2 2)),
                 Apply Maximum [Apply Add [Apply Dot [Input ''x'', Shared 0], Shared 1],
                                Const (PyInt 0)]],
      Apply Softmax
        [Apply Add [Apply Dot
           [dropout (1 / 2) (pooled
              (Apply Mul [Const (NpArr (NpSignMask 2 2)),
                 Apply Maximum [Apply Add [Apply Dot [Input ''x'', Shared 0], Shared 1],
                                Const (PyInt 0)]])),
            Shared 2], Shared 3]]]"
  "map l_output (mlp_clean_layers mlp0) =
     [Apply Mul [Const (NpArr (NpSignMask 5 2)),
                 Apply Maximum [Apply Add [Apply Dot [Input ''x'', Shared 0], Shared 1],
                                Const (PyInt 0)]],
      Apply Softmax
        [Apply Add [Apply Dot
           [pooled
              (Apply Mul [Const (NpArr (NpSignMask 5 2)),
                 Apply Maximum [Apply Add [Apply Dot [Input ''x'', Shared 0], Shared 1],
                                Const (PyInt 0)]]),
            Shared 2], Shared 3]]]"
  by (simp_all add: mlp0_def MLP_init_def world0_def Let_def make_layer_def type_map_def
      NeuralNetworkLayer_init_def shared_def NeuralNetworkTrainer_init_def abs_engine_simps
      pooled_def dropout_def)


lemma MLP_init_stacks:
  assumes init: "MLP_init E n_in layers p l2 lr mom w0 = (Inr m, w)"
  shows "2 \<le> length layers"
    and "length (mlp_layers m) = length layers"
    and "length (mlp_clean_layers m) = length layers"
    and "list_all (\<lambda>l. plain (l_output l)) (mlp_clean_layers m)"
    and "\<And>i. i < length layers \<Longrightarrow>
           l_W (mlp_clean_layers m ! i) = l_W (mlp_layers m ! i) \<and>
           l_b (mlp_clean_layers m ! i) = l_b (mlp_layers m ! i) \<and>
           l_n_out (mlp_clean_layers m ! i) = snd (layers ! i) \<and>
           l_n_out (mlp_layers m ! i) = snd (layers ! i) \<and>
           l_n_in (mlp_clean_layers m ! i) =
             (if i = 0 then n_in else l_n_out (mlp_clean_layers m ! (i - 1))) \<and>
           l_n_in (mlp_layers m ! i) =
             (if i = 0 then n_in else l_n_out (mlp_layers m ! (i - 1))) \<and>
           l_input (mlp_clean_layers m ! i) =
             (if Suc i = length layers
              then pooled (stack_input (Input ''x'') (mlp_clean_layers m) i)
              else stack_input (Input ''x'') (mlp_clean_layers m) i) \<and>
           l_input (mlp_layers m ! i) =
             (if Suc i = length layers
              then dropout p (pooled (stack_input (Input ''x'') (mlp_layers m) i))
              else stack_input (Input ''x'') (mlp_layers m) i)"
proof -
  from MLP_init_parts [OF init] obtain w1 w2 w3 loss where
    n: "noisy_stack E (Input ''x'') n_in p layers layers [] w1 = (Inr (mlp_layers m), w2)"
    and c: "clean_stack E (Input ''x'') n_in (mlp_layers m) layers layers [] w2 =
              (Inr (mlp_clean_layers m), w3)"
    and len: "2 \<le> length (mlp_clean_layers m)"
    by blast
  note np = noisy_stack_props [OF n]
  note cp = clean_stack_props [OF c]
  show ln: "length (mlp_layers m) = length layers" using np by simp
  show lc: "length (mlp_clean_layers m) = length layers" using cp by simp
  show "2 \<le> length layers" using len lc by simp
  show "list_all (\<lambda>l. plain (l_output l)) (mlp_clean_layers m)" using cp by simp
  fix i assume i: "i < length layers"
  from np i ln have
    "l_n_out (mlp_layers m ! i) = snd (layers ! i) \<and>
     l_n_in (mlp_layers m ! i) = (if i = 0 then n_in else l_n_out (mlp_layers m ! (i - 1))) \<and>
     l_input (mlp_layers m ! i) =
       (if Suc i = length layers
        then dropout p (pooled (stack_input (Input ''x'') (mlp_layers m) i))
        else stack_input (Input ''x'') (mlp_layers m) i)"
    by (simp add: dropout_def pooled_def stack_input_def)
  moreover from cp i lc have
    "l_W (mlp_clean_layers m ! i) = l_W (mlp_layers m ! i) \<and>
     l_b (mlp_clean_layers m ! i) = l_b (mlp_layers m ! i) \<and>
     l_n_out (mlp_clean_layers m ! i) = snd (layers ! i) \<and>
     l_n_in (mlp_clean_layers m ! i) =
       (if i = 0 then n_in else l_n_out (mlp_clean_layers m ! (i - 1))) \<and>
     l_input (mlp_clean_layers m ! i) =
       (if Suc i = length layers
        then pooled (stack_input (Input ''x'') (mlp_clean_layers m) i)
        else stack_input (Input ''x'') (mlp_clean_layers m) i)"
    by (simp add: pooled_def stack_input_def)
  ultimately show
    "l_W (mlp_clean_layers m ! i) = l_W (mlp_layers m ! i) \<and>
     l_b (mlp_clean_layers m ! i) = l_b (mlp_layers m ! i) \<and>
     l_n_out (mlp_clean_layers m ! i) = snd (layers ! i) \<and>
     l_n_out (mlp_layers m ! i) = snd (layers ! i) \<and>
     l_n_in (mlp_clean_layers m ! i) =
       (if i = 0 then n_in else l_n_out (mlp_clean_layers m ! (i - 1))) \<and>
     l_n_in (mlp_layers m ! i) =
       (if i = 0 then n_in else l_n_out (mlp_layers m ! (i - 1))) \<and>
     l_input (mlp_clean_layers m ! i) =
       (if Suc i = length layers
        then pooled (stack_input (Input ''x'') (mlp_clean_layers m) i)
        else stack_input (Input ''x'') (mlp_clean_layers m) i) \<and>
     l_input (mlp_layers m ! i) =
       (if Suc i = length layers
        then dropout p (pooled (stack_input (Input ''x'') (mlp_layers m) i))
        else stack_input (Input ''x'') (mlp_layers m) i)"
    by blast
qed

lemma MLP_init_functions:
  assumes init: "MLP_init E n_in layers p l2 lr mom w0 = (Inr m, w)"
  shows "mlp_output m = theano_function [''x'']
           (Apply (ArgMaxOver (Some 1)) [l_output (last (mlp_clean_layers m))]) None"
    and "mlp_transform m = theano_function [''x'']
           (pooled (l_output (mlp_clean_layers m ! (length layers - 2)))) None"
    and "set (map l_W (mlp_layers m)) \<union> set (map l_b (mlp_layers m))
           \<subseteq> fst ` set (f_updates (mlp_trainer m))"
proof -
  from MLP_init_parts [OF init] obtain w1 w2 w3 loss where
    o: "mlp_output m = theano_function [''x'']
             (Apply (ArgMaxOver (Some 1)) [l_output (last (mlp_clean_layers m))]) None"
    and t: "mlp_transform m = theano_function [''x'']
             (Apply (MaxOver (Some 0))
                [l_output (mlp_clean_layers m ! (length (mlp_clean_layers m) - 2))]) None"
    and tr: "NeuralNetworkTrainer_init E [''x'', ''y''] loss (mlp_layers m) lr mom w3 =
             (Inr (mlp_trainer m), w)"
    by blast
  show "mlp_output m = theano_function [''x'']
           (Apply (ArgMaxOver (Some 1)) [l_output (last (mlp_clean_layers m))]) None"
    by (rule o)
  show "mlp_transform m = theano_function [''x'']
           (pooled (l_output (mlp_clean_layers m ! (length layers - 2)))) None"
    using t MLP_init_stacks(3) [OF init] by (simp add: pooled_def)
  let ?params = "map l_W (mlp_layers m) @ map l_b (mlp_layers m)"
  from tr obtain us w4 w5 where
    tu: "trainer_updates E lr mom
           (zip ?params (map (\<lambda>param. Grad loss (Shared param) []) ?params)) [] w4 = (Inr us, w5)"
    and tf: "mlp_trainer m = theano_function [''x'', ''y''] loss (Some us)"
    by (auto simp: NeuralNetworkTrainer_init_def Let_def shared_def split: prod.splits sum.splits)
  have "map fst (zip ?params (map (\<lambda>param. Grad loss (Shared param) []) ?params)) = ?params"
    by (rule map_fst_zip) simp
  then have "fst ` set (zip ?params (map (\<lambda>param. Grad loss (Shared param) []) ?params)) = set ?params"
    by (metis set_map)
  then have "set ?params \<subseteq> fst ` set us"
    using trainer_updates_keys [OF tu] by blast
  then show "set (map l_W (mlp_layers m)) \<union> set (map l_b (mlp_layers m))
           \<subseteq> fst ` set (f_updates (mlp_trainer m))"
    by (simp add: tf theano_function_def)
qed

lemma activate_graph: "fst (activate act x w) = activation_graph act (np_draws w) x"
  by (cases act) simp_all

lemma make_layer_wired:
  assumes "make_layer E t x n_in n_out xm W b w = (Inr l, w')"
  shows "layer_wired l"
proof -
  from assms obtain act where l: "NeuralNetworkLayer_init E x n_in n_out act W b w = (l, w')"
    by (auto simp: make_layer_def split: option.splits prod.splits)
  then obtain iW ib w3 y where
    a: "activate act (Apply Add [Apply Dot [x, Shared iW], Shared ib]) w3 = (y, w')"
    and r: "l = \<lparr>l_n_in = n_in, l_n_out = n_out, l_input = x, l_W = iW, l_b = ib,
                 l_linear_output = Apply Dot [x, Shared iW], l_output = y\<rparr>"
    by (auto simp: NeuralNetworkLayer_init_def Let_def split: prod.splits)
  have "y = activation_graph act (np_draws w3) (Apply Add [Apply Dot [x, Shared iW], Shared ib])"
    using activate_graph [of act "Apply Add [Apply Dot [x, Shared iW], Shared ib]" w3] a by simp
  then show ?thesis
    unfolding layer_wired_def r by auto
qed

lemma clean_stack_wired:
  "clean_stack E x n_in ls layers todo done w = (Inr cs, w') \<Longrightarrow>
     list_all layer_wired done \<Longrightarrow> list_all layer_wired cs"
proof (induction todo arbitrary: "done" w)
  case Nil
  then show ?case by simp
next
  case (Cons layer todo)
  from Cons.prems(1) obtain t inp n_i n_o xm Wi bi l w1 where
    mk: "make_layer E t inp n_i n_o xm Wi bi w = (Inr l, w1)"
    and rec: "clean_stack E x n_in ls layers todo (done @ [l]) w1 = (Inr cs, w')"
    by (auto simp: Let_def split: if_splits prod.splits sum.splits)
  have "list_all layer_wired (done @ [l])"
    using Cons.prems(2) make_layer_wired [OF mk] by simp
  with Cons.IH [OF rec] show ?case by simp
qed

lemma noisy_stack_wired:
  "noisy_stack E x n_in p layers todo done w = (Inr cs, w') \<Longrightarrow>
     list_all layer_wired done \<Longrightarrow> list_all layer_wired cs"
proof (induction todo arbitrary: "done" w)
  case Nil
  then show ?case by simp
next
  case (Cons layer todo)
  from Cons.prems(1) obtain t inp n_i n_o xm Wi bi l w1 where
    mk: "make_layer E t inp n_i n_o xm Wi bi w = (Inr l, w1)"
    and rec: "noisy_stack E x n_in p layers todo (done @ [l]) w1 = (Inr cs, w')"
    by (auto simp: Let_def split: if_splits prod.splits sum.splits)
  have "list_all layer_wired (done @ [l])"
    using Cons.prems(2) make_layer_wired [OF mk] by simp
  with Cons.IH [OF rec] show ?case by simp
qed

lemma MLP_init_wired:
  assumes init: "MLP_init E n_in layers p l2 lr mom w0 = (Inr m, w)"
  shows "list_all layer_wired (mlp_layers m)" and "list_all layer_wired (mlp_clean_layers m)"
proof -
  from MLP_init_parts [OF init] obtain w1 w2 w3 where
    n: "noisy_stack E (Input ''x'') n_in p layers layers [] w1 = (Inr (mlp_layers m), w2)"
    and c: "clean_stack E (Input ''x'') n_in (mlp_layers m) layers layers [] w2 =
              (Inr (mlp_clean_layers m), w3)"
    by blast
  show "list_all layer_wired (mlp_layers m)"
    using noisy_stack_wired [OF n] by simp
  show "list_all layer_wired (mlp_clean_layers m)"
    using clean_stack_wired [OF c] by simp
qed

lemma make_layer_activation:
  assumes "make_layer E t x n_in n_out xm W b w = (Inr l, w')"
  shows "\<exists>act k. type_map t xm n_out = Some act \<and>
           l_output l = activation_graph act k (Apply Add [l_linear_output l, Shared (l_b l)])"
proof -
  from assms obtain act where tm: "type_map t xm n_out = Some act"
    and l: "NeuralNetworkLayer_init E x n_in n_out act W b w = (l, w')"
    by (auto simp: make_layer_def split: option.splits prod.splits)
  then obtain iW ib w3 y where
    a: "activate act (Apply Add [Apply Dot [x, Shared iW], Shared ib]) w3 = (y, w')"
    and r: "l = \<lparr>l_n_in = n_in, l_n_out = n_out, l_input = x, l_W = iW, l_b = ib,
                 l_linear_output = Apply Dot [x, Shared iW], l_output = y\<rparr>"
    by (auto simp: NeuralNetworkLayer_init_def Let_def split: prod.splits)
  have "y = activation_graph act (np_draws w3) (Apply Add [Apply Dot [x, Shared iW], Shared ib])"
    using activate_graph [of act "Apply Add [Apply Dot [x, Shared iW], Shared ib]" w3] a by simp
  then show ?thesis
    using tm unfolding r by auto
qed

lemma clean_stack_each:
  assumes run: "clean_stack E x n_in ls layers todo done w = (Inr cs, w')"
      and each: "\<And>layer inp n_i Wi bi w l w1.
                   make_layer E (fst layer) inp n_i (snd layer)
                     (if fst layer = ''R'' \<and> layer = last layers then Some False else None)
                     Wi bi w = (Inr l, w1) \<Longrightarrow> R layer l"
  shows "\<forall>i. length done \<le> i \<and> i < length cs \<longrightarrow> R (todo ! (i - length done)) (cs ! i)"
  using run
proof (induction todo arbitrary: "done" w)
  case Nil
  then have "cs = done" by simp
  then show ?case by auto
next
  case (Cons layer todo)
  from Cons.prems obtain inp n_i Wi bi l w1 where
    mk: "make_layer E (fst layer) inp n_i (snd layer)
           (if fst layer = ''R'' \<and> layer = last layers then Some False else None)
           Wi bi w = (Inr l, w1)"
    and rec: "clean_stack E x n_in ls layers todo (done @ [l]) w1 = (Inr cs, w')"
    by (auto simp: Let_def split: if_splits prod.splits sum.splits)
  from clean_stack_props [OF rec] have pre: "take (Suc (length done)) cs = done @ [l]"
    by simp
  have at: "cs ! length done = l"
    using prefix_nth(1) [OF pre refl] .
  show ?case
  proof (intro allI impI)
    fix i assume i: "length done \<le> i \<and> i < length cs"
    show "R ((layer # todo) ! (i - length done)) (cs ! i)"
    proof (cases "i = length done")
      case True
      then show ?thesis using each [OF mk] at by simp
    next
      case False
      with i have "length (done @ [l]) \<le> i \<and> i < length cs" by simp
      with Cons.IH [OF rec] have "R (todo ! (i - length (done @ [l]))) (cs ! i)" by blast
      moreover have "(layer # todo) ! (i - length done) = todo ! (i - length (done @ [l]))"
        using i False by (simp add: nth_Cons')
      ultimately show ?thesis by simp
    qed
  qed
qed

lemma noisy_stack_each:
  assumes run: "noisy_stack E x n_in p layers todo done w = (Inr cs, w')"
      and each: "\<And>layer inp n_i Wi bi w l w1.
                   make_layer E (fst layer) inp n_i (snd layer)
                     (if fst layer = ''R'' \<and> layer = last layers then Some False else None)
                     Wi bi w = (Inr l, w1) \<Longrightarrow> R layer l"
  shows "\<forall>i. length done \<le> i \<and> i < length cs \<longrightarrow> R (todo ! (i - length done)) (cs ! i)"
  using run
proof (induction todo arbitrary: "done" w)
  case Nil
  then have "cs = done" by simp
  then show ?case by auto
next
  case (Cons layer todo)
  from Cons.prems obtain inp n_i Wi bi l w1 where
    mk: "make_layer E (fst layer) inp n_i (snd layer)
           (if fst layer = ''R'' \<and> layer = last layers then Some False else None)
           Wi bi w = (Inr l, w1)"
    and rec: "noisy_stack E x n_in p layers todo (done @ [l]) w1 = (Inr cs, w')"
    by (auto simp: Let_def split: if_splits prod.splits sum.splits)
  from noisy_stack_props [OF rec] have pre: "take (Suc (length done)) cs = done @ [l]"
    by simp
  have at: "cs ! length done = l"
    using prefix_nth(1) [OF pre refl] .
  show ?case
  proof (intro allI impI)
    fix i assume i: "length done \<le> i \<and> i < length cs"
    show "R ((layer # todo) ! (i - length done)) (cs ! i)"
    proof (cases "i = length done")
      case True
      then show ?thesis using each [OF mk] at by simp
    next
      case False
      with i have "length (done @ [l]) \<le> i \<and> i < length cs" by simp
      with Cons.IH [OF rec] have "R (todo ! (i - length (done @ [l]))) (cs ! i)" by blast
      moreover have "(layer # todo) ! (i - length done) = todo ! (i - length (done @ [l]))"
        using i False by (simp add: nth_Cons')
      ultimately show ?thesis by simp
    qed
  qed
qed

lemma MLP_init_activations:
  assumes init: "MLP_init E n_in layers p l2 lr mom w0 = (Inr m, w)" and i: "i < length layers"
  shows "\<exists>act k k'.
           l_output (mlp_clean_layers m ! i) =
             activation_graph act k
               (Apply Add [l_linear_output (mlp_clean_layers m ! i), Shared (l_b (mlp_clean_layers m ! i))]) \<and>
           l_output (mlp_layers m ! i) =
             activation_graph act k'
               (Apply Add [l_linear_output (mlp_layers m ! i), Shared (l_b (mlp_layers m ! i))])"
proof -
  let ?R = "\<lambda>layer l. \<exists>act k.
      type_map (fst layer) (if fst layer = ''R'' \<and> layer = last layers then Some False else None)
        (snd layer) = Some act \<and>
      l_output l = activation_graph act k (Apply Add [l_linear_output l, Shared (l_b l)])"
  from MLP_init_parts [OF init] obtain w1 w2 w3 where
    n: "noisy_stack E (Input ''x'') n_in p layers layers [] w1 = (Inr (mlp_layers m), w2)"
    and c: "clean_stack E (Input ''x'') n_in (mlp_layers m) layers layers [] w2 =
              (Inr (mlp_clean_layers m), w3)"
    by blast
  have "\<forall>i. length ([] :: layer list) \<le> i \<and> i < length (mlp_layers m) \<longrightarrow>
          ?R (layers ! (i - length ([] :: layer list))) (mlp_layers m ! i)"
  proof (rule noisy_stack_each [where R = ?R, OF n])
    fix layer :: "string \<times> nat" and inp n_i Wi bi and wa :: "('a, 'b) world" and l w1
    assume "make_layer E (fst layer) inp n_i (snd layer)
              (if fst layer = ''R'' \<and> layer = last layers then Some False else None)
              Wi bi wa = (Inr l, w1)"
    then show "?R layer l" by (rule make_layer_activation)
  qed
  then have a: "?R (layers ! i) (mlp_layers m ! i)"
    using i MLP_init_stacks(2) [OF init] by simp
  have "\<forall>i. length ([] :: layer list) \<le> i \<and> i < length (mlp_clean_layers m) \<longrightarrow>
          ?R (layers ! (i - length ([] :: layer list))) (mlp_clean_layers m ! i)"
  proof (rule clean_stack_each [where R = ?R, OF c])
    fix layer :: "string \<times> nat" and inp n_i Wi bi and wa :: "('a, 'b) world" and l w1
    assume "make_layer E (fst layer) inp n_i (snd layer)
              (if fst layer = ''R'' \<and> layer = last layers then Some False else None)
              Wi bi wa = (Inr l, w1)"
    then show "?R layer l" by (rule make_layer_activation)
  qed
  then have b: "?R (layers ! i) (mlp_clean_layers m ! i)"
    using i MLP_init_stacks(3) [OF init] by simp
  from a b show ?thesis by force
qed

text \<open>
  Claim C8. In every perceptron that \<^verbatim>\<open>MLP.__init__\<close> builds, the clean stack has a
  layer for each layer of the noisy stack, of the same sizes and the same activation,
  and clean layer \<open>i\<close> holds and computes from the very shared variables \<open>W\<close> and \<open>b\<close>
  of noisy layer \<open>i\<close>, which are the variables the trainer updates. Both stacks chain their layers from the input
  \<open>x\<close> and pool over the set dimension before the last layer; the noisy stack then
  applies dropout, the clean stack does not and holds no random node at all.
  \<^verbatim>\<open>_output\<close> and \<^verbatim>\<open>transform\<close> are compiled from outputs of clean layers. (The two
  layers \<open>i\<close> apply their activation at different draws \<open>k\<close>, \<open>k'\<close> of
  \<^verbatim>\<open>numpy.random\<close>: the sign mask of a masked rectifier layer is a constant of each
  stack, drawn once for each.)
\<close>

theorem mlp_clean_stack:
  assumes init: "MLP_init E n_in layers p l2 lr mom w0 = (Inr m, w)"
  shows "2 \<le> length layers \<and>
         length (mlp_layers m) = length layers \<and>
         length (mlp_clean_layers m) = length layers \<and>
         (\<forall>i. i < length layers \<longrightarrow>
            l_W (mlp_clean_layers m ! i) = l_W (mlp_layers m ! i) \<and>
            l_b (mlp_clean_layers m ! i) = l_b (mlp_layers m ! i) \<and>
            l_n_in (mlp_clean_layers m ! i) = l_n_in (mlp_layers m ! i) \<and>
            l_n_out (mlp_clean_layers m ! i) = l_n_out (mlp_layers m ! i) \<and>
            (\<exists>act k k'.
               l_output (mlp_clean_layers m ! i) =
                 activation_graph act k
                   (Apply Add [Apply Dot [l_input (mlp_clean_layers m ! i),
                                          Shared (l_W (mlp_layers m ! i))],
                               Shared (l_b (mlp_layers m ! i))]) \<and>
               l_output (mlp_layers m ! i) =
                 activation_graph act k'
                   (Apply Add [Apply Dot [l_input (mlp_layers m ! i),
                                          Shared (l_W (mlp_layers m ! i))],
                               Shared (l_b (mlp_layers m ! i))])) \<and>
            l_input (mlp_clean_layers m ! i) =
              (if Suc i = length layers
               then pooled (stack_input (Input ''x'') (mlp_clean_layers m) i)
               else stack_input (Input ''x'') (mlp_clean_layers m) i) \<and>
            l_input (mlp_layers m ! i) =
              (if Suc i = length layers
               then dropout p (pooled (stack_input (Input ''x'') (mlp_layers m) i))
               else stack_input (Input ''x'') (mlp_layers m) i)) \<and>
         list_all (\<lambda>l. \<not> uses_rng (l_output l)) (mlp_clean_layers m) \<and>
         mlp_output m = theano_function [''x'']
           (Apply (ArgMaxOver (Some 1)) [l_output (last (mlp_clean_layers m))]) None \<and>
         mlp_transform m = theano_function [''x'']
           (pooled (l_output (mlp_clean_layers m ! (length layers - 2)))) None \<and>
         set (map l_W (mlp_layers m)) \<union> set (map l_b (mlp_layers m))
           \<subseteq> fst ` set (f_updates (mlp_trainer m))"
proof -
  note st = MLP_init_stacks [OF init]
  note fn = MLP_init_functions [OF init]
  note wi = MLP_init_wired [OF init]
  have norng: "list_all (\<lambda>l. \<not> uses_rng (l_output l)) (mlp_clean_layers m)"
    using st(4) plain_no_rng by (auto simp: list_all_iff)
  have each: "\<forall>i. i < length layers \<longrightarrow>
            l_W (mlp_clean_layers m ! i) = l_W (mlp_layers m ! i) \<and>
            l_b (mlp_clean_layers m ! i) = l_b (mlp_layers m ! i) \<and>
            l_n_in (mlp_clean_layers m ! i) = l_n_in (mlp_layers m ! i) \<and>
            l_n_out (mlp_clean_layers m ! i) = l_n_out (mlp_layers m ! i) \<and>
            (\<exists>act k k'.
               l_output (mlp_clean_layers m ! i) =
                 activation_graph act k
                   (Apply Add [Apply Dot [l_input (mlp_clean_layers m ! i),
                                          Shared (l_W (mlp_layers m ! i))],
                               Shared (l_b (mlp_layers m ! i))]) \<and>
               l_output (mlp_layers m ! i) =
                 activation_graph act k'
                   (Apply Add [Apply Dot [l_input (mlp_layers m ! i),
                                          Shared (l_W (mlp_layers m ! i))],
                               Shared (l_b (mlp_layers m ! i))])) \<and>
            l_input (mlp_clean_layers m ! i) =
              (if Suc i = length layers
               then pooled (stack_input (Input ''x'') (mlp_clean_layers m) i)
               else stack_input (Input ''x'') (mlp_clean_layers m) i) \<and>
            l_input (mlp_layers m ! i) =
              (if Suc i = length layers
               then dropout p (pooled (stack_input (Input ''x'') (mlp_layers m) i))
               else stack_input (Input ''x'') (mlp_layers m) i)"
  proof (intro allI impI)
    fix i assume i: "i < length layers"
    note a = st(5) [OF i]
    have wc: "layer_wired (mlp_clean_layers m ! i)" and wn: "layer_wired (mlp_layers m ! i)"
      using wi i st(2,3) by (simp_all add: list_all_length)
    from MLP_init_activations [OF init i] obtain act k k' where
      "l_output (mlp_clean_layers m ! i) =
         activation_graph act k
           (Apply Add [l_linear_output (mlp_clean_layers m ! i), Shared (l_b (mlp_clean_layers m ! i))])"
      and "l_output (mlp_layers m ! i) =
         activation_graph act k'
           (Apply Add [l_linear_output (mlp_layers m ! i), Shared (l_b (mlp_layers m ! i))])"
      by blast
    then have acts: "\<exists>act k k'.
               l_output (mlp_clean_layers m ! i) =
                 activation_graph act k
                   (Apply Add [Apply Dot [l_input (mlp_clean_layers m ! i),
                                          Shared (l_W (mlp_layers m ! i))],
                               Shared (l_b (mlp_layers m ! i))]) \<and>
               l_output (mlp_layers m ! i) =
                 activation_graph act k'
                   (Apply Add [Apply Dot [l_input (mlp_layers m ! i),
                                          Shared (l_W (mlp_layers m ! i))],
                               Shared (l_b (mlp_layers m ! i))])"
      using wc wn a unfolding layer_wired_def by metis
    have prev: "i \<noteq> 0 \<Longrightarrow> l_n_out (mlp_clean_layers m ! (i - 1)) = l_n_out (mlp_layers m ! (i - 1))"
    proof -
      assume "i \<noteq> 0"
      then have "i - 1 < length layers" using i by simp
      from st(5) [OF this] show ?thesis by simp
    qed
    have "l_n_in (mlp_clean_layers m ! i) = l_n_in (mlp_layers m ! i)"
      using a prev by (cases "i = 0") simp_all
    then show "l_W (mlp_clean_layers m ! i) = l_W (mlp_layers m ! i) \<and>
            l_b (mlp_clean_layers m ! i) = l_b (mlp_layers m ! i) \<and>
            l_n_in (mlp_clean_layers m ! i) = l_n_in (mlp_layers m ! i) \<and>
            l_n_out (mlp_clean_layers m ! i) = l_n_out (mlp_layers m ! i) \<and>
            (\<exists>act k k'.
               l_output (mlp_clean_layers m ! i) =
                 activation_graph act k
                   (Apply Add [Apply Dot [l_input (mlp_clean_layers m ! i),
                                          Shared (l_W (mlp_layers m ! i))],
                               Shared (l_b (mlp_layers m ! i))]) \<and>
               l_output (mlp_layers m ! i) =
                 activation_graph act k'
                   (Apply Add [Apply Dot [l_input (mlp_layers m ! i),
                                          Shared (l_W (mlp_layers m ! i))],
                               Shared (l_b (mlp_layers m ! i))])) \<and>
            l_input (mlp_clean_layers m ! i) =
              (if Suc i = length layers
               then pooled (stack_input (Input ''x'') (mlp_clean_layers m) i)
               else stack_input (Input ''x'') (mlp_clean_layers m) i) \<and>
            l_input (mlp_layers m ! i) =
              (if Suc i = length layers
               then dropout p (pooled (stack_input (Input ''x'') (mlp_layers m) i))
               else stack_input (Input ''x'') (mlp_layers m) i)"
      using a acts by simp
  qed
  show ?thesis
    using st(1,2,3) each norng fn by blast
qed



theorem mlp_clean_stack_witness:
  "MLP_init abs_engine 3 [(''R'', 2), (''S'', 2)] (1 / 2) None (1 / 100) None world0 =
     (Inr mlp0, mlp0_world) \<and>
   map l_W (mlp_clean_layers mlp0) = [0, 2] \<and> map l_W (mlp_layers mlp0) = [0, 2] \<and>
   map l_b (mlp_clean_layers mlp0) = [1, 3] \<and> map l_b (mlp_layers mlp0) = [1, 3] \<and>
   l_input (mlp_clean_layers mlp0 ! 1) = pooled (l_output (mlp_clean_layers mlp0 ! 0)) \<and>
   l_input (mlp_layers mlp0 ! 1) = dropout (1 / 2) (pooled (l_output (mlp_layers mlp0 ! 0))) \<and>
   f_output (mlp_transform mlp0) = pooled (l_output (mlp_clean_layers mlp0 ! 0)) \<and>
   {0, 1, 2, 3} \<subseteq> fst ` set (f_updates (mlp_trainer mlp0))"
proof -
  note t = mlp_clean_stack [OF mlp0_init]
  have l: "length [(''R'', 2 :: nat), (''S'', 2)] = 2" by simp
  from t have i1: "l_input (mlp_clean_layers mlp0 ! 1) =
                     pooled (stack_input (Input ''x'') (mlp_clean_layers mlp0) 1)"
    and n1: "l_input (mlp_layers mlp0 ! 1) =
               dropout (1 / 2) (pooled (stack_input (Input ''x'') (mlp_layers mlp0) 1))"
    by (simp_all add: l)
  from t have tr: "f_output (mlp_transform mlp0) = pooled (l_output (mlp_clean_layers mlp0 ! 0))"
    by (simp add: theano_function_def)
  from t have up: "set (map l_W (mlp_layers mlp0)) \<union> set (map l_b (mlp_layers mlp0))
                     \<subseteq> fst ` set (f_updates (mlp_trainer mlp0))"
    by blast
  show ?thesis
    using i1 n1 tr up mlp0_init by (simp add: mlp0_layers stack_input_def)
qed

text \<open>
  Claim C7. The graphs of \<^verbatim>\<open>_output\<close> and \<^verbatim>\<open>transform\<close> hold no random node: sign
  masks of rectifier layers are constants put into the graph when the model is built.
  A call changes nothing (no update, no advance of the random streams), and its result
  is the same in any two states that give the shared variables the same values,
  whatever the state of the random streams: so two calls on the same input return the
  same result.
\<close>

theorem mlp_inference_deterministic:
  assumes init: "MLP_init E n_in layers p l2 lr mom w0 = (Inr m, w)"
      and same: "store w1 = store w2"
  shows "fst (call_function E (mlp_output m) xs w1) = fst (call_function E (mlp_output m) xs w2) \<and>
         fst (call_function E (mlp_transform m) xs w1) =
           fst (call_function E (mlp_transform m) xs w2) \<and>
         snd (call_function E (mlp_output m) xs w1) = w1 \<and>
         snd (call_function E (mlp_transform m) xs w1) = w1 \<and>
         \<not> uses_rng (f_output (mlp_output m)) \<and> \<not> uses_rng (f_output (mlp_transform m))"
proof -
  note st = MLP_init_stacks [OF init]
  note fn = MLP_init_functions [OF init]
  have ne: "mlp_clean_layers m \<noteq> []" using st(1,3) by auto
  have pl: "\<And>l. l \<in> set (mlp_clean_layers m) \<Longrightarrow> plain (l_output l)"
    using st(4) by (simp add: list_all_iff)
  have p1: "plain (f_output (mlp_output m))"
    using pl [of "last (mlp_clean_layers m)"] ne by (simp add: fn(1) theano_function_def)
  have "length layers - 2 < length (mlp_clean_layers m)" using st(1,3) by simp
  then have "mlp_clean_layers m ! (length layers - 2) \<in> set (mlp_clean_layers m)"
    by (rule nth_mem)
  then have p2: "plain (f_output (mlp_transform m))"
    using pl by (simp add: fn(2) theano_function_def pooled_def)
  have u1: "f_updates (mlp_output m) = []" and u2: "f_updates (mlp_transform m) = []"
    by (simp_all add: fn theano_function_def)
  have still: "\<And>f. plain (f_output f) \<Longrightarrow> f_updates f = [] \<Longrightarrow> snd (call_function E f xs w1) = w1"
    by (auto simp: call_function_def Let_def dest: plain_no_rng split: option.splits)
  show ?thesis
    using call_function_plain [OF p1 u1 same] call_function_plain [OF p2 u2 same]
      still [OF p1 u1] still [OF p2 u2] plain_no_rng [OF p1] plain_no_rng [OF p2]
    by blast
qed

theorem mlp_inference_deterministic_witness:
  "MLP_init abs_engine 3 [(''R'', 2), (''S'', 2)] (1 / 2) None (1 / 100) None world0 =
     (Inr mlp0, mlp0_world) \<and>
   store mlp0_world = store (mlp0_world\<lparr>np_draws := 99\<rparr>) \<and>
   fst (call_function abs_engine (mlp_output mlp0) [ATensor [5, 3]] mlp0_world) =
     fst (call_function abs_engine (mlp_output mlp0) [ATensor [5, 3]] (mlp0_world\<lparr>np_draws := 99\<rparr>)) \<and>
   snd (call_function abs_engine (mlp_output mlp0) [ATensor [5, 3]] mlp0_world) = mlp0_world \<and>
   \<not> uses_rng (f_output (mlp_output mlp0))"
proof -
  have same: "store mlp0_world = store (mlp0_world\<lparr>np_draws := 99\<rparr>)" by simp
  from mlp_inference_deterministic [OF mlp0_init same, of "[ATensor [5, 3]]"]
  show ?thesis using mlp0_init by simp
qed

section \<open>Saving and loading across two models\<close>

lemma softmax_order:
  "exp (- 1 :: real) / (exp 1 + exp (- 1)) < exp 1 / (exp 1 + exp (- 1))"
  "exp (- 1 :: real) / (exp (- 1) + exp 1) < exp 1 / (exp (- 1) + exp 1)"
proof -
  have "0 < exp (1::real) + exp (- 1)" and "0 < exp (- 1) + exp (1::real)"
    by (simp_all add: add_pos_pos)
  then show "exp (- 1 :: real) / (exp 1 + exp (- 1)) < exp 1 / (exp 1 + exp (- 1))"
    and "exp (- 1 :: real) / (exp (- 1) + exp 1) < exp 1 / (exp (- 1) + exp 1)"
    by (simp_all add: divide_strict_right_mono)
qed

lemmas mlp_run =
  MLP_init_def Let_def make_layer_def type_map_def NeuralNetworkLayer_init_def shared_def
  NeuralNetworkTrainer_init_def theano_function_def

lemma mlpAB_graphs:
  "map l_W (mlp_layers mlpA) = [0, 2]" "map l_b (mlp_layers mlpA) = [1, 3]"
  "map l_W (mlp_layers mlpB) = [5, 7]" "map l_b (mlp_layers mlpB) = [6, 8]"
  "f_output (mlp_output mlpA) =
     Apply (ArgMaxOver (Some 1))
       [Apply Softmax [Apply Add [Apply Dot
          [Apply (MaxOver (Some 0))
             [Apply Mul [Const (NpArr (NpSignMask 5 1)),
                Apply Maximum [Apply Add [Apply Dot [Input ''x'', Shared 0], Shared 1],
                               Const (PyInt 0)]]],
           Shared 2], Shared 3]]]"
  "f_output (mlp_output mlpB) =
     Apply (ArgMaxOver (Some 1))
       [Apply Softmax [Apply Add [Apply Dot
          [Apply (MaxOver (Some 0))
             [Apply Mul [Const (NpArr (NpSignMask 12 1)),
                Apply Maximum [Apply Add [Apply Dot [Input ''x'', Shared 5], Shared 6],
                               Const (PyInt 0)]]],
           Shared 7], Shared 8]]]"
  by (simp_all add: mlpA_def mlpB_def worldA_def num_world0_def num_engine_def mlp_run)

text \<open>
  Claim C6, on a concrete run. The first perceptron saves its parameters to
  \<^verbatim>\<open>W_0.npy\<close>, \<^verbatim>\<open>b_0.npy\<close>, \<^verbatim>\<open>W_1.npy\<close>, \<^verbatim>\<open>b_1.npy\<close>, and the second one, of the
  same layer structure, loads them: afterwards its \<open>W\<close> and \<open>b\<close> hold the very arrays the
  first one saved. Yet on the input \<open>[[1]]\<close> the first model answers class 0 and the
  second, after loading, class 1. \<^verbatim>\<open>save\<close> writes \<open>W\<close> and \<open>b\<close> only; the sign mask of
  the rectifier layer, which \<^verbatim>\<open>_output\<close> also depends on, was drawn anew when the
  second model was built (draw 12 instead of draw 5) and is not restored by \<^verbatim>\<open>load\<close>.
\<close>

theorem save_load_into_second_model:
  "MLP_save mlpA worldT Map.empty = Inr filesA \<and>
   MLP_load mlpB filesA worldT = Inr worldL \<and>
   map (store worldL) (map l_W (mlp_layers mlpB)) = map (store worldT) (map l_W (mlp_layers mlpA)) \<and>
   map (store worldL) (map l_b (mlp_layers mlpB)) = map (store worldT) (map l_b (mlp_layers mlpA)) \<and>
   map (store worldL) (map l_W (mlp_layers mlpB)) = [Some (Mat [[1]]), Some (Mat [[1, - 1]])] \<and>
   map (store worldL) (map l_b (mlp_layers mlpB)) = [Some (Vec [0]), Some (Vec [0, 0])] \<and>
   fst (call_function num_engine (mlp_output mlpA) [Mat [[1]]] worldT) = Inr (IVec [0]) \<and>
   fst (call_function num_engine (mlp_output mlpB) [Mat [[1]]] worldL) = Inr (IVec [1])"
  using softmax_order
  by (simp add: filesA_def worldL_def mlpA_def mlpB_def worldA_def worldB_def worldT_def
      num_world0_def num_engine_def mlp_run MLP_save_def MLP_load_def W_file_def b_file_def
      call_function_def vec_mat_def softmax_row_def transpose.simps not_less less_imp_le)

end
